theory Spec2Isabelle
  imports Complex_Main "HOL-Library.Log_Nat"
begin

section \<open>Data model\<close>

text \<open>
  The backend keeps two parallel document types, BAPB (goods receipt) and BAPP (work
  progress), in a remote relational store reached through a query-builder client.
  Rows are records, tables are lists of rows, enumerated columns are datatypes.
  Identifiers are UUID strings; timestamps are milliseconds since the epoch;
  JavaScript numbers are modelled as exact rationals.
\<close>

type_synonym uuid = string

datatype status = Draft | Submitted | In_review | Approved | Rejected | Revision_required

datatype approval_action = Act_approved | Act_rejected | Act_revision_required

datatype role = R_vendor | R_vendor_barang | R_vendor_jasa | R_pic_gudang | R_admin | R_approver

datatype file_type = Signature | Supporting_doc

record user_row =
  user_id :: uuid
  user_name :: string
  user_role :: role
  is_active :: bool

record bapb_row =
  bapb_id :: uuid
  bapb_number :: string
  bapb_vendor_id :: uuid
  pic_gudang_id :: "uuid option"
  order_number :: string
  delivery_date :: string
  bapb_notes :: "string option"
  bapb_status :: status
  bapb_rejection_reason :: "string option"
  bapb_created_at :: int

record bapb_item_row =
  item_bapb_id :: uuid
  item_name :: "string option"
  quantity_ordered :: "rat option"
  quantity_received :: "rat option"
  item_unit :: "string option"
  item_condition :: "string option"
  item_notes :: "string option"

record bapp_row =
  bapp_id :: uuid
  bapp_number :: string
  bapp_vendor_id :: uuid
  direksi_pekerjaan_id :: "uuid option"
  contract_number :: string
  project_name :: string
  project_location :: string
  start_date :: string
  end_date :: string
  completion_date :: "string option"
  bapp_notes :: "string option"
  bapp_status :: status
  bapp_rejection_reason :: "string option"
  total_progress :: rat
  bapp_created_at :: int

record bapp_work_item_row =
  wi_bapp_id :: uuid
  work_item_name :: "string option"
  planned_progress :: rat
  actual_progress :: rat
  wi_unit :: "string option"
  quality :: string
  wi_notes :: "string option"

text \<open>
  The approval and attachment tables of the two document types have the same columns
  (\<open>bapb_id\<close> or \<open>bapp_id\<close> is \<open>doc_id\<close> here).
\<close>

record approval_row =
  doc_id :: uuid
  approver_id :: uuid
  action :: approval_action
  approval_notes :: "string option"

record attachment_row =
  att_doc_id :: uuid
  att_file_type :: file_type
  file_path :: string
  file_name :: string
  uploaded_by :: uuid

record payment_log_row =
  document_type :: string
  document_id :: uuid
  document_number :: string
  pl_vendor_id :: uuid
  amount :: "rat option"
  payment_method :: string
  pl_status :: string
  transaction_id :: string

text \<open>
  Of a notification the recipient, the event type, the related document and the
  priority are kept; title, message text, action link and metadata are presentation.
\<close>

record notification_row =
  n_user_id :: uuid
  n_type :: string
  related_document_type :: string
  related_document_id :: uuid
  related_document_number :: string
  priority :: string

section \<open>The store and its failures\<close>

text \<open>
  Every call to the store is one network request and can fail on its own; there are no
  transactions. A run of an operation is played against a fault map: \<open>F c = Some m\<close>
  says that the call made at site \<open>c\<close> fails with message \<open>m\<close> and has no effect.
  The journal lists the write calls issued so far, in order, each with its outcome, so
  that "before any write" and "before the notification" can be stated.
\<close>

datatype store_call =
    FindDoc | RefetchDoc | CountDocs | InsertDoc | UpdateDoc | DeleteDoc
  | InsertItems | DeleteItems | FindApproval | InsertApproval | FindSignature
  | FindUser | FindRecipients | InsertNotification | QueryPaymentLogs | InsertPaymentLog

type_synonym faults = "store_call \<Rightarrow> string option"

datatype error =
    StoreError store_call string
  | ReferenceError string
  | JsError string

fun error_message :: "error \<Rightarrow> string" where
  "error_message (StoreError c m) = m"
| "error_message (ReferenceError m) = m"
| "error_message (JsError m) = m"

record store =
  users :: "user_row list"
  bapb :: "bapb_row list"
  bapb_items :: "bapb_item_row list"
  bapb_approvals :: "approval_row list"
  bapb_attachments :: "attachment_row list"
  bapp :: "bapp_row list"
  bapp_work_items :: "bapp_work_item_row list"
  bapp_approvals :: "approval_row list"
  bapp_attachments :: "attachment_row list"
  payment_logs :: "payment_log_row list"
  notifications :: "notification_row list"
  journal :: "(store_call \<times> bool) list"

definition issued :: "store_call \<Rightarrow> bool \<Rightarrow> store \<Rightarrow> store" where
  "issued c ok s = s\<lparr>journal := journal s @ [(c, ok)]\<rparr>"

text \<open>
  The client's \<open>.single()\<close> answers with the row when the query matches exactly one
  row and with error code PGRST116 and no data otherwise; \<open>.maybeSingle()\<close> answers
  with no data and no error when nothing matches.
\<close>

datatype 'a single_result = Row 'a | PGRST116

definition single :: "'a list \<Rightarrow> 'a single_result" where
  "single rows = (case rows of [r] \<Rightarrow> Row r | _ \<Rightarrow> PGRST116)"

definition maybeSingle :: "'a list \<Rightarrow> 'a option single_result" where
  "maybeSingle rows = (case rows of [] \<Rightarrow> Row None | [r] \<Rightarrow> Row (Some r) | _ \<Rightarrow> PGRST116)"

section \<open>JavaScript values\<close>

text \<open>
  A request field is absent (\<open>None\<close>) or holds a value. \<open>a || b\<close> yields \<open>a\<close> when
  \<open>a\<close> is truthy (a non-empty string, a non-zero number) and \<open>b\<close> otherwise.
\<close>

definition js_or_str :: "string option \<Rightarrow> string option \<Rightarrow> string option" where
  "js_or_str a b = (case a of Some x \<Rightarrow> if x \<noteq> [] then Some x else b | None \<Rightarrow> b)"

definition js_or_num :: "rat option \<Rightarrow> rat option \<Rightarrow> rat option" where
  "js_or_num a b = (case a of Some x \<Rightarrow> if x \<noteq> 0 then Some x else b | None \<Rightarrow> b)"

definition truthy_str :: "string option \<Rightarrow> bool" where
  "truthy_str a = (case a of Some x \<Rightarrow> x \<noteq> [] | None \<Rightarrow> False)"

text \<open>
  A string is a list of 8-bit characters, read as the code points U+0000 to U+00FF.
  Of these \<open>String.prototype.trim\<close> strips the white space and line terminators
  blank, tab, line feed, vertical tab, form feed, carriage return and the no-break
  space U+00A0; the white space beyond U+00FF is outside the strings modelled.
\<close>

definition is_space :: "char \<Rightarrow> bool" where
  "is_space c \<longleftrightarrow>
     c \<in> set [CHR '' '', CHR 0x09, CHR 0x0A, CHR 0x0B, CHR 0x0C, CHR 0x0D, CHR 0xA0]"

definition trim :: "string \<Rightarrow> string" where
  "trim s = rev (dropWhile is_space (rev (dropWhile is_space s)))"

text \<open>\<open>!reason || reason.trim().length === 0\<close>\<close>

definition reason_missing :: "string option \<Rightarrow> bool" where
  "reason_missing r = (case r of None \<Rightarrow> True | Some x \<Rightarrow> x = [] \<or> length (trim x) = 0)"

text \<open>Decimal rendering of a number and \<open>padStart\<close>.\<close>

definition digit :: "nat \<Rightarrow> char" where
  "digit d = ''0123456789'' ! d"

function string_of_nat :: "nat \<Rightarrow> string" where
  "string_of_nat n = (if n < 10 then [digit n] else string_of_nat (n div 10) @ [digit (n mod 10)])"
  by pat_completeness auto

termination
  by (relation "measure id") auto

declare string_of_nat.simps [simp del]

definition padStart :: "nat \<Rightarrow> char \<Rightarrow> string \<Rightarrow> string" where
  "padStart w c s = replicate (w - length s) c @ s"

text \<open>
  A JavaScript number is an IEEE 754 double. A finite double is carried by its exact
  rational value, and every arithmetic operation is the exact operation followed by
  \<open>fl\<close>, the rounding to the nearest double: with \<open>2 ^ e \<le> \<bar>x\<bar> < 2 ^ (e + 1)\<close> the
  doubles around \<open>x\<close> are the multiples of \<open>2 ^ (e - 52)\<close>, and of \<open>2 ^ - 1074\<close> in the
  subnormal range; a tie goes to the even multiple. The same rounding reads the decimal
  literal of a number in a request body. Results of magnitude \<open>2 ^ 1024\<close> and more
  (\<open>Infinity\<close>) and \<open>NaN\<close> are not modelled.
\<close>

definition floor_log2 :: "rat \<Rightarrow> int" where
  "floor_log2 x =
     (case quotient_of x of
        (a, b) \<Rightarrow> let k = bitlen a - bitlen b in if 2 powi k \<le> x then k else k - 1)"

definition round_half_even :: "rat \<Rightarrow> int" where
  "round_half_even y =
     (let n = \<lfloor>y\<rfloor>; r = y - of_int n
      in if r < 1 / 2 then n else if 1 / 2 < r then n + 1 else if even n then n else n + 1)"

definition fl :: "rat \<Rightarrow> rat" where
  "fl x =
     (if x = 0 then 0
      else let q = max (floor_log2 \<bar>x\<bar> - 52) (- 1074)
           in sgn x * of_int (round_half_even (\<bar>x\<bar> / 2 powi q)) * 2 powi q)"

text \<open>
  \<open>Number.prototype.toFixed(2)\<close>, for magnitudes below 10 to the 21: the integer
  \<open>n\<close> for which \<open>n / 100\<close> is nearest to the magnitude (the larger one on a tie),
  written with two decimals, after a minus sign when the number is negative.
\<close>

definition round2 :: "rat \<Rightarrow> nat" where
  "round2 x = nat \<lfloor>\<bar>x\<bar> * 100 + 1 / 2\<rfloor>"

definition fixed2 :: "bool \<Rightarrow> nat \<Rightarrow> string" where
  "fixed2 neg n =
     (if neg then ''-'' else []) @ string_of_nat (n div 100) @ ''.''
       @ padStart 2 (CHR ''0'') (string_of_nat (n mod 100))"

definition toFixed2 :: "rat \<Rightarrow> string" where
  "toFixed2 x = fixed2 (x < 0) (round2 x)"

text \<open>
  A numeric column takes a JavaScript number as it is and a decimal string (sign,
  digits, point, digits) by its value.
\<close>

definition digit_value :: "char \<Rightarrow> nat" where
  "digit_value c = of_char c - 48"

definition parse_nat :: "string \<Rightarrow> nat" where
  "parse_nat cs = foldl (\<lambda>acc c. 10 * acc + digit_value c) 0 cs"

definition parse_decimal :: "string \<Rightarrow> rat" where
  "parse_decimal cs =
     (let neg = (cs \<noteq> [] \<and> hd cs = CHR ''-'');
          body = (if neg then tl cs else cs);
          ip = takeWhile (\<lambda>c. c \<noteq> CHR ''.'') body;
          fp = drop (Suc (length ip)) body;
          v = of_nat (parse_nat ip) + of_nat (parse_nat fp) / 10 ^ length fp
      in if neg then - v else v)"

definition to_numeric :: "rat + string \<Rightarrow> rat" where
  "to_numeric v = (case v of Inl x \<Rightarrow> x | Inr cs \<Rightarrow> parse_decimal cs)"

section \<open>Repositories\<close>

subsection \<open>BaseRepository\<close>

text \<open>\<open>findById\<close>: PGRST116 is "not found" (null), any other error is thrown.\<close>

definition findById ::
  "store_call \<Rightarrow> faults \<Rightarrow> ('r \<Rightarrow> uuid) \<Rightarrow> 'r list \<Rightarrow> uuid \<Rightarrow> error + 'r option" where
  "findById c F key rows i =
     (case F c of
        Some m \<Rightarrow> Inl (StoreError c m)
      | None \<Rightarrow> (case single (filter (\<lambda>r. key r = i) rows) of
                   Row r \<Rightarrow> Inr (Some r)
                 | PGRST116 \<Rightarrow> Inr None))"

text \<open>
  \<open>update(id, data)\<close> patches every row with that id and then asks for
  \<open>.single()\<close>: it throws unless exactly one row was patched.
\<close>

definition update_rows ::
  "faults \<Rightarrow> ('r \<Rightarrow> uuid) \<Rightarrow> ('r \<Rightarrow> 'r) \<Rightarrow> 'r list \<Rightarrow> uuid \<Rightarrow> (error + 'r) \<times> 'r list" where
  "update_rows F key patch rows i =
     (case F UpdateDoc of
        Some m \<Rightarrow> (Inl (StoreError UpdateDoc m), rows)
      | None \<Rightarrow>
          (let rows' = map (\<lambda>r. if key r = i then patch r else r) rows in
           (case single (filter (\<lambda>r. key r = i) rows') of
              Row r \<Rightarrow> (Inr r, rows')
            | PGRST116 \<Rightarrow> (Inl (StoreError UpdateDoc ''PGRST116''), rows'))))"

subsection \<open>Patches sent by the controllers\<close>

record bapb_patch =
  set_order_number :: "string option"
  set_delivery_date :: "string option"
  set_bapb_notes :: "string option option"
  set_bapb_status :: "status option"
  set_bapb_rejection_reason :: "string option option"
  set_pic_gudang_id :: "uuid option"

definition empty_bapb_patch :: bapb_patch where
  "empty_bapb_patch =
     \<lparr>set_order_number = None, set_delivery_date = None, set_bapb_notes = None,
      set_bapb_status = None, set_bapb_rejection_reason = None, set_pic_gudang_id = None\<rparr>"

definition apply_bapb_patch :: "bapb_patch \<Rightarrow> bapb_row \<Rightarrow> bapb_row" where
  "apply_bapb_patch p r =
     r\<lparr>order_number := (case set_order_number p of Some v \<Rightarrow> v | None \<Rightarrow> order_number r),
       delivery_date := (case set_delivery_date p of Some v \<Rightarrow> v | None \<Rightarrow> delivery_date r),
       bapb_notes := (case set_bapb_notes p of Some v \<Rightarrow> v | None \<Rightarrow> bapb_notes r),
       bapb_status := (case set_bapb_status p of Some v \<Rightarrow> v | None \<Rightarrow> bapb_status r),
       bapb_rejection_reason :=
         (case set_bapb_rejection_reason p of Some v \<Rightarrow> v | None \<Rightarrow> bapb_rejection_reason r),
       pic_gudang_id := (case set_pic_gudang_id p of Some v \<Rightarrow> Some v | None \<Rightarrow> pic_gudang_id r)\<rparr>"

record bapp_patch =
  set_contract_number :: "string option"
  set_project_name :: "string option"
  set_project_location :: "string option"
  set_start_date :: "string option"
  set_end_date :: "string option"
  set_completion_date :: "string option option"
  set_bapp_notes :: "string option option"
  set_bapp_status :: "status option"
  set_bapp_rejection_reason :: "string option option"
  set_direksi_pekerjaan_id :: "uuid option"
  set_total_progress :: "(rat + string) option"

definition empty_bapp_patch :: bapp_patch where
  "empty_bapp_patch =
     \<lparr>set_contract_number = None, set_project_name = None, set_project_location = None,
      set_start_date = None, set_end_date = None, set_completion_date = None,
      set_bapp_notes = None, set_bapp_status = None, set_bapp_rejection_reason = None,
      set_direksi_pekerjaan_id = None, set_total_progress = None\<rparr>"

definition apply_bapp_patch :: "bapp_patch \<Rightarrow> bapp_row \<Rightarrow> bapp_row" where
  "apply_bapp_patch p r =
     r\<lparr>contract_number := (case set_contract_number p of Some v \<Rightarrow> v | None \<Rightarrow> contract_number r),
       project_name := (case set_project_name p of Some v \<Rightarrow> v | None \<Rightarrow> project_name r),
       project_location :=
         (case set_project_location p of Some v \<Rightarrow> v | None \<Rightarrow> project_location r),
       start_date := (case set_start_date p of Some v \<Rightarrow> v | None \<Rightarrow> start_date r),
       end_date := (case set_end_date p of Some v \<Rightarrow> v | None \<Rightarrow> end_date r),
       completion_date :=
         (case set_completion_date p of Some v \<Rightarrow> v | None \<Rightarrow> completion_date r),
       bapp_notes := (case set_bapp_notes p of Some v \<Rightarrow> v | None \<Rightarrow> bapp_notes r),
       bapp_status := (case set_bapp_status p of Some v \<Rightarrow> v | None \<Rightarrow> bapp_status r),
       bapp_rejection_reason :=
         (case set_bapp_rejection_reason p of Some v \<Rightarrow> v | None \<Rightarrow> bapp_rejection_reason r),
       direksi_pekerjaan_id :=
         (case set_direksi_pekerjaan_id p of Some v \<Rightarrow> Some v | None \<Rightarrow> direksi_pekerjaan_id r),
       total_progress :=
         (case set_total_progress p of Some v \<Rightarrow> to_numeric v | None \<Rightarrow> total_progress r)\<rparr>"

subsection \<open>BAPBRepository\<close>

definition bapb_findById :: "store_call \<Rightarrow> faults \<Rightarrow> store \<Rightarrow> uuid \<Rightarrow> error + bapb_row option" where
  "bapb_findById c F s i = findById c F bapb_id (bapb s) i"

text \<open>
  \<open>findByIdWithRelations\<close> joins the line items (and the approvals and attachments,
  which no caller modelled here reads).
\<close>

definition bapb_findByIdWithRelations ::
  "store_call \<Rightarrow> faults \<Rightarrow> store \<Rightarrow> uuid \<Rightarrow> error + (bapb_row \<times> bapb_item_row list) option" where
  "bapb_findByIdWithRelations c F s i =
     (case findById c F bapb_id (bapb s) i of
        Inl e \<Rightarrow> Inl e
      | Inr None \<Rightarrow> Inr None
      | Inr (Some r) \<Rightarrow> Inr (Some (r, filter (\<lambda>x. item_bapb_id x = i) (bapb_items s))))"

definition bapb_update_by_id :: "faults \<Rightarrow> uuid \<Rightarrow> bapb_patch \<Rightarrow> store \<Rightarrow> (error + bapb_row) \<times> store" where
  "bapb_update_by_id F i p s =
     (case update_rows F bapb_id (apply_bapb_patch p) (bapb s) i of
        (res, rows') \<Rightarrow> (res, issued UpdateDoc (F UpdateDoc = None) (s\<lparr>bapb := rows'\<rparr>)))"

definition bapb_updateStatus :: "faults \<Rightarrow> uuid \<Rightarrow> status \<Rightarrow> store \<Rightarrow> (error + bapb_row) \<times> store" where
  "bapb_updateStatus F i st s = bapb_update_by_id F i (empty_bapb_patch\<lparr>set_bapb_status := Some st\<rparr>) s"

definition bapb_createApproval :: "faults \<Rightarrow> approval_row \<Rightarrow> store \<Rightarrow> (error + approval_row) \<times> store" where
  "bapb_createApproval F a s =
     (case F InsertApproval of
        Some m \<Rightarrow> (Inl (StoreError InsertApproval m), issued InsertApproval False s)
      | None \<Rightarrow> (Inr a, issued InsertApproval True (s\<lparr>bapb_approvals := bapb_approvals s @ [a]\<rparr>)))"

text \<open>
  \<open>hasUserApproved\<close>: \<open>.single()\<close> on the approver's \<open>approved\<close> records of the
  document; PGRST116 is tolerated, so the answer is \<open>!!data\<close>.
\<close>

definition approved_by :: "uuid \<Rightarrow> uuid \<Rightarrow> approval_row \<Rightarrow> bool" where
  "approved_by i u a \<longleftrightarrow> doc_id a = i \<and> approver_id a = u \<and> action a = Act_approved"

definition hasUserApproved :: "faults \<Rightarrow> approval_row list \<Rightarrow> uuid \<Rightarrow> uuid \<Rightarrow> error + bool" where
  "hasUserApproved F tbl i u =
     (case F FindApproval of
        Some m \<Rightarrow> Inl (StoreError FindApproval m)
      | None \<Rightarrow> (case single (filter (approved_by i u) tbl) of
                   Row r \<Rightarrow> Inr True
                 | PGRST116 \<Rightarrow> Inr False))"

definition bapb_hasUserApproved :: "faults \<Rightarrow> store \<Rightarrow> uuid \<Rightarrow> uuid \<Rightarrow> error + bool" where
  "bapb_hasUserApproved F s i u = hasUserApproved F (bapb_approvals s) i u"

text \<open>
  \<open>create\<close>: one row is inserted; the store assigns \<open>id\<close> and \<open>created_at\<close>, so the
  row comes with both filled in. The primary key refuses an id that is already there.
\<close>

definition bapb_create :: "faults \<Rightarrow> bapb_row \<Rightarrow> store \<Rightarrow> (error + bapb_row) \<times> store" where
  "bapb_create F r s =
     (case F InsertDoc of
        Some m \<Rightarrow> (Inl (StoreError InsertDoc m), issued InsertDoc False s)
      | None \<Rightarrow>
          if bapb_id r \<in> bapb_id ` set (bapb s)
          then (Inl (StoreError InsertDoc ''duplicate key''), issued InsertDoc False s)
          else (Inr r, issued InsertDoc True (s\<lparr>bapb := bapb s @ [r]\<rparr>)))"

definition bapb_delete :: "faults \<Rightarrow> uuid \<Rightarrow> store \<Rightarrow> (error + bool) \<times> store" where
  "bapb_delete F i s =
     (case F DeleteDoc of
        Some m \<Rightarrow> (Inl (StoreError DeleteDoc m), issued DeleteDoc False s)
      | None \<Rightarrow> (Inr True, issued DeleteDoc True (s\<lparr>bapb := filter (\<lambda>r. bapb_id r \<noteq> i) (bapb s)\<rparr>)))"

subsection \<open>BAPB line items\<close>

text \<open>An item of the request body, with the camelCase and the snake\_case spelling of each field.\<close>

record bapb_item_input =
  in_itemName :: "string option"
  in_item_name :: "string option"
  in_quantityOrdered :: "rat option"
  in_quantity_ordered :: "rat option"
  in_quantityReceived :: "rat option"
  in_quantity_received :: "rat option"
  in_unit :: "string option"
  in_condition :: "string option"
  in_notes :: "string option"

definition bapb_item_of :: "uuid \<Rightarrow> bapb_item_input \<Rightarrow> bapb_item_row" where
  "bapb_item_of i x =
     \<lparr>item_bapb_id = i,
      item_name = js_or_str (in_itemName x) (in_item_name x),
      quantity_ordered = js_or_num (in_quantityOrdered x) (in_quantity_ordered x),
      quantity_received = js_or_num (in_quantityReceived x) (in_quantity_received x),
      item_unit = in_unit x,
      item_condition = in_condition x,
      item_notes = js_or_str (in_notes x) None\<rparr>"

definition bapb_insert_items ::
  "faults \<Rightarrow> bapb_item_row list \<Rightarrow> store \<Rightarrow> (error + bapb_item_row list) \<times> store" where
  "bapb_insert_items F rows s =
     (case F InsertItems of
        Some m \<Rightarrow> (Inl (StoreError InsertItems m), issued InsertItems False s)
      | None \<Rightarrow> (Inr rows, issued InsertItems True (s\<lparr>bapb_items := bapb_items s @ rows\<rparr>)))"

definition bapb_delete_items :: "faults \<Rightarrow> uuid \<Rightarrow> store \<Rightarrow> (error + unit) \<times> store" where
  "bapb_delete_items F i s =
     (case F DeleteItems of
        Some m \<Rightarrow> (Inl (StoreError DeleteItems m), issued DeleteItems False s)
      | None \<Rightarrow>
          (Inr (), issued DeleteItems True
                     (s\<lparr>bapb_items := filter (\<lambda>x. item_bapb_id x \<noteq> i) (bapb_items s)\<rparr>)))"

text \<open>
  \<open>createWithItems(bapbData, items = [])\<close>: the document row first, then the items in
  one bulk insert; when that insert fails the document row is deleted again and one
  error carrying the store's message is thrown. \<open>items\<close> is \<open>None\<close> for \<open>null\<close>.
\<close>

definition createWithItems ::
  "faults \<Rightarrow> bapb_row \<Rightarrow> bapb_item_input list option \<Rightarrow> store
     \<Rightarrow> (error + (bapb_row \<times> bapb_item_row list) option) \<times> store" where
  "createWithItems F bapbData items s =
     (case bapb_create F bapbData s of
        (Inl e, s1) \<Rightarrow> (Inl e, s1)
      | (Inr b, s1) \<Rightarrow>
          (case items of
             Some (x # xs) \<Rightarrow>
               (case bapb_insert_items F (map (bapb_item_of (bapb_id b)) (x # xs)) s1 of
                  (Inl itemsError, s2) \<Rightarrow>
                    (case bapb_delete F (bapb_id b) s2 of
                       (Inl e, s3) \<Rightarrow> (Inl e, s3)
                     | (Inr _, s3) \<Rightarrow>
                         (Inl (JsError (''Failed to create BAPB items: '' @ error_message itemsError)), s3))
                | (Inr _, s2) \<Rightarrow> (bapb_findByIdWithRelations RefetchDoc F s2 (bapb_id b), s2))
           | _ \<Rightarrow> (bapb_findByIdWithRelations RefetchDoc F s1 (bapb_id b), s1)))"

text \<open>
  \<open>updateWithItems(id, bapbData, items = null)\<close>: the document row first; with an item
  array, all old items are deleted and the new ones inserted, without compensation.
\<close>

definition updateWithItems ::
  "faults \<Rightarrow> uuid \<Rightarrow> bapb_patch \<Rightarrow> bapb_item_input list option \<Rightarrow> store
     \<Rightarrow> (error + (bapb_row \<times> bapb_item_row list) option) \<times> store" where
  "updateWithItems F i bapbData items s =
     (case bapb_update_by_id F i bapbData s of
        (Inl e, s1) \<Rightarrow> (Inl e, s1)
      | (Inr _, s1) \<Rightarrow>
          (case items of
             None \<Rightarrow> (bapb_findByIdWithRelations RefetchDoc F s1 i, s1)
           | Some xs \<Rightarrow>
               (case bapb_delete_items F i s1 of
                  (Inl deleteError, s2) \<Rightarrow> (Inl deleteError, s2)
                | (Inr _, s2) \<Rightarrow>
                    if xs \<noteq> [] then
                      (case bapb_insert_items F (map (bapb_item_of i) xs) s2 of
                         (Inl insertError, s3) \<Rightarrow> (Inl insertError, s3)
                       | (Inr _, s3) \<Rightarrow> (bapb_findByIdWithRelations RefetchDoc F s3 i, s3))
                    else (bapb_findByIdWithRelations RefetchDoc F s2 i, s2))))"

subsection \<open>Document numbers\<close>

text \<open>
  The \<open>Date\<close> constructor on local civil time (the zone offset is taken constant, so
  it shifts both month bounds and every \<open>created_at\<close> alike): day number of a civil
  date, with months past December and day 0 normalised as ECMAScript's MakeDay does.
\<close>

definition dayFromYear :: "int \<Rightarrow> int" where
  "dayFromYear y = 365 * (y - 1970) + (y - 1969) div 4 - (y - 1901) div 100 + (y - 1601) div 400"

definition inLeapYear :: "int \<Rightarrow> bool" where
  "inLeapYear y \<longleftrightarrow> (y mod 4 = 0 \<and> y mod 100 \<noteq> 0) \<or> y mod 400 = 0"

definition daysBeforeMonth :: "bool \<Rightarrow> nat \<Rightarrow> int" where
  "daysBeforeMonth leap m =
     [0, 31, 59, 90, 120, 151, 181, 212, 243, 273, 304, 334] ! m + (if leap \<and> 2 \<le> m then 1 else 0)"

definition makeDay :: "int \<Rightarrow> int \<Rightarrow> int \<Rightarrow> int" where
  "makeDay year month date =
     (let ym = year + month div 12; mn = nat (month mod 12)
      in dayFromYear ym + daysBeforeMonth (inLeapYear ym) mn + date - 1)"

definition makeDate :: "int \<Rightarrow> int \<Rightarrow> int \<Rightarrow> int \<Rightarrow> int \<Rightarrow> int \<Rightarrow> int" where
  "makeDate year month date h mi sec =
     makeDay year month date * 86400000 + h * 3600000 + mi * 60000 + sec * 1000"

text \<open>
  \<open>generateBAPBNumber\<close>, for the clock reading \<open>year = getFullYear()\<close> and
  \<open>month0 = getMonth()\<close> (0 to 11). The count query keeps the rows with
  \<open>startOfMonth \<le> created_at \<le> endOfMonth\<close>.
\<close>

definition startOfMonth :: "nat \<Rightarrow> nat \<Rightarrow> int" where
  "startOfMonth year month0 = makeDate (int year) (int month0) 1 0 0 0"

definition endOfMonth :: "nat \<Rightarrow> nat \<Rightarrow> int" where
  "endOfMonth year month0 = makeDate (int year) (int month0 + 1) 0 23 59 59"

definition count_created_between :: "int \<Rightarrow> int \<Rightarrow> int list \<Rightarrow> nat" where
  "count_created_between lo hi ts = length (filter (\<lambda>t. lo \<le> t \<and> t \<le> hi) ts)"

definition format_number :: "string \<Rightarrow> nat \<Rightarrow> nat \<Rightarrow> nat \<Rightarrow> string" where
  "format_number prefix year month0 count =
     prefix @ ''/'' @ string_of_nat year @ ''/'' @ padStart 2 (CHR ''0'') (string_of_nat (month0 + 1))
       @ ''/'' @ padStart 4 (CHR ''0'') (string_of_nat (count + 1))"

definition generateBAPBNumber :: "faults \<Rightarrow> nat \<Rightarrow> nat \<Rightarrow> store \<Rightarrow> error + string" where
  "generateBAPBNumber F year month0 s =
     (case F CountDocs of
        Some m \<Rightarrow> Inl (StoreError CountDocs m)
      | None \<Rightarrow>
          Inr (format_number ''BAPB'' year month0
                 (count_created_between (startOfMonth year month0) (endOfMonth year month0)
                    (map bapb_created_at (bapb s)))))"

definition generateBAPPNumber :: "faults \<Rightarrow> nat \<Rightarrow> nat \<Rightarrow> store \<Rightarrow> error + string" where
  "generateBAPPNumber F year month0 s =
     (case F CountDocs of
        Some m \<Rightarrow> Inl (StoreError CountDocs m)
      | None \<Rightarrow>
          Inr (format_number ''BAPP'' year month0
                 (count_created_between (startOfMonth year month0) (endOfMonth year month0)
                    (map bapp_created_at (bapp s)))))"

subsection \<open>BAPPRepository\<close>

definition bapp_findById :: "store_call \<Rightarrow> faults \<Rightarrow> store \<Rightarrow> uuid \<Rightarrow> error + bapp_row option" where
  "bapp_findById c F s i = findById c F bapp_id (bapp s) i"

definition bapp_findByIdWithRelations ::
  "store_call \<Rightarrow> faults \<Rightarrow> store \<Rightarrow> uuid \<Rightarrow> error + (bapp_row \<times> bapp_work_item_row list) option" where
  "bapp_findByIdWithRelations c F s i =
     (case findById c F bapp_id (bapp s) i of
        Inl e \<Rightarrow> Inl e
      | Inr None \<Rightarrow> Inr None
      | Inr (Some r) \<Rightarrow> Inr (Some (r, filter (\<lambda>x. wi_bapp_id x = i) (bapp_work_items s))))"

definition bapp_update_by_id :: "faults \<Rightarrow> uuid \<Rightarrow> bapp_patch \<Rightarrow> store \<Rightarrow> (error + bapp_row) \<times> store" where
  "bapp_update_by_id F i p s =
     (case update_rows F bapp_id (apply_bapp_patch p) (bapp s) i of
        (res, rows') \<Rightarrow> (res, issued UpdateDoc (F UpdateDoc = None) (s\<lparr>bapp := rows'\<rparr>)))"

definition bapp_updateStatus :: "faults \<Rightarrow> uuid \<Rightarrow> status \<Rightarrow> store \<Rightarrow> (error + bapp_row) \<times> store" where
  "bapp_updateStatus F i st s = bapp_update_by_id F i (empty_bapp_patch\<lparr>set_bapp_status := Some st\<rparr>) s"

definition bapp_createApproval :: "faults \<Rightarrow> approval_row \<Rightarrow> store \<Rightarrow> (error + approval_row) \<times> store" where
  "bapp_createApproval F a s =
     (case F InsertApproval of
        Some m \<Rightarrow> (Inl (StoreError InsertApproval m), issued InsertApproval False s)
      | None \<Rightarrow> (Inr a, issued InsertApproval True (s\<lparr>bapp_approvals := bapp_approvals s @ [a]\<rparr>)))"

definition bapp_hasUserApproved :: "faults \<Rightarrow> store \<Rightarrow> uuid \<Rightarrow> uuid \<Rightarrow> error + bool" where
  "bapp_hasUserApproved F s i u = hasUserApproved F (bapp_approvals s) i u"

definition bapp_create :: "faults \<Rightarrow> bapp_row \<Rightarrow> store \<Rightarrow> (error + bapp_row) \<times> store" where
  "bapp_create F r s =
     (case F InsertDoc of
        Some m \<Rightarrow> (Inl (StoreError InsertDoc m), issued InsertDoc False s)
      | None \<Rightarrow>
          if bapp_id r \<in> bapp_id ` set (bapp s)
          then (Inl (StoreError InsertDoc ''duplicate key''), issued InsertDoc False s)
          else (Inr r, issued InsertDoc True (s\<lparr>bapp := bapp s @ [r]\<rparr>)))"

definition bapp_delete :: "faults \<Rightarrow> uuid \<Rightarrow> store \<Rightarrow> (error + bool) \<times> store" where
  "bapp_delete F i s =
     (case F DeleteDoc of
        Some m \<Rightarrow> (Inl (StoreError DeleteDoc m), issued DeleteDoc False s)
      | None \<Rightarrow> (Inr True, issued DeleteDoc True (s\<lparr>bapp := filter (\<lambda>r. bapp_id r \<noteq> i) (bapp s)\<rparr>)))"

subsection \<open>BAPP work items and total progress\<close>

record work_item_input =
  in_workItemName :: "string option"
  in_work_item_name :: "string option"
  in_plannedProgress :: "rat option"
  in_planned_progress :: "rat option"
  in_actualProgress :: "rat option"
  in_actual_progress :: "rat option"
  in_wi_unit :: "string option"
  in_quality :: "string option"
  in_wi_notes :: "string option"

text \<open>\<open>a || b || 0\<close> on numbers.\<close>

definition num_or_zero :: "rat option \<Rightarrow> rat option \<Rightarrow> rat" where
  "num_or_zero a b = (case js_or_num a b of Some x \<Rightarrow> x | None \<Rightarrow> 0)"

definition work_item_of :: "uuid \<Rightarrow> work_item_input \<Rightarrow> bapp_work_item_row" where
  "work_item_of i x =
     \<lparr>wi_bapp_id = i,
      work_item_name = js_or_str (in_workItemName x) (in_work_item_name x),
      planned_progress = num_or_zero (in_plannedProgress x) (in_planned_progress x),
      actual_progress = num_or_zero (in_actualProgress x) (in_actual_progress x),
      wi_unit = in_wi_unit x,
      quality = (case js_or_str (in_quality x) None of Some q \<Rightarrow> q | None \<Rightarrow> ''acceptable''),
      wi_notes = js_or_str (in_wi_notes x) None\<rparr>"

text \<open>
  \<open>_calculateTotalProgress\<close>: the summand of the \<open>reduce\<close> is
  \<open>parseFloat(item.actual_progress || item.actualProgress || 0)\<close>, on the doubles read
  from the request; every addition and the division round to a double; the result is
  the number 0 for no items and the string \<open>(total / length).toFixed(2)\<close> otherwise.
\<close>

definition actualProgressOf :: "work_item_input \<Rightarrow> rat" where
  "actualProgressOf item =
     num_or_zero (map_option fl (in_actual_progress item)) (map_option fl (in_actualProgress item))"

definition totalActualProgress :: "work_item_input list \<Rightarrow> rat" where
  "totalActualProgress workItems = foldl (\<lambda>sum item. fl (sum + actualProgressOf item)) 0 workItems"

definition calculateTotalProgress :: "work_item_input list option \<Rightarrow> rat + string" where
  "calculateTotalProgress workItems =
     (case workItems of
        None \<Rightarrow> Inl 0
      | Some [] \<Rightarrow> Inl 0
      | Some (x # xs) \<Rightarrow>
          Inr (toFixed2 (fl (totalActualProgress (x # xs) / of_nat (length (x # xs))))))"

definition bapp_insert_items ::
  "faults \<Rightarrow> bapp_work_item_row list \<Rightarrow> store \<Rightarrow> (error + bapp_work_item_row list) \<times> store" where
  "bapp_insert_items F rows s =
     (case F InsertItems of
        Some m \<Rightarrow> (Inl (StoreError InsertItems m), issued InsertItems False s)
      | None \<Rightarrow> (Inr rows, issued InsertItems True (s\<lparr>bapp_work_items := bapp_work_items s @ rows\<rparr>)))"

definition bapp_delete_items :: "faults \<Rightarrow> uuid \<Rightarrow> store \<Rightarrow> (error + unit) \<times> store" where
  "bapp_delete_items F i s =
     (case F DeleteItems of
        Some m \<Rightarrow> (Inl (StoreError DeleteItems m), issued DeleteItems False s)
      | None \<Rightarrow>
          (Inr (), issued DeleteItems True
                     (s\<lparr>bapp_work_items := filter (\<lambda>x. wi_bapp_id x \<noteq> i) (bapp_work_items s)\<rparr>)))"

text \<open>
  \<open>createWithWorkItems(bappData, workItems = [])\<close>: the total progress is computed from
  the work items and written with the document row; the rest is as for BAPB.
\<close>

definition createWithWorkItems ::
  "faults \<Rightarrow> bapp_row \<Rightarrow> work_item_input list option \<Rightarrow> store
     \<Rightarrow> (error + (bapp_row \<times> bapp_work_item_row list) option) \<times> store" where
  "createWithWorkItems F bappData workItems s =
     (let totalProgress = calculateTotalProgress workItems in
      (case bapp_create F (bappData\<lparr>total_progress := to_numeric totalProgress\<rparr>) s of
         (Inl e, s1) \<Rightarrow> (Inl e, s1)
       | (Inr b, s1) \<Rightarrow>
           (case workItems of
              Some (x # xs) \<Rightarrow>
                (case bapp_insert_items F (map (work_item_of (bapp_id b)) (x # xs)) s1 of
                   (Inl itemsError, s2) \<Rightarrow>
                     (case bapp_delete F (bapp_id b) s2 of
                        (Inl e, s3) \<Rightarrow> (Inl e, s3)
                      | (Inr _, s3) \<Rightarrow>
                          (Inl (JsError (''Failed to create BAPP work items: ''
                                          @ error_message itemsError)), s3))
                 | (Inr _, s2) \<Rightarrow> (bapp_findByIdWithRelations RefetchDoc F s2 (bapp_id b), s2))
            | _ \<Rightarrow> (bapp_findByIdWithRelations RefetchDoc F s1 (bapp_id b), s1))))"

text \<open>
  \<open>updateWithWorkItems(id, bappData, workItems = null)\<close>: with an array, the total
  progress is recomputed into the update data, the old work items are deleted and the
  new ones inserted; the document row is updated last.
\<close>

definition updateWithWorkItems ::
  "faults \<Rightarrow> uuid \<Rightarrow> bapp_patch \<Rightarrow> work_item_input list option \<Rightarrow> store
     \<Rightarrow> (error + (bapp_row \<times> bapp_work_item_row list) option) \<times> store" where
  "updateWithWorkItems F i bappData workItems s =
     (case workItems of
        None \<Rightarrow>
          (case bapp_update_by_id F i bappData s of
             (Inl e, s1) \<Rightarrow> (Inl e, s1)
           | (Inr _, s1) \<Rightarrow> (bapp_findByIdWithRelations RefetchDoc F s1 i, s1))
      | Some xs \<Rightarrow>
          (let updateData = bappData\<lparr>set_total_progress := Some (calculateTotalProgress (Some xs))\<rparr> in
           (case bapp_delete_items F i s of
              (Inl deleteError, s1) \<Rightarrow> (Inl deleteError, s1)
            | (Inr _, s1) \<Rightarrow>
                (case (if xs \<noteq> [] then bapp_insert_items F (map (work_item_of i) xs) s1
                       else (Inr [], s1)) of
                   (Inl insertError, s2) \<Rightarrow> (Inl insertError, s2)
                 | (Inr _, s2) \<Rightarrow>
                     (case bapp_update_by_id F i updateData s2 of
                        (Inl e, s3) \<Rightarrow> (Inl e, s3)
                      | (Inr _, s3) \<Rightarrow> (bapp_findByIdWithRelations RefetchDoc F s3 i, s3))))))"

section \<open>Notification service\<close>

text \<open>
  \<open>createNotification\<close> inserts one row and throws when the store refuses it; every
  \<open>notify...\<close> wrapper catches and logs that error, so a notification is best effort.
\<close>

definition createNotification :: "faults \<Rightarrow> notification_row \<Rightarrow> store \<Rightarrow> (error + unit) \<times> store" where
  "createNotification F n s =
     (case F InsertNotification of
        Some m \<Rightarrow> (Inl (StoreError InsertNotification m), issued InsertNotification False s)
      | None \<Rightarrow> (Inr (), issued InsertNotification True (s\<lparr>notifications := notifications s @ [n]\<rparr>)))"

definition createBulkNotifications ::
  "faults \<Rightarrow> uuid list \<Rightarrow> (uuid \<Rightarrow> notification_row) \<Rightarrow> store \<Rightarrow> (error + unit) \<times> store" where
  "createBulkNotifications F userIds mk s =
     (case F InsertNotification of
        Some m \<Rightarrow> (Inl (StoreError InsertNotification m), issued InsertNotification False s)
      | None \<Rightarrow>
          (Inr (), issued InsertNotification True
                     (s\<lparr>notifications := notifications s @ map mk userIds\<rparr>)))"

definition active_with_role :: "role list \<Rightarrow> store \<Rightarrow> uuid list" where
  "active_with_role rs s =
     map user_id (filter (\<lambda>u. user_role u \<in> set rs \<and> is_active u) (users s))"

definition notifyBAPBSubmitted :: "faults \<Rightarrow> bapb_row \<Rightarrow> store \<Rightarrow> store" where
  "notifyBAPBSubmitted F b s =
     (case F FindRecipients of
        Some m \<Rightarrow> s
      | None \<Rightarrow>
          snd (createBulkNotifications F (active_with_role [R_pic_gudang, R_approver, R_admin] s)
                 (\<lambda>u. \<lparr>n_user_id = u, n_type = ''bapb_submitted'', related_document_type = ''BAPB'',
                        related_document_id = bapb_id b, related_document_number = bapb_number b,
                        priority = ''high''\<rparr>) s))"

definition notify_bapb_vendor :: "faults \<Rightarrow> string \<Rightarrow> string \<Rightarrow> bapb_row \<Rightarrow> store \<Rightarrow> store" where
  "notify_bapb_vendor F ty prio b s =
     snd (createNotification F
            \<lparr>n_user_id = bapb_vendor_id b, n_type = ty, related_document_type = ''BAPB'',
             related_document_id = bapb_id b, related_document_number = bapb_number b,
             priority = prio\<rparr> s)"

definition notifyBAPBApproved :: "faults \<Rightarrow> bapb_row \<Rightarrow> store \<Rightarrow> store" where
  "notifyBAPBApproved F b s = notify_bapb_vendor F ''bapb_approved'' ''high'' b s"

definition notifyBAPBRejected :: "faults \<Rightarrow> bapb_row \<Rightarrow> store \<Rightarrow> store" where
  "notifyBAPBRejected F b s = notify_bapb_vendor F ''bapb_rejected'' ''urgent'' b s"

definition notifyBAPBRevisionRequired :: "faults \<Rightarrow> bapb_row \<Rightarrow> store \<Rightarrow> store" where
  "notifyBAPBRevisionRequired F b s = notify_bapb_vendor F ''bapb_revision_required'' ''high'' b s"

definition notifyBAPPSubmitted :: "faults \<Rightarrow> bapp_row \<Rightarrow> store \<Rightarrow> store" where
  "notifyBAPPSubmitted F b s =
     (case F FindRecipients of
        Some m \<Rightarrow> s
      | None \<Rightarrow>
          snd (createBulkNotifications F (active_with_role [R_approver, R_admin] s)
                 (\<lambda>u. \<lparr>n_user_id = u, n_type = ''bapp_submitted'', related_document_type = ''BAPP'',
                        related_document_id = bapp_id b, related_document_number = bapp_number b,
                        priority = ''high''\<rparr>) s))"

definition notify_bapp_vendor :: "faults \<Rightarrow> string \<Rightarrow> string \<Rightarrow> bapp_row \<Rightarrow> store \<Rightarrow> store" where
  "notify_bapp_vendor F ty prio b s =
     snd (createNotification F
            \<lparr>n_user_id = bapp_vendor_id b, n_type = ty, related_document_type = ''BAPP'',
             related_document_id = bapp_id b, related_document_number = bapp_number b,
             priority = prio\<rparr> s)"

definition notifyBAPPApproved :: "faults \<Rightarrow> bapp_row \<Rightarrow> store \<Rightarrow> store" where
  "notifyBAPPApproved F b s = notify_bapp_vendor F ''bapp_approved'' ''high'' b s"

definition notifyBAPPRejected :: "faults \<Rightarrow> bapp_row \<Rightarrow> store \<Rightarrow> store" where
  "notifyBAPPRejected F b s = notify_bapp_vendor F ''bapp_rejected'' ''urgent'' b s"

definition notifyBAPPRevisionRequired :: "faults \<Rightarrow> bapp_row \<Rightarrow> store \<Rightarrow> store" where
  "notifyBAPPRevisionRequired F b s = notify_bapp_vendor F ''bapp_revision_required'' ''high'' b s"

text \<open>
  \<open>notifyPaymentProcessed\<close> formats \<open>paymentData.amount\<close> for the message first; with
  no amount that read throws inside the \<open>try\<close> and nothing is sent.
\<close>

definition notifyPaymentProcessed ::
  "faults \<Rightarrow> uuid \<Rightarrow> string \<Rightarrow> uuid \<Rightarrow> string \<Rightarrow> rat option \<Rightarrow> store \<Rightarrow> store" where
  "notifyPaymentProcessed F vendorId documentType documentId documentNumber amt s =
     (case amt of
        None \<Rightarrow> s
      | Some a \<Rightarrow>
          snd (createNotification F
                 \<lparr>n_user_id = vendorId, n_type = ''payment_processed'',
                  related_document_type = documentType, related_document_id = documentId,
                  related_document_number = documentNumber, priority = ''high''\<rparr> s))"

section \<open>Controllers\<close>

text \<open>
  A response keeps the HTTP status, the \<open>success\<close> flag, the message, the optional
  \<open>warning\<close> field and, for a 500, the error caught; the \<open>data\<close> payload (the document
  fetched again) is not carried, but the fetch is made and can fail.
\<close>

record response =
  http_status :: nat
  success :: bool
  message :: string
  warning :: "string option"
  caught :: "error option"

definition refuse :: "nat \<Rightarrow> string \<Rightarrow> response" where
  "refuse code m = \<lparr>http_status = code, success = False, message = m, warning = None, caught = None\<rparr>"

definition server_error :: "string \<Rightarrow> error \<Rightarrow> response" where
  "server_error m e = \<lparr>http_status = 500, success = False, message = m, warning = None, caught = Some e\<rparr>"

definition ok :: "nat \<Rightarrow> string \<Rightarrow> string option \<Rightarrow> response" where
  "ok code m w = \<lparr>http_status = code, success = True, message = m, warning = w, caught = None\<rparr>"

subsection \<open>BAPB approval controller\<close>

text \<open>
  The signature lookup of \<open>approveBAPB\<close> (\<open>.maybeSingle()\<close> on the caller's signature
  attachments of the document) only chooses the warning.
\<close>

definition is_signature_of :: "uuid \<Rightarrow> uuid \<Rightarrow> attachment_row \<Rightarrow> bool" where
  "is_signature_of i u a \<longleftrightarrow> att_doc_id a = i \<and> uploaded_by a = u \<and> att_file_type a = Signature"

definition bapb_signatureWarning :: "faults \<Rightarrow> store \<Rightarrow> uuid \<Rightarrow> uuid \<Rightarrow> string option" where
  "bapb_signatureWarning F s i u =
     (case F FindSignature of
        Some m \<Rightarrow> Some ''Could not verify signature status''
      | None \<Rightarrow>
          (case maybeSingle (filter (is_signature_of i u) (bapb_attachments s)) of
             PGRST116 \<Rightarrow> Some ''Could not verify signature status''
           | Row None \<Rightarrow>
               Some ''Approved without signature - please upload signature for complete documentation''
           | Row (Some a) \<Rightarrow> None))"

definition bapb_approve_patch :: "bapb_row \<Rightarrow> user_row \<Rightarrow> bapb_patch" where
  "bapb_approve_patch b u =
     (if pic_gudang_id b = None \<and> user_role u = R_pic_gudang
      then empty_bapb_patch\<lparr>set_bapb_status := Some Approved, set_pic_gudang_id := Some (user_id u)\<rparr>
      else empty_bapb_patch\<lparr>set_bapb_status := Some Approved\<rparr>)"

text \<open>
  \<open>approveBAPB\<close> as the controller with the signature warning has it. \<open>u\<close> is
  \<open>req.user\<close>, \<open>i\<close> is \<open>req.params.id\<close>.
\<close>

definition approveBAPB :: "faults \<Rightarrow> user_row \<Rightarrow> uuid \<Rightarrow> string option \<Rightarrow> store \<Rightarrow> response \<times> store" where
  "approveBAPB F u i notes s =
     (case bapb_findByIdWithRelations FindDoc F s i of
        Inl e \<Rightarrow> (server_error ''Error approving BAPB'' e, s)
      | Inr None \<Rightarrow> (refuse 404 ''BAPB not found'', s)
      | Inr (Some (b, items)) \<Rightarrow>
          if bapb_status b \<notin> set [Submitted, In_review]
          then (refuse 400 ''BAPB must be in submitted or in_review status to be approved'', s)
          else if user_role u \<notin> set [R_pic_gudang, R_approver, R_admin]
          then (refuse 403 ''Not authorized to approve BAPB'', s)
          else
            (case bapb_hasUserApproved F s i (user_id u) of
               Inl e \<Rightarrow> (server_error ''Error approving BAPB'' e, s)
             | Inr True \<Rightarrow> (refuse 400 ''You have already approved this BAPB'', s)
             | Inr False \<Rightarrow>
                 (let signatureWarning = bapb_signatureWarning F s i (user_id u) in
                  (case bapb_createApproval F
                          \<lparr>doc_id = i, approver_id = user_id u, action = Act_approved,
                           approval_notes = notes\<rparr> s of
                     (Inl e, s1) \<Rightarrow> (server_error ''Error approving BAPB'' e, s1)
                   | (Inr _, s1) \<Rightarrow>
                       (case bapb_update_by_id F i (bapb_approve_patch b u) s1 of
                          (Inl e, s2) \<Rightarrow> (server_error ''Error approving BAPB'' e, s2)
                        | (Inr _, s2) \<Rightarrow>
                            (let s3 = notifyBAPBApproved F b s2 in
                             (case bapb_findByIdWithRelations RefetchDoc F s3 i of
                                Inl e \<Rightarrow> (server_error ''Error approving BAPB'' e, s3)
                              | Inr _ \<Rightarrow>
                                  (ok 200 ''BAPB approved successfully'' signatureWarning, s3))))))))"

text \<open>
  The other copy of the controller (\<open>backend-main\<close>) reads an identifier
  \<open>signature\<close> that is declared nowhere, right after the duplicate-approval check:
  the read throws a ReferenceError, which the handler's \<open>catch\<close> turns into a 500.
\<close>

definition approveBAPB_main :: "faults \<Rightarrow> user_row \<Rightarrow> uuid \<Rightarrow> string option \<Rightarrow> store \<Rightarrow> response \<times> store" where
  "approveBAPB_main F u i notes s =
     (case bapb_findByIdWithRelations FindDoc F s i of
        Inl e \<Rightarrow> (server_error ''Error approving BAPB'' e, s)
      | Inr None \<Rightarrow> (refuse 404 ''BAPB not found'', s)
      | Inr (Some (b, items)) \<Rightarrow>
          if bapb_status b \<notin> set [Submitted, In_review]
          then (refuse 400 ''BAPB must be in submitted or in_review status to be approved'', s)
          else if user_role u \<notin> set [R_pic_gudang, R_approver, R_admin]
          then (refuse 403 ''Not authorized to approve BAPB'', s)
          else
            (case bapb_hasUserApproved F s i (user_id u) of
               Inl e \<Rightarrow> (server_error ''Error approving BAPB'' e, s)
             | Inr True \<Rightarrow> (refuse 400 ''You have already approved this BAPB'', s)
             | Inr False \<Rightarrow>
                 (server_error ''Error approving BAPB'' (ReferenceError ''signature is not defined''), s)))"

text \<open>
  \<open>rejectBAPB\<close> and \<open>requestRevisionBAPB\<close> differ in the action recorded, the status
  set, the notification and the texts; \<open>review_bapb\<close> is their common body.
\<close>

definition review_bapb ::
  "approval_action \<Rightarrow> status \<Rightarrow> (faults \<Rightarrow> bapb_row \<Rightarrow> store \<Rightarrow> store)
     \<Rightarrow> string \<Rightarrow> string \<Rightarrow> string \<Rightarrow> string \<Rightarrow> string \<Rightarrow>
   faults \<Rightarrow> user_row \<Rightarrow> uuid \<Rightarrow> string option \<Rightarrow> string option \<Rightarrow> store \<Rightarrow> response \<times> store" where
  "review_bapb act st notify m_reason m_status m_role m_error m_ok F u i notes reason s =
     (if reason_missing reason then (refuse 400 m_reason, s)
      else
        (case bapb_findById FindDoc F s i of
           Inl e \<Rightarrow> (server_error m_error e, s)
         | Inr None \<Rightarrow> (refuse 404 ''BAPB not found'', s)
         | Inr (Some b) \<Rightarrow>
             if bapb_status b \<notin> set [Submitted, In_review] then (refuse 400 m_status, s)
             else if user_role u \<notin> set [R_pic_gudang, R_approver, R_admin] then (refuse 403 m_role, s)
             else
               (case bapb_createApproval F
                       \<lparr>doc_id = i, approver_id = user_id u, action = act, approval_notes = notes\<rparr> s of
                  (Inl e, s1) \<Rightarrow> (server_error m_error e, s1)
                | (Inr _, s1) \<Rightarrow>
                    (case bapb_update_by_id F i
                            (empty_bapb_patch\<lparr>set_bapb_status := Some st,
                                               set_bapb_rejection_reason := Some reason\<rparr>) s1 of
                       (Inl e, s2) \<Rightarrow> (server_error m_error e, s2)
                     | (Inr _, s2) \<Rightarrow>
                         (let s3 = notify F b s2 in
                          (case bapb_findByIdWithRelations RefetchDoc F s3 i of
                             Inl e \<Rightarrow> (server_error m_error e, s3)
                           | Inr _ \<Rightarrow> (ok 200 m_ok None, s3)))))))"

definition rejectBAPB ::
  "faults \<Rightarrow> user_row \<Rightarrow> uuid \<Rightarrow> string option \<Rightarrow> string option \<Rightarrow> store \<Rightarrow> response \<times> store" where
  "rejectBAPB =
     review_bapb Act_rejected Rejected notifyBAPBRejected
       ''Rejection reason is required''
       ''BAPB must be in submitted or in_review status to be rejected''
       ''Not authorized to reject BAPB'' ''Error rejecting BAPB'' ''BAPB rejected''"

definition requestRevisionBAPB ::
  "faults \<Rightarrow> user_row \<Rightarrow> uuid \<Rightarrow> string option \<Rightarrow> string option \<Rightarrow> store \<Rightarrow> response \<times> store" where
  "requestRevisionBAPB =
     review_bapb Act_revision_required Revision_required notifyBAPBRevisionRequired
       ''Revision reason is required''
       ''BAPB must be in submitted or in_review status to request revision''
       ''Not authorized to request revision'' ''Error requesting revision''
       ''Revision requested for BAPB''"

subsection \<open>BAPB controller: update and submit\<close>

definition canManageBAPB :: "role \<Rightarrow> bool" where
  "canManageBAPB r \<longleftrightarrow> r \<in> set [R_vendor_barang, R_vendor, R_admin]"

definition isVendorBarang :: "role \<Rightarrow> bool" where
  "isVendorBarang r \<longleftrightarrow> r \<in> set [R_vendor_barang, R_vendor]"

text \<open>
  The body of \<open>PUT /api/bapb/:id\<close>. \<open>notes\<close> is \<open>None\<close> when the key is absent
  (\<open>undefined\<close>) and \<open>Some None\<close> for \<open>null\<close>.
\<close>

record bapb_update_body =
  orderNumber :: "string option"
  deliveryDate :: "string option"
  body_notes :: "string option option"
  body_items :: "bapb_item_input list option"

definition bapb_updateData :: "bapb_row \<Rightarrow> bapb_update_body \<Rightarrow> bapb_patch" where
  "bapb_updateData b body =
     \<lparr>set_order_number = (if truthy_str (orderNumber body) then orderNumber body else None),
      set_delivery_date = (if truthy_str (deliveryDate body) then deliveryDate body else None),
      set_bapb_notes = body_notes body,
      set_bapb_status = (if bapb_status b = Revision_required then Some Draft else None),
      set_bapb_rejection_reason = (if bapb_status b = Revision_required then Some None else None),
      set_pic_gudang_id = None\<rparr>"

definition updateBAPB :: "faults \<Rightarrow> user_row \<Rightarrow> uuid \<Rightarrow> bapb_update_body \<Rightarrow> store \<Rightarrow> response \<times> store" where
  "updateBAPB F u i body s =
     (case bapb_findById FindDoc F s i of
        Inl e \<Rightarrow> (server_error ''Error updating BAPB'' e, s)
      | Inr None \<Rightarrow> (refuse 404 ''BAPB not found'', s)
      | Inr (Some b) \<Rightarrow>
          if isVendorBarang (user_role u) \<and> bapb_vendor_id b \<noteq> user_id u
          then (refuse 403 ''Not authorized to update this BAPB'', s)
          else if \<not> canManageBAPB (user_role u)
          then (refuse 403 ''Access denied. Only vendor barang can update BAPB'', s)
          else if bapb_status b \<notin> set [Draft, Revision_required]
          then (refuse 400 ''Cannot update BAPB that is not in draft or revision status'', s)
          else
            (case updateWithItems F i (bapb_updateData b body) (body_items body) s of
               (Inl e, s1) \<Rightarrow> (server_error ''Error updating BAPB'' e, s1)
             | (Inr _, s1) \<Rightarrow> (ok 200 ''BAPB updated successfully'' None, s1)))"

definition submitBAPB :: "faults \<Rightarrow> user_row \<Rightarrow> uuid \<Rightarrow> store \<Rightarrow> response \<times> store" where
  "submitBAPB F u i s =
     (case bapb_findByIdWithRelations FindDoc F s i of
        Inl e \<Rightarrow> (server_error ''Error submitting BAPB'' e, s)
      | Inr None \<Rightarrow> (refuse 404 ''BAPB not found'', s)
      | Inr (Some (b, items)) \<Rightarrow>
          if bapb_vendor_id b \<noteq> user_id u
          then (refuse 403 ''Not authorized to submit this BAPB'', s)
          else if \<not> canManageBAPB (user_role u)
          then (refuse 403 ''Access denied. Only vendor barang can submit BAPB'', s)
          else if bapb_status b \<notin> set [Draft, Revision_required]
          then (refuse 400 ''Can only submit BAPB in draft or revision status'', s)
          else if length items = 0
          then (refuse 400 ''BAPB must have at least one item. Please add items before submitting.'', s)
          else
            (case bapb_updateStatus F i Submitted s of
               (Inl e, s1) \<Rightarrow> (server_error ''Error submitting BAPB'' e, s1)
             | (Inr _, s1) \<Rightarrow>
                 (let s2 = notifyBAPBSubmitted F b s1 in
                  (case bapb_findByIdWithRelations RefetchDoc F s2 i of
                     Inl e \<Rightarrow> (server_error ''Error submitting BAPB'' e, s2)
                   | Inr _ \<Rightarrow> (ok 200 ''BAPB submitted successfully'' None, s2)))))"

subsection \<open>BAPP approval controller\<close>

text \<open>
  \<open>approveBAPP\<close> asks for the caller's signature attachment with \<open>.single()\<close> and
  reads only \<open>data\<close>: no row, several rows and a failed lookup all leave it null.
\<close>

definition bapp_existingSignature :: "faults \<Rightarrow> store \<Rightarrow> uuid \<Rightarrow> uuid \<Rightarrow> attachment_row option" where
  "bapp_existingSignature F s i u =
     (case F FindSignature of
        Some m \<Rightarrow> None
      | None \<Rightarrow>
          (case single (filter (is_signature_of i u) (bapp_attachments s)) of
             Row a \<Rightarrow> Some a
           | PGRST116 \<Rightarrow> None))"

definition bapp_approve_patch :: "bapp_row \<Rightarrow> user_row \<Rightarrow> bapp_patch" where
  "bapp_approve_patch b u =
     (if direksi_pekerjaan_id b = None \<and> user_role u = R_approver
      then empty_bapp_patch\<lparr>set_bapp_status := Some Approved,
                             set_direksi_pekerjaan_id := Some (user_id u)\<rparr>
      else empty_bapp_patch\<lparr>set_bapp_status := Some Approved\<rparr>)"

definition approveBAPP :: "faults \<Rightarrow> user_row \<Rightarrow> uuid \<Rightarrow> string option \<Rightarrow> store \<Rightarrow> response \<times> store" where
  "approveBAPP F u i notes s =
     (case bapp_findByIdWithRelations FindDoc F s i of
        Inl e \<Rightarrow> (server_error ''Error approving BAPP'' e, s)
      | Inr None \<Rightarrow> (refuse 404 ''BAPP not found'', s)
      | Inr (Some (b, items)) \<Rightarrow>
          if bapp_status b \<notin> set [Submitted, In_review]
          then (refuse 400 ''BAPP must be in submitted or in_review status to be approved'', s)
          else if user_role u \<notin> set [R_approver, R_admin]
          then (refuse 403 ''Not authorized to approve BAPP'', s)
          else
            (case bapp_hasUserApproved F s i (user_id u) of
               Inl e \<Rightarrow> (server_error ''Error approving BAPP'' e, s)
             | Inr True \<Rightarrow> (refuse 400 ''You have already approved this BAPP'', s)
             | Inr False \<Rightarrow>
                 (case bapp_existingSignature F s i (user_id u) of
                    None \<Rightarrow>
                      (refuse 400 ''Please upload your signature first before approving. Use POST /api/bapp/:id/signature to upload.'', s)
                  | Some sig \<Rightarrow>
                      (case bapp_createApproval F
                              \<lparr>doc_id = i, approver_id = user_id u, action = Act_approved,
                               approval_notes = notes\<rparr> s of
                         (Inl e, s1) \<Rightarrow> (server_error ''Error approving BAPP'' e, s1)
                       | (Inr _, s1) \<Rightarrow>
                           (case bapp_update_by_id F i (bapp_approve_patch b u) s1 of
                              (Inl e, s2) \<Rightarrow> (server_error ''Error approving BAPP'' e, s2)
                            | (Inr _, s2) \<Rightarrow>
                                (let s3 = notifyBAPPApproved F b s2 in
                                 (case bapp_findByIdWithRelations RefetchDoc F s3 i of
                                    Inl e \<Rightarrow> (server_error ''Error approving BAPP'' e, s3)
                                  | Inr _ \<Rightarrow> (ok 200 ''BAPP approved successfully'' None, s3))))))))"

definition review_bapp ::
  "approval_action \<Rightarrow> status \<Rightarrow> (faults \<Rightarrow> bapp_row \<Rightarrow> store \<Rightarrow> store)
     \<Rightarrow> string \<Rightarrow> string \<Rightarrow> string \<Rightarrow> string \<Rightarrow> string \<Rightarrow>
   faults \<Rightarrow> user_row \<Rightarrow> uuid \<Rightarrow> string option \<Rightarrow> string option \<Rightarrow> store \<Rightarrow> response \<times> store" where
  "review_bapp act st notify m_reason m_status m_role m_error m_ok F u i notes reason s =
     (if reason_missing reason then (refuse 400 m_reason, s)
      else
        (case bapp_findById FindDoc F s i of
           Inl e \<Rightarrow> (server_error m_error e, s)
         | Inr None \<Rightarrow> (refuse 404 ''BAPP not found'', s)
         | Inr (Some b) \<Rightarrow>
             if bapp_status b \<notin> set [Submitted, In_review] then (refuse 400 m_status, s)
             else if user_role u \<notin> set [R_approver, R_admin] then (refuse 403 m_role, s)
             else
               (case bapp_createApproval F
                       \<lparr>doc_id = i, approver_id = user_id u, action = act, approval_notes = notes\<rparr> s of
                  (Inl e, s1) \<Rightarrow> (server_error m_error e, s1)
                | (Inr _, s1) \<Rightarrow>
                    (case bapp_update_by_id F i
                            (empty_bapp_patch\<lparr>set_bapp_status := Some st,
                                               set_bapp_rejection_reason := Some reason\<rparr>) s1 of
                       (Inl e, s2) \<Rightarrow> (server_error m_error e, s2)
                     | (Inr _, s2) \<Rightarrow>
                         (let s3 = notify F b s2 in
                          (case bapp_findByIdWithRelations RefetchDoc F s3 i of
                             Inl e \<Rightarrow> (server_error m_error e, s3)
                           | Inr _ \<Rightarrow> (ok 200 m_ok None, s3)))))))"

definition rejectBAPP ::
  "faults \<Rightarrow> user_row \<Rightarrow> uuid \<Rightarrow> string option \<Rightarrow> string option \<Rightarrow> store \<Rightarrow> response \<times> store" where
  "rejectBAPP =
     review_bapp Act_rejected Rejected notifyBAPPRejected
       ''Rejection reason is required''
       ''BAPP must be in submitted or in_review status to be rejected''
       ''Not authorized to reject BAPP'' ''Error rejecting BAPP'' ''BAPP rejected''"

definition requestRevisionBAPP ::
  "faults \<Rightarrow> user_row \<Rightarrow> uuid \<Rightarrow> string option \<Rightarrow> string option \<Rightarrow> store \<Rightarrow> response \<times> store" where
  "requestRevisionBAPP =
     review_bapp Act_revision_required Revision_required notifyBAPPRevisionRequired
       ''Revision reason is required''
       ''BAPP must be in submitted or in_review status to request revision''
       ''Not authorized to request revision'' ''Error requesting revision''
       ''Revision requested for BAPP''"

subsection \<open>BAPP controller: update and submit\<close>

definition canManageBAPP :: "role \<Rightarrow> bool" where
  "canManageBAPP r \<longleftrightarrow> r \<in> set [R_vendor_jasa, R_vendor, R_admin]"

definition isVendorJasa :: "role \<Rightarrow> bool" where
  "isVendorJasa r \<longleftrightarrow> r \<in> set [R_vendor_jasa, R_vendor]"

record bapp_update_body =
  contractNumber :: "string option"
  projectName :: "string option"
  projectLocation :: "string option"
  startDate :: "string option"
  endDate :: "string option"
  completionDate :: "string option option"
  bapp_body_notes :: "string option option"
  workItems :: "work_item_input list option"

definition bapp_updateData :: "bapp_row \<Rightarrow> bapp_update_body \<Rightarrow> bapp_patch" where
  "bapp_updateData b body =
     \<lparr>set_contract_number = (if truthy_str (contractNumber body) then contractNumber body else None),
      set_project_name = (if truthy_str (projectName body) then projectName body else None),
      set_project_location = (if truthy_str (projectLocation body) then projectLocation body else None),
      set_start_date = (if truthy_str (startDate body) then startDate body else None),
      set_end_date = (if truthy_str (endDate body) then endDate body else None),
      set_completion_date = completionDate body,
      set_bapp_notes = bapp_body_notes body,
      set_bapp_status = (if bapp_status b = Revision_required then Some Draft else None),
      set_bapp_rejection_reason = (if bapp_status b = Revision_required then Some None else None),
      set_direksi_pekerjaan_id = None,
      set_total_progress = None\<rparr>"

definition updateBAPP :: "faults \<Rightarrow> user_row \<Rightarrow> uuid \<Rightarrow> bapp_update_body \<Rightarrow> store \<Rightarrow> response \<times> store" where
  "updateBAPP F u i body s =
     (case bapp_findById FindDoc F s i of
        Inl e \<Rightarrow> (server_error ''Error updating BAPP'' e, s)
      | Inr None \<Rightarrow> (refuse 404 ''BAPP not found'', s)
      | Inr (Some b) \<Rightarrow>
          if isVendorJasa (user_role u) \<and> bapp_vendor_id b \<noteq> user_id u
          then (refuse 403 ''Not authorized to update this BAPP'', s)
          else if \<not> canManageBAPP (user_role u)
          then (refuse 403 ''Access denied. Only vendor jasa can update BAPP'', s)
          else if bapp_status b \<notin> set [Draft, Revision_required]
          then (refuse 400 ''Cannot update BAPP that is not in draft or revision status'', s)
          else
            (case updateWithWorkItems F i (bapp_updateData b body) (workItems body) s of
               (Inl e, s1) \<Rightarrow> (server_error ''Error updating BAPP'' e, s1)
             | (Inr _, s1) \<Rightarrow> (ok 200 ''BAPP updated successfully'' None, s1)))"

definition submitBAPP :: "faults \<Rightarrow> user_row \<Rightarrow> uuid \<Rightarrow> store \<Rightarrow> response \<times> store" where
  "submitBAPP F u i s =
     (case bapp_findByIdWithRelations FindDoc F s i of
        Inl e \<Rightarrow> (server_error ''Error submitting BAPP'' e, s)
      | Inr None \<Rightarrow> (refuse 404 ''BAPP not found'', s)
      | Inr (Some (b, work_items)) \<Rightarrow>
          if bapp_vendor_id b \<noteq> user_id u
          then (refuse 403 ''Not authorized to submit this BAPP'', s)
          else if \<not> canManageBAPP (user_role u)
          then (refuse 403 ''Access denied. Only vendor jasa can submit BAPP'', s)
          else if bapp_status b \<notin> set [Draft, Revision_required]
          then (refuse 400 ''Can only submit BAPP in draft or revision status'', s)
          else if length work_items = 0
          then (refuse 400 ''BAPP must have at least one work item. Please add work items before submitting.'', s)
          else
            (case bapp_updateStatus F i Submitted s of
               (Inl e, s1) \<Rightarrow> (server_error ''Error submitting BAPP'' e, s1)
             | (Inr _, s1) \<Rightarrow>
                 (let s2 = notifyBAPPSubmitted F b s1 in
                  (case bapp_findByIdWithRelations RefetchDoc F s2 i of
                     Inl e \<Rightarrow> (server_error ''Error submitting BAPP'' e, s2)
                   | Inr _ \<Rightarrow> (ok 200 ''BAPP submitted successfully'' None, s2)))))"

section \<open>Payment service\<close>

text \<open>
  The simulated gateway draws its outcome and its transaction id at random; both are
  arguments here. Of its answer the status and the transaction id are kept.
\<close>

record gateway_result =
  gw_status :: string
  gw_transactionId :: string

definition simulatePaymentGateway :: "bool \<Rightarrow> string \<Rightarrow> gateway_result" where
  "simulatePaymentGateway isSuccess transactionId =
     \<lparr>gw_status = (if isSuccess then ''success'' else ''failed''), gw_transactionId = transactionId\<rparr>"

text \<open>
  \<open>logPaymentAttempt\<close> awaits the insert inside \<open>try\<close>/\<open>catch\<close> and never looks at the
  answer: a refused insert leaves no row and is not reported to the caller.
\<close>

definition logPaymentAttempt :: "faults \<Rightarrow> payment_log_row \<Rightarrow> store \<Rightarrow> store" where
  "logPaymentAttempt F row s =
     (case F InsertPaymentLog of
        Some m \<Rightarrow> issued InsertPaymentLog False s
      | None \<Rightarrow> issued InsertPaymentLog True (s\<lparr>payment_logs := payment_logs s @ [row]\<rparr>))"

record payment_data =
  pay_amount :: "rat option"
  pay_contractAmount :: "rat option"
  pay_paymentMethod :: "string option"

record payment_result =
  paid_amount :: "rat option"
  paid_transactionId :: string
  paid_status :: string

definition paymentMethod_of :: "payment_data \<Rightarrow> string" where
  "paymentMethod_of d = (case js_or_str (pay_paymentMethod d) None of Some m \<Rightarrow> m | None \<Rightarrow> ''bank_transfer'')"

definition processBAPBPayment ::
  "faults \<Rightarrow> bool \<Rightarrow> string \<Rightarrow> uuid \<Rightarrow> payment_data \<Rightarrow> store \<Rightarrow> (error + payment_result) \<times> store" where
  "processBAPBPayment F isSuccess txn bapbId paymentData s =
     (case bapb_findByIdWithRelations FindDoc F s bapbId of
        Inl e \<Rightarrow> (Inl e, s)
      | Inr None \<Rightarrow> (Inl (JsError ''BAPB not found''), s)
      | Inr (Some (b, items)) \<Rightarrow>
          if bapb_status b \<noteq> Approved
          then (Inl (JsError ''BAPB must be approved before payment processing''), s)
          else
            (let paymentResult = simulatePaymentGateway isSuccess txn;
                 s1 = logPaymentAttempt F
                        \<lparr>document_type = ''BAPB'', document_id = bapb_id b,
                         document_number = bapb_number b, pl_vendor_id = bapb_vendor_id b,
                         amount = pay_amount paymentData,
                         payment_method = paymentMethod_of paymentData,
                         pl_status = gw_status paymentResult,
                         transaction_id = gw_transactionId paymentResult\<rparr> s;
                 s2 = (if gw_status paymentResult = ''success''
                       then notifyPaymentProcessed F (bapb_vendor_id b) ''BAPB'' (bapb_id b)
                              (bapb_number b) (pay_amount paymentData) s1
                       else s1)
             in (Inr \<lparr>paid_amount = pay_amount paymentData,
                      paid_transactionId = gw_transactionId paymentResult,
                      paid_status = gw_status paymentResult\<rparr>, s2)))"

text \<open>
  For BAPP the amount defaults to \<open>contractAmount * total_progress / 100\<close>
  (\<open>None\<close> stands for the NaN that a missing \<open>contractAmount\<close> gives).
\<close>

definition progressBasedAmount :: "payment_data \<Rightarrow> bapp_row \<Rightarrow> rat option" where
  "progressBasedAmount d b =
     map_option (\<lambda>c. fl (fl (fl c * fl (total_progress b)) / 100)) (pay_contractAmount d)"

definition processBAPPPayment ::
  "faults \<Rightarrow> bool \<Rightarrow> string \<Rightarrow> uuid \<Rightarrow> payment_data \<Rightarrow> store \<Rightarrow> (error + payment_result) \<times> store" where
  "processBAPPPayment F isSuccess txn bappId paymentData s =
     (case bapp_findByIdWithRelations FindDoc F s bappId of
        Inl e \<Rightarrow> (Inl e, s)
      | Inr None \<Rightarrow> (Inl (JsError ''BAPP not found''), s)
      | Inr (Some (b, items)) \<Rightarrow>
          if bapp_status b \<noteq> Approved
          then (Inl (JsError ''BAPP must be approved before payment processing''), s)
          else
            (let amt = js_or_num (pay_amount paymentData) (progressBasedAmount paymentData b);
                 paymentResult = simulatePaymentGateway isSuccess txn;
                 s1 = logPaymentAttempt F
                        \<lparr>document_type = ''BAPP'', document_id = bapp_id b,
                         document_number = bapp_number b, pl_vendor_id = bapp_vendor_id b,
                         amount = amt,
                         payment_method = paymentMethod_of paymentData,
                         pl_status = gw_status paymentResult,
                         transaction_id = gw_transactionId paymentResult\<rparr> s;
                 s2 = (if gw_status paymentResult = ''success''
                       then notifyPaymentProcessed F (bapp_vendor_id b) ''BAPP'' (bapp_id b)
                              (bapp_number b) (pay_amount paymentData) s1
                       else s1)
             in (Inr \<lparr>paid_amount = amt,
                      paid_transactionId = gw_transactionId paymentResult,
                      paid_status = gw_status paymentResult\<rparr>, s2)))"

text \<open>
  \<open>checkPaymentReadiness\<close>. The payment-log query reads only \<open>data\<close>, which is null
  when the query fails; the two \<open>findById\<close> calls throw on a store error.
\<close>

record readiness =
  ready :: bool
  reason :: string
  blockers :: "string list"
  document :: "(uuid \<times> string \<times> status \<times> uuid) option"

definition existingPayments :: "faults \<Rightarrow> store \<Rightarrow> string \<Rightarrow> uuid \<Rightarrow> payment_log_row list option" where
  "existingPayments F s documentType documentId =
     (case F QueryPaymentLogs of
        Some m \<Rightarrow> None
      | None \<Rightarrow>
          Some (filter (\<lambda>l. document_type l = documentType \<and> document_id l = documentId
                              \<and> pl_status l = ''success'') (payment_logs s)))"

definition find_document ::
  "faults \<Rightarrow> store \<Rightarrow> string \<Rightarrow> uuid \<Rightarrow> error + (uuid \<times> string \<times> status \<times> uuid) option" where
  "find_document F s documentType documentId =
     (if documentType = ''BAPB''
      then (case bapb_findById FindDoc F s documentId of
              Inl e \<Rightarrow> Inl e
            | Inr None \<Rightarrow> Inr None
            | Inr (Some b) \<Rightarrow> Inr (Some (bapb_id b, bapb_number b, bapb_status b, bapb_vendor_id b)))
      else (case bapp_findById FindDoc F s documentId of
              Inl e \<Rightarrow> Inl e
            | Inr None \<Rightarrow> Inr None
            | Inr (Some b) \<Rightarrow> Inr (Some (bapp_id b, bapp_number b, bapp_status b, bapp_vendor_id b))))"

definition checkPaymentReadiness :: "faults \<Rightarrow> store \<Rightarrow> string \<Rightarrow> uuid \<Rightarrow> error + readiness" where
  "checkPaymentReadiness F s documentType documentId =
     (case find_document F s documentType documentId of
        Inl e \<Rightarrow> Inl e
      | Inr None \<Rightarrow>
          Inr \<lparr>ready = False, reason = ''Document not found'',
               blockers = [''Document does not exist''], document = None\<rparr>
      | Inr (Some (d_id, d_number, d_status, d_vendor)) \<Rightarrow>
          (let blockers1 = (if d_status \<noteq> Approved then [''Document is not approved''] else []);
               blockers2 =
                 (case existingPayments F s documentType documentId of
                    Some (p # ps) \<Rightarrow> blockers1 @ [''Payment already processed for this document'']
                  | _ \<Rightarrow> blockers1)
           in (case findById FindUser F user_id (users s) d_vendor of
                 Inl e \<Rightarrow> Inl e
               | Inr vendor \<Rightarrow>
                   (let blockers3 =
                          (case vendor of
                             Some v \<Rightarrow>
                               if \<not> is_active v
                               then blockers2 @ [''Vendor account is inactive or not found'']
                               else blockers2
                           | None \<Rightarrow> blockers2 @ [''Vendor account is inactive or not found''])
                    in Inr \<lparr>ready = (length blockers3 = 0),
                            reason = (if length blockers3 > 0 then ''Document not ready for payment''
                                      else ''Document ready for payment''),
                            blockers = blockers3,
                            document = Some (d_id, d_number, d_status, d_vendor)\<rparr>))))"

section \<open>The write phase of the controllers\<close>

text \<open>
  For the proofs each approval and submit handler is cut where its checks end: the
  \<open>..._commit\<close> function is the rest of the handler's body, from the first write on,
  and the \<open>..._unfold\<close> lemmas below state that the handler is its checks followed by
  that rest.
\<close>

definition approveBAPB_commit ::
  "faults \<Rightarrow> user_row \<Rightarrow> uuid \<Rightarrow> string option \<Rightarrow> bapb_row \<Rightarrow> store \<Rightarrow> response \<times> store" where
  "approveBAPB_commit F u i notes b s =
     (let signatureWarning = bapb_signatureWarning F s i (user_id u) in
      (case bapb_createApproval F
              \<lparr>doc_id = i, approver_id = user_id u, action = Act_approved,
               approval_notes = notes\<rparr> s of
         (Inl e, s1) \<Rightarrow> (server_error ''Error approving BAPB'' e, s1)
       | (Inr _, s1) \<Rightarrow>
           (case bapb_update_by_id F i (bapb_approve_patch b u) s1 of
              (Inl e, s2) \<Rightarrow> (server_error ''Error approving BAPB'' e, s2)
            | (Inr _, s2) \<Rightarrow>
                (let s3 = notifyBAPBApproved F b s2 in
                 (case bapb_findByIdWithRelations RefetchDoc F s3 i of
                    Inl e \<Rightarrow> (server_error ''Error approving BAPB'' e, s3)
                  | Inr _ \<Rightarrow>
                      (ok 200 ''BAPB approved successfully'' signatureWarning, s3))))))"

definition review_bapb_commit ::
  "approval_action \<Rightarrow> status \<Rightarrow> (faults \<Rightarrow> bapb_row \<Rightarrow> store \<Rightarrow> store) \<Rightarrow> string \<Rightarrow> string \<Rightarrow>
   faults \<Rightarrow> user_row \<Rightarrow> uuid \<Rightarrow> string option \<Rightarrow> string option \<Rightarrow> bapb_row \<Rightarrow> store
     \<Rightarrow> response \<times> store" where
  "review_bapb_commit act st notify m_error m_ok F u i notes rsn b s =
     (case bapb_createApproval F
             \<lparr>doc_id = i, approver_id = user_id u, action = act, approval_notes = notes\<rparr> s of
        (Inl e, s1) \<Rightarrow> (server_error m_error e, s1)
      | (Inr _, s1) \<Rightarrow>
          (case bapb_update_by_id F i
                  (empty_bapb_patch\<lparr>set_bapb_status := Some st,
                                     set_bapb_rejection_reason := Some rsn\<rparr>) s1 of
             (Inl e, s2) \<Rightarrow> (server_error m_error e, s2)
           | (Inr _, s2) \<Rightarrow>
               (let s3 = notify F b s2 in
                (case bapb_findByIdWithRelations RefetchDoc F s3 i of
                   Inl e \<Rightarrow> (server_error m_error e, s3)
                 | Inr _ \<Rightarrow> (ok 200 m_ok None, s3)))))"

definition submitBAPB_commit :: "faults \<Rightarrow> uuid \<Rightarrow> bapb_row \<Rightarrow> store \<Rightarrow> response \<times> store" where
  "submitBAPB_commit F i b s =
     (case bapb_updateStatus F i Submitted s of
        (Inl e, s1) \<Rightarrow> (server_error ''Error submitting BAPB'' e, s1)
      | (Inr _, s1) \<Rightarrow>
          (let s2 = notifyBAPBSubmitted F b s1 in
           (case bapb_findByIdWithRelations RefetchDoc F s2 i of
              Inl e \<Rightarrow> (server_error ''Error submitting BAPB'' e, s2)
            | Inr _ \<Rightarrow> (ok 200 ''BAPB submitted successfully'' None, s2))))"

definition approveBAPP_commit ::
  "faults \<Rightarrow> user_row \<Rightarrow> uuid \<Rightarrow> string option \<Rightarrow> bapp_row \<Rightarrow> store \<Rightarrow> response \<times> store" where
  "approveBAPP_commit F u i notes b s =
     (case bapp_createApproval F
             \<lparr>doc_id = i, approver_id = user_id u, action = Act_approved,
              approval_notes = notes\<rparr> s of
        (Inl e, s1) \<Rightarrow> (server_error ''Error approving BAPP'' e, s1)
      | (Inr _, s1) \<Rightarrow>
          (case bapp_update_by_id F i (bapp_approve_patch b u) s1 of
             (Inl e, s2) \<Rightarrow> (server_error ''Error approving BAPP'' e, s2)
           | (Inr _, s2) \<Rightarrow>
               (let s3 = notifyBAPPApproved F b s2 in
                (case bapp_findByIdWithRelations RefetchDoc F s3 i of
                   Inl e \<Rightarrow> (server_error ''Error approving BAPP'' e, s3)
                 | Inr _ \<Rightarrow> (ok 200 ''BAPP approved successfully'' None, s3)))))"

definition review_bapp_commit ::
  "approval_action \<Rightarrow> status \<Rightarrow> (faults \<Rightarrow> bapp_row \<Rightarrow> store \<Rightarrow> store) \<Rightarrow> string \<Rightarrow> string \<Rightarrow>
   faults \<Rightarrow> user_row \<Rightarrow> uuid \<Rightarrow> string option \<Rightarrow> string option \<Rightarrow> bapp_row \<Rightarrow> store
     \<Rightarrow> response \<times> store" where
  "review_bapp_commit act st notify m_error m_ok F u i notes rsn b s =
     (case bapp_createApproval F
             \<lparr>doc_id = i, approver_id = user_id u, action = act, approval_notes = notes\<rparr> s of
        (Inl e, s1) \<Rightarrow> (server_error m_error e, s1)
      | (Inr _, s1) \<Rightarrow>
          (case bapp_update_by_id F i
                  (empty_bapp_patch\<lparr>set_bapp_status := Some st,
                                     set_bapp_rejection_reason := Some rsn\<rparr>) s1 of
             (Inl e, s2) \<Rightarrow> (server_error m_error e, s2)
           | (Inr _, s2) \<Rightarrow>
               (let s3 = notify F b s2 in
                (case bapp_findByIdWithRelations RefetchDoc F s3 i of
                   Inl e \<Rightarrow> (server_error m_error e, s3)
                 | Inr _ \<Rightarrow> (ok 200 m_ok None, s3)))))"

definition submitBAPP_commit :: "faults \<Rightarrow> uuid \<Rightarrow> bapp_row \<Rightarrow> store \<Rightarrow> response \<times> store" where
  "submitBAPP_commit F i b s =
     (case bapp_updateStatus F i Submitted s of
        (Inl e, s1) \<Rightarrow> (server_error ''Error submitting BAPP'' e, s1)
      | (Inr _, s1) \<Rightarrow>
          (let s2 = notifyBAPPSubmitted F b s1 in
           (case bapp_findByIdWithRelations RefetchDoc F s2 i of
              Inl e \<Rightarrow> (server_error ''Error submitting BAPP'' e, s2)
            | Inr _ \<Rightarrow> (ok 200 ''BAPP submitted successfully'' None, s2))))"

section \<open>Requests served one after another\<close>

text \<open>
  The operations that write to the store, as one request type; \<open>perform\<close> runs a
  request against a fault map and gives the store it leaves behind.
\<close>

datatype request =
    ApproveBAPB user_row uuid "string option"
  | ApproveBAPB_main user_row uuid "string option"
  | RejectBAPB user_row uuid "string option" "string option"
  | RequestRevisionBAPB user_row uuid "string option" "string option"
  | UpdateBAPB user_row uuid bapb_update_body
  | SubmitBAPB user_row uuid
  | CreateBAPB bapb_row "bapb_item_input list option"
  | PayBAPB bool string uuid payment_data
  | ApproveBAPP user_row uuid "string option"
  | RejectBAPP user_row uuid "string option" "string option"
  | RequestRevisionBAPP user_row uuid "string option" "string option"
  | UpdateBAPP user_row uuid bapp_update_body
  | SubmitBAPP user_row uuid
  | CreateBAPP bapp_row "work_item_input list option"
  | PayBAPP bool string uuid payment_data

fun perform :: "faults \<Rightarrow> request \<Rightarrow> store \<Rightarrow> store" where
  "perform F (ApproveBAPB u i n) s = snd (approveBAPB F u i n s)"
| "perform F (ApproveBAPB_main u i n) s = snd (approveBAPB_main F u i n s)"
| "perform F (RejectBAPB u i n r) s = snd (rejectBAPB F u i n r s)"
| "perform F (RequestRevisionBAPB u i n r) s = snd (requestRevisionBAPB F u i n r s)"
| "perform F (UpdateBAPB u i body) s = snd (updateBAPB F u i body s)"
| "perform F (SubmitBAPB u i) s = snd (submitBAPB F u i s)"
| "perform F (CreateBAPB row items) s = snd (createWithItems F row items s)"
| "perform F (PayBAPB isSuccess txn i d) s = snd (processBAPBPayment F isSuccess txn i d s)"
| "perform F (ApproveBAPP u i n) s = snd (approveBAPP F u i n s)"
| "perform F (RejectBAPP u i n r) s = snd (rejectBAPP F u i n r s)"
| "perform F (RequestRevisionBAPP u i n r) s = snd (requestRevisionBAPP F u i n r s)"
| "perform F (UpdateBAPP u i body) s = snd (updateBAPP F u i body s)"
| "perform F (SubmitBAPP u i) s = snd (submitBAPP F u i s)"
| "perform F (CreateBAPP row items) s = snd (createWithWorkItems F row items s)"
| "perform F (PayBAPP isSuccess txn i d) s = snd (processBAPPPayment F isSuccess txn i d s)"

text \<open>
  The stores reached when the requests are served one after another, each handler
  running to its end before the next request starts: any store in which no approval
  has been recorded yet, and every store such a request leaves behind, whatever calls
  fail.
\<close>

inductive serially_reachable :: "store \<Rightarrow> bool" where
  init: "bapb_approvals s = [] \<Longrightarrow> bapp_approvals s = [] \<Longrightarrow> serially_reachable s"
| step: "serially_reachable s \<Longrightarrow> serially_reachable (perform F r s)"

text \<open>
  Requests that overlap. A handler gives way to the other requests at every \<open>await\<close>,
  so the reads of a second call can fall between the reads and the writes of a first
  one. \<open>approveBAPB_checks\<close> is \<open>approveBAPB\<close> up to its check for an earlier approval:
  the response when the call is refused, the document row read when it goes on.
  \<open>approveBAPB_overlapped\<close> runs two approvals whose reads are all made before the
  first write: the checks of both calls on the store as it is, then the write phase
  of the first call, then the write phase of the second.
\<close>

definition approveBAPB_checks :: "faults \<Rightarrow> user_row \<Rightarrow> uuid \<Rightarrow> store \<Rightarrow> response + bapb_row" where
  "approveBAPB_checks F u i s =
     (case bapb_findByIdWithRelations FindDoc F s i of
        Inl e \<Rightarrow> Inl (server_error ''Error approving BAPB'' e)
      | Inr None \<Rightarrow> Inl (refuse 404 ''BAPB not found'')
      | Inr (Some (b, items)) \<Rightarrow>
          if bapb_status b \<notin> set [Submitted, In_review]
          then Inl (refuse 400 ''BAPB must be in submitted or in_review status to be approved'')
          else if user_role u \<notin> set [R_pic_gudang, R_approver, R_admin]
          then Inl (refuse 403 ''Not authorized to approve BAPB'')
          else
            (case bapb_hasUserApproved F s i (user_id u) of
               Inl e \<Rightarrow> Inl (server_error ''Error approving BAPB'' e)
             | Inr True \<Rightarrow> Inl (refuse 400 ''You have already approved this BAPB'')
             | Inr False \<Rightarrow> Inr b))"

definition approveBAPB_overlapped ::
  "faults \<Rightarrow> user_row \<Rightarrow> uuid \<Rightarrow> string option \<Rightarrow> user_row \<Rightarrow> uuid \<Rightarrow> string option \<Rightarrow> store
     \<Rightarrow> (response \<times> response) \<times> store" where
  "approveBAPB_overlapped F u i n u' i' n' s =
     (let checked = approveBAPB_checks F u i s;
          checked' = approveBAPB_checks F u' i' s;
          (r, s1) = (case checked of Inl refused \<Rightarrow> (refused, s)
                     | Inr b \<Rightarrow> approveBAPB_commit F u i n b s);
          (r', s2) = (case checked' of Inl refused \<Rightarrow> (refused, s1)
                      | Inr b \<Rightarrow> approveBAPB_commit F u' i' n' b s1)
      in ((r, r'), s2))"

section \<open>Properties stated about the store\<close>

text \<open>At most one \<open>approved\<close> record for each pair of document and approver.\<close>

definition approved_once :: "approval_row list \<Rightarrow> bool" where
  "approved_once tbl \<longleftrightarrow>
     distinct (map (\<lambda>a. (doc_id a, approver_id a)) (filter (\<lambda>a. action a = Act_approved) tbl))"

text \<open>The write calls an operation issued: what it added to the journal.\<close>

definition writes_of :: "store \<Rightarrow> store \<Rightarrow> (store_call \<times> bool) list" where
  "writes_of s s' = drop (length (journal s)) (journal s')"

text \<open>
  An approval-cycle run issues no write, or only a refused approval insert, or an
  accepted approval insert and then the status update.
\<close>

fun approval_first :: "(store_call \<times> bool) list \<Rightarrow> bool" where
  "approval_first [] = True"
| "approval_first [w] = (w = (InsertApproval, False))"
| "approval_first (w # w' # ws) = (w = (InsertApproval, True) \<and> fst w' = UpdateDoc)"

text \<open>The journal of \<open>s'\<close> continues that of \<open>s\<close>, approval first.\<close>

definition in_order :: "store \<Rightarrow> store \<Rightarrow> bool" where
  "in_order s s' \<longleftrightarrow> take (length (journal s)) (journal s') = journal s \<and> approval_first (writes_of s s')"

text \<open>
  The store with one more approval record and a refused status update: what an
  approval-cycle run leaves when its status update fails.
\<close>

definition with_orphan_bapb :: "store \<Rightarrow> approval_row \<Rightarrow> store" where
  "with_orphan_bapb s a =
     s\<lparr>bapb_approvals := bapb_approvals s @ [a],
       journal := journal s @ [(InsertApproval, True), (UpdateDoc, False)]\<rparr>"

definition with_orphan_bapp :: "store \<Rightarrow> approval_row \<Rightarrow> store" where
  "with_orphan_bapp s a =
     s\<lparr>bapp_approvals := bapp_approvals s @ [a],
       journal := journal s @ [(InsertApproval, True), (UpdateDoc, False)]\<rparr>"

text \<open>The calendar month of the clock reading, as a half-open interval of instants.\<close>

definition in_month :: "nat \<Rightarrow> nat \<Rightarrow> int \<Rightarrow> bool" where
  "in_month year month0 t \<longleftrightarrow> startOfMonth year month0 \<le> t \<and> t < startOfMonth year (month0 + 1)"

text \<open>
  The update data \<open>updateWithWorkItems\<close> sends for the document row: the data it was
  given, with the total progress added when a list of work items was passed.
\<close>

definition bapp_updateData_with :: "bapp_patch \<Rightarrow> work_item_input list option \<Rightarrow> bapp_patch" where
  "bapp_updateData_with p ws =
     (case ws of None \<Rightarrow> p
      | Some xs \<Rightarrow> p\<lparr>set_total_progress := Some (calculateTotalProgress (Some xs))\<rparr>)"

text \<open>
  The actual progress a work item carries: the number under the key \<open>actual_progress\<close>,
  or else the one under \<open>actualProgress\<close>, or else 0. An item is unambiguous when it
  has the number under one key only, or the same number under both. The arithmetic
  mean is taken over these numbers as they were sent.
\<close>

definition item_progress :: "work_item_input \<Rightarrow> rat" where
  "item_progress x =
     (case in_actual_progress x of
        Some v \<Rightarrow> v
      | None \<Rightarrow> (case in_actualProgress x of Some v \<Rightarrow> v | None \<Rightarrow> 0))"

definition unambiguous :: "work_item_input \<Rightarrow> bool" where
  "unambiguous x \<longleftrightarrow>
     in_actual_progress x = None \<or> in_actualProgress x = None \<or>
     in_actual_progress x = in_actualProgress x"

definition mean_progress :: "work_item_input list \<Rightarrow> rat" where
  "mean_progress xs = sum_list (map item_progress xs) / of_nat (length xs)"

text \<open>
  The two error terms of one rounding to a double: half a unit in the last place of
  a normal number, relative to the number, and half the spacing of the subnormal
  numbers.
\<close>

definition unit_roundoff :: rat where
  "unit_roundoff = 2 powi (- 53)"

definition underflow_unit :: rat where
  "underflow_unit = 2 powi (- 1075)"

text \<open>
  The numbers of a list of work items are bounded by \<open>M\<close>: the magnitudes of the
  numbers sent (the larger one where an item has a number under both keys) add up to
  at most \<open>M\<close>, with room left for the roundings of the reading and of the additions;
  and \<open>M\<close> is at most 10 to the 20, so that every number computed is finite and below
  the 10 to the 21 from which \<open>toFixed\<close> changes its notation.
\<close>

definition sent_magnitude :: "work_item_input \<Rightarrow> rat" where
  "sent_magnitude x =
     max (case in_actual_progress x of Some v \<Rightarrow> \<bar>v\<bar> | None \<Rightarrow> 0)
         (case in_actualProgress x of Some v \<Rightarrow> \<bar>v\<bar> | None \<Rightarrow> 0)"

definition progress_bounded :: "rat \<Rightarrow> work_item_input list \<Rightarrow> bool" where
  "progress_bounded M xs \<longleftrightarrow>
     0 \<le> M \<and> M \<le> 10 ^ 20 \<and>
     sum_list (map sent_magnitude xs)
       + 2 * of_nat (length xs) * (unit_roundoff * M + underflow_unit) \<le> M"

text \<open>The running totals of the additions stay within \<open>M\<close> before they are rounded.\<close>

primrec totals_within :: "rat \<Rightarrow> rat \<Rightarrow> rat list \<Rightarrow> bool" where
  "totals_within M s [] = True"
| "totals_within M s (a # as) = (\<bar>s + a\<bar> \<le> M \<and> totals_within M (fl (s + a)) as)"

text \<open>The payment-log rows that record a successful payment of a document.\<close>

definition success_logs :: "store \<Rightarrow> string \<Rightarrow> uuid \<Rightarrow> payment_log_row list" where
  "success_logs s documentType documentId =
     filter (\<lambda>l. document_type l = documentType \<and> document_id l = documentId
                  \<and> pl_status l = ''success'') (payment_logs s)"

text \<open>The vendor account was found and is active.\<close>

definition vendor_active :: "user_row option \<Rightarrow> bool" where
  "vendor_active vendor = (case vendor of Some v \<Rightarrow> is_active v | None \<Rightarrow> False)"

text \<open>
  The write calls of a payment run on an approved document: the payment-log insert,
  then the notification insert when the gateway reported success and there is an
  amount to put in the message; each with the store's answer.
\<close>

definition payment_writes :: "faults \<Rightarrow> bool \<Rightarrow> rat option \<Rightarrow> (store_call \<times> bool) list" where
  "payment_writes F isSuccess amt =
     (InsertPaymentLog, F InsertPaymentLog = None) #
     (if isSuccess \<and> amt \<noteq> None then [(InsertNotification, F InsertNotification = None)] else [])"

section \<open>Example data\<close>

definition no_faults :: faults where
  "no_faults = (\<lambda>c. None)"

definition failing :: "store_call \<Rightarrow> string \<Rightarrow> faults" where
  "failing c m = (\<lambda>c'. if c' = c then Some m else None)"

definition empty_store :: store where
  "empty_store =
     \<lparr>users = [], bapb = [], bapb_items = [], bapb_approvals = [], bapb_attachments = [],
      bapp = [], bapp_work_items = [], bapp_approvals = [], bapp_attachments = [],
      payment_logs = [], notifications = [], journal = []\<rparr>"

definition vendor_a :: user_row where
  "vendor_a = \<lparr>user_id = ''v1'', user_name = ''Vendor A'', user_role = R_vendor, is_active = True\<rparr>"

definition reviewer_r :: user_row where
  "reviewer_r = \<lparr>user_id = ''r1'', user_name = ''Reviewer R'', user_role = R_approver, is_active = True\<rparr>"

definition bapb_doc :: "status \<Rightarrow> bapb_row" where
  "bapb_doc st =
     \<lparr>bapb_id = ''b1'', bapb_number = ''BAPB/2024/03/0001'', bapb_vendor_id = ''v1'',
      pic_gudang_id = None, order_number = ''PO-1'', delivery_date = ''2024-03-05'',
      bapb_notes = None, bapb_status = st, bapb_rejection_reason = None,
      bapb_created_at = 1709600000000\<rparr>"

definition bapb_item :: bapb_item_row where
  "bapb_item =
     \<lparr>item_bapb_id = ''b1'', item_name = Some ''Bolt'', quantity_ordered = Some 10,
      quantity_received = Some 10, item_unit = Some ''pcs'', item_condition = Some ''good'',
      item_notes = None\<rparr>"

definition bapp_doc :: "status \<Rightarrow> bapp_row" where
  "bapp_doc st =
     \<lparr>bapp_id = ''p1'', bapp_number = ''BAPP/2024/03/0001'', bapp_vendor_id = ''v1'',
      direksi_pekerjaan_id = None, contract_number = ''C-1'', project_name = ''Bridge'',
      project_location = ''Bandung'', start_date = ''2024-01-01'', end_date = ''2024-12-31'',
      completion_date = None, bapp_notes = None, bapp_status = st,
      bapp_rejection_reason = None, total_progress = 50, bapp_created_at = 1709600000000\<rparr>"

definition bapp_item :: bapp_work_item_row where
  "bapp_item =
     \<lparr>wi_bapp_id = ''p1'', work_item_name = Some ''Piling'', planned_progress = 60,
      actual_progress = 50, wi_unit = Some ''%'', quality = ''good'', wi_notes = None\<rparr>"

definition store_with :: "status \<Rightarrow> store" where
  "store_with st =
     empty_store\<lparr>users := [vendor_a, reviewer_r], bapb := [bapb_doc st], bapb_items := [bapb_item],
                  bapp := [bapp_doc st], bapp_work_items := [bapp_item]\<rparr>"

definition approval_of :: "uuid \<Rightarrow> approval_row" where
  "approval_of i = \<lparr>doc_id = i, approver_id = ''r1'', action = Act_approved, approval_notes = None\<rparr>"

definition work_item :: "rat \<Rightarrow> work_item_input" where
  "work_item p =
     \<lparr>in_workItemName = Some ''Piling'', in_work_item_name = None, in_plannedProgress = Some 60,
      in_planned_progress = None, in_actualProgress = Some p, in_actual_progress = None,
      in_wi_unit = Some ''%'', in_quality = None, in_wi_notes = None\<rparr>"

definition item_input :: bapb_item_input where
  "item_input =
     \<lparr>in_itemName = Some ''Bolt'', in_item_name = None, in_quantityOrdered = Some 10,
      in_quantity_ordered = None, in_quantityReceived = Some 10, in_quantity_received = None,
      in_unit = Some ''pcs'', in_condition = Some ''good'', in_notes = None\<rparr>"

text \<open>The store left by a BAPB approval whose status update the store refused.\<close>

definition half_approved :: store where
  "half_approved =
     perform (failing UpdateDoc ''timeout'') (ApproveBAPB reviewer_r ''b1'' None) (store_with Submitted)"

text \<open>31 March 2024, 23:59:59.500, and tables of documents created at given instants.\<close>

definition late_march :: int where
  "late_march = 1711929599500"

definition bapb_created_at_times :: "int list \<Rightarrow> store" where
  "bapb_created_at_times ts = empty_store\<lparr>bapb := map (\<lambda>t. (bapb_doc Approved)\<lparr>bapb_created_at := t\<rparr>) ts\<rparr>"

definition bapp_created_at_times :: "int list \<Rightarrow> store" where
  "bapp_created_at_times ts = empty_store\<lparr>bapp := map (\<lambda>t. (bapp_doc Approved)\<lparr>bapp_created_at := t\<rparr>) ts\<rparr>"

text \<open>An approved BAPB that has been paid, and the data of a payment request.\<close>

definition paid_log :: payment_log_row where
  "paid_log =
     \<lparr>document_type = ''BAPB'', document_id = ''b1'', document_number = ''BAPB/2024/03/0001'',
      pl_vendor_id = ''v1'', amount = Some 1000, payment_method = ''bank_transfer'',
      pl_status = ''success'', transaction_id = ''TXN-1''\<rparr>"

definition paid_store :: store where
  "paid_store = (store_with Approved)\<lparr>payment_logs := [paid_log]\<rparr>"

definition pay_1000 :: payment_data where
  "pay_1000 = \<lparr>pay_amount = Some 1000, pay_contractAmount = None, pay_paymentMethod = None\<rparr>"

text \<open>Documents sent back for revision, and an edit of each.\<close>

definition revision_store :: store where
  "revision_store =
     (store_with Revision_required)
       \<lparr>bapb := [(bapb_doc Revision_required)\<lparr>bapb_rejection_reason := Some ''Quantities differ''\<rparr>],
        bapp := [(bapp_doc Revision_required)\<lparr>bapp_rejection_reason := Some ''Progress unclear''\<rparr>]\<rparr>"

definition bapb_edit :: bapb_update_body where
  "bapb_edit = \<lparr>orderNumber = Some ''PO-2'', deliveryDate = None, body_notes = None, body_items = None\<rparr>"

definition bapp_edit :: bapp_update_body where
  "bapp_edit =
     \<lparr>contractNumber = Some ''C-2'', projectName = None, projectLocation = None, startDate = None,
      endDate = None, completionDate = None, bapp_body_notes = None, workItems = None\<rparr>"

text \<open>Draft documents without line items.\<close>

definition no_items :: store where
  "no_items = (store_with Draft)\<lparr>bapb_items := [], bapp_work_items := []\<rparr>"

text \<open>
  A store in which the reviewer has uploaded a signature for the BAPP, and the record
  a review by that reviewer inserts.
\<close>

definition signature_r :: attachment_row where
  "signature_r =
     \<lparr>att_doc_id = ''p1'', att_file_type = Signature, file_path = ''/uploads/signatures/sig-p1-r1.png'',
      file_name = ''Digital Signature'', uploaded_by = ''r1''\<rparr>"

definition signed_store :: store where
  "signed_store = (store_with Submitted)\<lparr>bapp_attachments := [signature_r]\<rparr>"

definition review_of :: "uuid \<Rightarrow> approval_action \<Rightarrow> approval_row" where
  "review_of i act = \<lparr>doc_id = i, approver_id = ''r1'', action = act, approval_notes = None\<rparr>"

text \<open>A store that refuses the insert of the items and the delete of the document.\<close>

definition items_and_delete_fail :: faults where
  "items_and_delete_fail =
     (failing InsertItems ''violates check constraint'')(DeleteDoc := Some ''connection reset'')"

section \<open>Basic facts\<close>

lemma issued_tables [simp]:
  "users (issued c b s) = users s"
  "bapb (issued c b s) = bapb s"
  "bapb_items (issued c b s) = bapb_items s"
  "bapb_approvals (issued c b s) = bapb_approvals s"
  "bapb_attachments (issued c b s) = bapb_attachments s"
  "bapp (issued c b s) = bapp s"
  "bapp_work_items (issued c b s) = bapp_work_items s"
  "bapp_approvals (issued c b s) = bapp_approvals s"
  "bapp_attachments (issued c b s) = bapp_attachments s"
  "payment_logs (issued c b s) = payment_logs s"
  "notifications (issued c b s) = notifications s"
  "journal (issued c b s) = journal s @ [(c, b)]"
  by (simp_all add: issued_def)

lemma response_success [simp]:
  "success (refuse c m) = False"
  "success (server_error m e) = False"
  "success (ok c m w) = True"
  by (simp_all add: refuse_def server_error_def ok_def)

lemmas store_prims =
  bapb_createApproval_def bapb_update_by_id_def bapb_updateStatus_def bapb_create_def bapb_delete_def
  bapb_insert_items_def bapb_delete_items_def
  bapp_createApproval_def bapp_update_by_id_def bapp_updateStatus_def bapp_create_def bapp_delete_def
  bapp_insert_items_def bapp_delete_items_def
  createNotification_def createBulkNotifications_def logPaymentAttempt_def
  notify_bapb_vendor_def notify_bapp_vendor_def notifyBAPBApproved_def notifyBAPBRejected_def
  notifyBAPBRevisionRequired_def notifyBAPBSubmitted_def notifyBAPPApproved_def
  notifyBAPPRejected_def notifyBAPPRevisionRequired_def notifyBAPPSubmitted_def
  notifyPaymentProcessed_def

text \<open>Each handler is its checks followed by its write phase.\<close>

lemma approveBAPB_unfold:
  "approveBAPB F u i notes s =
     (case bapb_findByIdWithRelations FindDoc F s i of
        Inl e \<Rightarrow> (server_error ''Error approving BAPB'' e, s)
      | Inr None \<Rightarrow> (refuse 404 ''BAPB not found'', s)
      | Inr (Some (b, items)) \<Rightarrow>
          if bapb_status b \<notin> set [Submitted, In_review]
          then (refuse 400 ''BAPB must be in submitted or in_review status to be approved'', s)
          else if user_role u \<notin> set [R_pic_gudang, R_approver, R_admin]
          then (refuse 403 ''Not authorized to approve BAPB'', s)
          else
            (case bapb_hasUserApproved F s i (user_id u) of
               Inl e \<Rightarrow> (server_error ''Error approving BAPB'' e, s)
             | Inr True \<Rightarrow> (refuse 400 ''You have already approved this BAPB'', s)
             | Inr False \<Rightarrow> approveBAPB_commit F u i notes b s))"
  unfolding approveBAPB_def approveBAPB_commit_def ..

lemma review_bapb_unfold:
  "review_bapb act st notify m_reason m_status m_role m_error m_ok F u i notes rsn s =
     (if reason_missing rsn then (refuse 400 m_reason, s)
      else
        (case bapb_findById FindDoc F s i of
           Inl e \<Rightarrow> (server_error m_error e, s)
         | Inr None \<Rightarrow> (refuse 404 ''BAPB not found'', s)
         | Inr (Some b) \<Rightarrow>
             if bapb_status b \<notin> set [Submitted, In_review] then (refuse 400 m_status, s)
             else if user_role u \<notin> set [R_pic_gudang, R_approver, R_admin] then (refuse 403 m_role, s)
             else review_bapb_commit act st notify m_error m_ok F u i notes rsn b s))"
  unfolding review_bapb_def review_bapb_commit_def ..

lemma submitBAPB_unfold:
  "submitBAPB F u i s =
     (case bapb_findByIdWithRelations FindDoc F s i of
        Inl e \<Rightarrow> (server_error ''Error submitting BAPB'' e, s)
      | Inr None \<Rightarrow> (refuse 404 ''BAPB not found'', s)
      | Inr (Some (b, items)) \<Rightarrow>
          if bapb_vendor_id b \<noteq> user_id u
          then (refuse 403 ''Not authorized to submit this BAPB'', s)
          else if \<not> canManageBAPB (user_role u)
          then (refuse 403 ''Access denied. Only vendor barang can submit BAPB'', s)
          else if bapb_status b \<notin> set [Draft, Revision_required]
          then (refuse 400 ''Can only submit BAPB in draft or revision status'', s)
          else if length items = 0
          then (refuse 400 ''BAPB must have at least one item. Please add items before submitting.'', s)
          else submitBAPB_commit F i b s)"
  unfolding submitBAPB_def submitBAPB_commit_def ..

lemma approveBAPP_unfold:
  "approveBAPP F u i notes s =
     (case bapp_findByIdWithRelations FindDoc F s i of
        Inl e \<Rightarrow> (server_error ''Error approving BAPP'' e, s)
      | Inr None \<Rightarrow> (refuse 404 ''BAPP not found'', s)
      | Inr (Some (b, items)) \<Rightarrow>
          if bapp_status b \<notin> set [Submitted, In_review]
          then (refuse 400 ''BAPP must be in submitted or in_review status to be approved'', s)
          else if user_role u \<notin> set [R_approver, R_admin]
          then (refuse 403 ''Not authorized to approve BAPP'', s)
          else
            (case bapp_hasUserApproved F s i (user_id u) of
               Inl e \<Rightarrow> (server_error ''Error approving BAPP'' e, s)
             | Inr True \<Rightarrow> (refuse 400 ''You have already approved this BAPP'', s)
             | Inr False \<Rightarrow>
                 (case bapp_existingSignature F s i (user_id u) of
                    None \<Rightarrow>
                      (refuse 400 ''Please upload your signature first before approving. Use POST /api/bapp/:id/signature to upload.'', s)
                  | Some sig \<Rightarrow> approveBAPP_commit F u i notes b s)))"
  unfolding approveBAPP_def approveBAPP_commit_def ..

lemma review_bapp_unfold:
  "review_bapp act st notify m_reason m_status m_role m_error m_ok F u i notes rsn s =
     (if reason_missing rsn then (refuse 400 m_reason, s)
      else
        (case bapp_findById FindDoc F s i of
           Inl e \<Rightarrow> (server_error m_error e, s)
         | Inr None \<Rightarrow> (refuse 404 ''BAPP not found'', s)
         | Inr (Some b) \<Rightarrow>
             if bapp_status b \<notin> set [Submitted, In_review] then (refuse 400 m_status, s)
             else if user_role u \<notin> set [R_approver, R_admin] then (refuse 403 m_role, s)
             else review_bapp_commit act st notify m_error m_ok F u i notes rsn b s))"
  unfolding review_bapp_def review_bapp_commit_def ..

lemma submitBAPP_unfold:
  "submitBAPP F u i s =
     (case bapp_findByIdWithRelations FindDoc F s i of
        Inl e \<Rightarrow> (server_error ''Error submitting BAPP'' e, s)
      | Inr None \<Rightarrow> (refuse 404 ''BAPP not found'', s)
      | Inr (Some (b, work_items)) \<Rightarrow>
          if bapp_vendor_id b \<noteq> user_id u
          then (refuse 403 ''Not authorized to submit this BAPP'', s)
          else if \<not> canManageBAPP (user_role u)
          then (refuse 403 ''Access denied. Only vendor jasa can submit BAPP'', s)
          else if bapp_status b \<notin> set [Draft, Revision_required]
          then (refuse 400 ''Can only submit BAPP in draft or revision status'', s)
          else if length work_items = 0
          then (refuse 400 ''BAPP must have at least one work item. Please add work items before submitting.'', s)
          else submitBAPP_commit F i b s)"
  unfolding submitBAPP_def submitBAPP_commit_def ..

section \<open>At most one approval per approver\<close>

lemma approved_once_filter_le1:
  "approved_once tbl \<Longrightarrow> length (filter (approved_by i u) tbl) \<le> 1"
proof (induction tbl)
  case Nil
  then show ?case by simp
next
  case (Cons a tbl)
  have once: "approved_once tbl"
    using Cons.prems by (auto simp: approved_once_def split: if_splits)
  show ?case
  proof (cases "approved_by i u a")
    case True
    have "filter (approved_by i u) tbl = []"
    proof (rule ccontr)
      assume "filter (approved_by i u) tbl \<noteq> []"
      then obtain b where b: "b \<in> set tbl" "approved_by i u b"
        by (metis filter_False)
      then have "(doc_id a, approver_id a)
          \<in> (\<lambda>a. (doc_id a, approver_id a)) ` set (filter (\<lambda>a. action a = Act_approved) tbl)"
        using True by (force simp: approved_by_def)
      then show False
        using Cons.prems True by (auto simp: approved_once_def approved_by_def)
    qed
    then show ?thesis using True by simp
  next
    case False
    then show ?thesis using Cons.IH [OF once] by simp
  qed
qed

lemma hasUserApproved_False:
  assumes "hasUserApproved F tbl i u = Inr False" and "approved_once tbl"
  shows "filter (approved_by i u) tbl = []"
proof -
  have "length (filter (approved_by i u) tbl) \<le> 1"
    using assms(2) by (rule approved_once_filter_le1)
  moreover have "\<forall>r. filter (approved_by i u) tbl \<noteq> [r]"
    using assms(1)
    by (auto simp: hasUserApproved_def single_def split: option.splits list.splits single_result.splits)
  ultimately show ?thesis
    by (cases "filter (approved_by i u) tbl") (auto simp: le_Suc_eq)
qed

lemma hasUserApproved_True:
  assumes "approved_once tbl" and "a \<in> set tbl" and "approved_by i u a"
  shows "hasUserApproved F tbl i u = Inr True
    \<or> (\<exists>m. hasUserApproved F tbl i u = Inl (StoreError FindApproval m))"
proof -
  have le: "length (filter (approved_by i u) tbl) \<le> 1"
    using assms(1) by (rule approved_once_filter_le1)
  have "filter (approved_by i u) tbl \<noteq> []"
    using assms(2,3) by (auto simp: filter_empty_conv)
  with le obtain r where "filter (approved_by i u) tbl = [r]"
    by (cases "filter (approved_by i u) tbl") (auto simp: le_Suc_eq)
  then show ?thesis
    by (simp add: hasUserApproved_def single_def split: option.splits)
qed

lemma approved_once_snoc_approved:
  assumes "approved_once tbl" and "filter (approved_by (doc_id a) (approver_id a)) tbl = []"
  shows "approved_once (tbl @ [a])"
proof -
  have "(doc_id a, approver_id a)
      \<notin> (\<lambda>a. (doc_id a, approver_id a)) ` set (filter (\<lambda>a. action a = Act_approved) tbl)"
  proof
    assume "(doc_id a, approver_id a)
      \<in> (\<lambda>a. (doc_id a, approver_id a)) ` set (filter (\<lambda>a. action a = Act_approved) tbl)"
    then obtain b where "b \<in> set tbl" "approved_by (doc_id a) (approver_id a) b"
      by (auto simp: approved_by_def)
    then have "b \<in> set (filter (approved_by (doc_id a) (approver_id a)) tbl)"
      by simp
    with assms(2) show False by simp
  qed
  with assms(1) show ?thesis
    by (auto simp: approved_once_def)
qed

lemma approved_once_snoc_other:
  "action a \<noteq> Act_approved \<Longrightarrow> approved_once (tbl @ [a]) = approved_once tbl"
  by (simp add: approved_once_def)

text \<open>What each request does to the two approval tables.\<close>

lemma approveBAPB_approvals:
  "(bapb_approvals (snd (approveBAPB F u i n s)) = bapb_approvals s \<or>
    (bapb_hasUserApproved F s i (user_id u) = Inr False \<and>
     bapb_approvals (snd (approveBAPB F u i n s)) =
       bapb_approvals s
         @ [\<lparr>doc_id = i, approver_id = user_id u, action = Act_approved, approval_notes = n\<rparr>])) \<and>
   bapp_approvals (snd (approveBAPB F u i n s)) = bapp_approvals s"
  by (simp add: approveBAPB_def store_prims case_prod_beta Let_def
      split: sum.split option.split bool.split)

lemma approveBAPP_approvals:
  "(bapp_approvals (snd (approveBAPP F u i n s)) = bapp_approvals s \<or>
    (bapp_hasUserApproved F s i (user_id u) = Inr False \<and>
     bapp_approvals (snd (approveBAPP F u i n s)) =
       bapp_approvals s
         @ [\<lparr>doc_id = i, approver_id = user_id u, action = Act_approved, approval_notes = n\<rparr>])) \<and>
   bapb_approvals (snd (approveBAPP F u i n s)) = bapb_approvals s"
  by (simp add: approveBAPP_def store_prims case_prod_beta Let_def
      split: sum.split option.split bool.split)

lemma approveBAPB_main_unchanged:
  "snd (approveBAPB_main F u i n s) = s \<and> \<not> success (fst (approveBAPB_main F u i n s))"
  by (simp add: approveBAPB_main_def split: sum.split option.split bool.split prod.split)

lemma approveBAPB_already:
  "bapb_hasUserApproved F s i (user_id u) \<noteq> Inr False \<Longrightarrow>
   snd (approveBAPB F u i n s) = s \<and> \<not> success (fst (approveBAPB F u i n s))"
  by (simp add: approveBAPB_def split: sum.split option.split bool.split prod.split)

lemma approveBAPP_already:
  "bapp_hasUserApproved F s i (user_id u) \<noteq> Inr False \<Longrightarrow>
   snd (approveBAPP F u i n s) = s \<and> \<not> success (fst (approveBAPP F u i n s))"
  by (simp add: approveBAPP_def split: sum.split option.split bool.split prod.split)

lemma rejectBAPB_approvals:
  "(bapb_approvals (snd (rejectBAPB F u i n r s)) = bapb_approvals s \<or>
    bapb_approvals (snd (rejectBAPB F u i n r s)) =
      bapb_approvals s
        @ [\<lparr>doc_id = i, approver_id = user_id u, action = Act_rejected, approval_notes = n\<rparr>]) \<and>
   bapp_approvals (snd (rejectBAPB F u i n r s)) = bapp_approvals s"
  by (simp add: rejectBAPB_def review_bapb_def store_prims case_prod_beta Let_def
      split: sum.split option.split bool.split)

lemma requestRevisionBAPB_approvals:
  "(bapb_approvals (snd (requestRevisionBAPB F u i n r s)) = bapb_approvals s \<or>
    bapb_approvals (snd (requestRevisionBAPB F u i n r s)) =
      bapb_approvals s
        @ [\<lparr>doc_id = i, approver_id = user_id u, action = Act_revision_required,
            approval_notes = n\<rparr>]) \<and>
   bapp_approvals (snd (requestRevisionBAPB F u i n r s)) = bapp_approvals s"
  by (simp add: requestRevisionBAPB_def review_bapb_def store_prims case_prod_beta Let_def
      split: sum.split option.split bool.split)

lemma rejectBAPP_approvals:
  "(bapp_approvals (snd (rejectBAPP F u i n r s)) = bapp_approvals s \<or>
    bapp_approvals (snd (rejectBAPP F u i n r s)) =
      bapp_approvals s
        @ [\<lparr>doc_id = i, approver_id = user_id u, action = Act_rejected, approval_notes = n\<rparr>]) \<and>
   bapb_approvals (snd (rejectBAPP F u i n r s)) = bapb_approvals s"
  by (simp add: rejectBAPP_def review_bapp_def store_prims case_prod_beta Let_def
      split: sum.split option.split bool.split)

lemma requestRevisionBAPP_approvals:
  "(bapp_approvals (snd (requestRevisionBAPP F u i n r s)) = bapp_approvals s \<or>
    bapp_approvals (snd (requestRevisionBAPP F u i n r s)) =
      bapp_approvals s
        @ [\<lparr>doc_id = i, approver_id = user_id u, action = Act_revision_required,
            approval_notes = n\<rparr>]) \<and>
   bapb_approvals (snd (requestRevisionBAPP F u i n r s)) = bapb_approvals s"
  by (simp add: requestRevisionBAPP_def review_bapp_def store_prims case_prod_beta Let_def
      split: sum.split option.split bool.split)

lemma update_approvals:
  "bapb_approvals (snd (updateBAPB F u i body s)) = bapb_approvals s"
  "bapp_approvals (snd (updateBAPB F u i body s)) = bapp_approvals s"
  "bapb_approvals (snd (updateBAPP F u i pbody s)) = bapb_approvals s"
  "bapp_approvals (snd (updateBAPP F u i pbody s)) = bapp_approvals s"
  by (simp_all add: updateBAPB_def updateWithItems_def updateBAPP_def updateWithWorkItems_def
      store_prims case_prod_beta Let_def split: sum.split option.split bool.split)

lemma submit_approvals:
  "bapb_approvals (snd (submitBAPB F u i s)) = bapb_approvals s"
  "bapp_approvals (snd (submitBAPB F u i s)) = bapp_approvals s"
  "bapb_approvals (snd (submitBAPP F u i s)) = bapb_approvals s"
  "bapp_approvals (snd (submitBAPP F u i s)) = bapp_approvals s"
  by (simp_all add: submitBAPB_def submitBAPP_def
      store_prims case_prod_beta Let_def split: sum.split option.split bool.split)

lemma create_approvals:
  "bapb_approvals (snd (createWithItems F r xs s)) = bapb_approvals s"
  "bapp_approvals (snd (createWithItems F r xs s)) = bapp_approvals s"
  "bapb_approvals (snd (createWithWorkItems F prow ws s)) = bapb_approvals s"
  "bapp_approvals (snd (createWithWorkItems F prow ws s)) = bapp_approvals s"
  by (simp_all add: createWithItems_def createWithWorkItems_def
      store_prims case_prod_beta Let_def split: sum.split option.split bool.split list.split)

lemma payment_approvals:
  "bapb_approvals (snd (processBAPBPayment F g txn i d s)) = bapb_approvals s"
  "bapp_approvals (snd (processBAPBPayment F g txn i d s)) = bapp_approvals s"
  "bapb_approvals (snd (processBAPPPayment F g txn i d s)) = bapb_approvals s"
  "bapp_approvals (snd (processBAPPPayment F g txn i d s)) = bapp_approvals s"
  by (simp_all add: processBAPBPayment_def processBAPPPayment_def
      store_prims case_prod_beta Let_def split: sum.split option.split bool.split)

lemma perform_approved_once:
  assumes "approved_once (bapb_approvals s)" and "approved_once (bapp_approvals s)"
  shows "approved_once (bapb_approvals (perform F r s))
    \<and> approved_once (bapp_approvals (perform F r s))"
proof (cases r)
  case (ApproveBAPB u i n)
  show ?thesis
    using assms approveBAPB_approvals [of F u i n s]
      hasUserApproved_False [of F "bapb_approvals s" i "user_id u"]
      approved_once_snoc_approved [of "bapb_approvals s"
        "\<lparr>doc_id = i, approver_id = user_id u, action = Act_approved, approval_notes = n\<rparr>"]
    by (auto simp: ApproveBAPB bapb_hasUserApproved_def)
next
  case (ApproveBAPB_main u i n)
  then show ?thesis using assms by (simp add: approveBAPB_main_unchanged)
next
  case (RejectBAPB u i n x)
  then show ?thesis
    using assms rejectBAPB_approvals [of F u i n x s]
    by (auto simp: approved_once_snoc_other)
next
  case (RequestRevisionBAPB u i n x)
  then show ?thesis
    using assms requestRevisionBAPB_approvals [of F u i n x s]
    by (auto simp: approved_once_snoc_other)
next
  case (UpdateBAPB u i body)
  then show ?thesis using assms by (simp add: update_approvals)
next
  case (SubmitBAPB u i)
  then show ?thesis using assms by (simp add: submit_approvals)
next
  case (CreateBAPB row items)
  then show ?thesis using assms by (simp add: create_approvals)
next
  case (PayBAPB g txn i d)
  then show ?thesis using assms by (simp add: payment_approvals)
next
  case (ApproveBAPP u i n)
  show ?thesis
    using assms approveBAPP_approvals [of F u i n s]
      hasUserApproved_False [of F "bapp_approvals s" i "user_id u"]
      approved_once_snoc_approved [of "bapp_approvals s"
        "\<lparr>doc_id = i, approver_id = user_id u, action = Act_approved, approval_notes = n\<rparr>"]
    by (auto simp: ApproveBAPP bapp_hasUserApproved_def)
next
  case (RejectBAPP u i n x)
  then show ?thesis
    using assms rejectBAPP_approvals [of F u i n x s]
    by (auto simp: approved_once_snoc_other)
next
  case (RequestRevisionBAPP u i n x)
  then show ?thesis
    using assms requestRevisionBAPP_approvals [of F u i n x s]
    by (auto simp: approved_once_snoc_other)
next
  case (UpdateBAPP u i body)
  then show ?thesis using assms by (simp add: update_approvals)
next
  case (SubmitBAPP u i)
  then show ?thesis using assms by (simp add: submit_approvals)
next
  case (CreateBAPP row items)
  then show ?thesis using assms by (simp add: create_approvals)
next
  case (PayBAPP g txn i d)
  then show ?thesis using assms by (simp add: payment_approvals)
qed

lemma reachable_approved_once:
  "serially_reachable s \<Longrightarrow> approved_once (bapb_approvals s) \<and> approved_once (bapp_approvals s)"
proof (induction rule: serially_reachable.induct)
  case (init s)
  then show ?case by (simp add: approved_once_def)
next
  case (step s F r)
  then show ?case using perform_approved_once by blast
qed

lemma approveBAPB_split:
  "approveBAPB F u i n s =
     (case approveBAPB_checks F u i s of
        Inl refused \<Rightarrow> (refused, s)
      | Inr b \<Rightarrow> approveBAPB_commit F u i n b s)"
  by (simp add: approveBAPB_unfold approveBAPB_checks_def
      split: sum.split option.split bool.split prod.split)

text \<open>
  Claim C1. When the requests are served one after another, every store reached has
  at most one \<open>approved\<close> record for each pair of document and approver, in the BAPB
  and in the BAPP approval table; and when the caller already has such a record for
  the document, an approve call (either copy of \<open>approveBAPB\<close>, and \<open>approveBAPP\<close>),
  whatever store calls fail, is refused and leaves the whole store as it was: no write
  is issued, so no second record is inserted and the document status stays.
\<close>

theorem C1_single_approval:
  assumes "serially_reachable s"
  shows "approved_once (bapb_approvals s) \<and> approved_once (bapp_approvals s) \<and>
    ((\<exists>a \<in> set (bapb_approvals s). approved_by i (user_id u) a) \<longrightarrow>
       \<not> success (fst (approveBAPB F u i n s)) \<and> snd (approveBAPB F u i n s) = s \<and>
       \<not> success (fst (approveBAPB_main F u i n s)) \<and> snd (approveBAPB_main F u i n s) = s) \<and>
    ((\<exists>a \<in> set (bapp_approvals s). approved_by i (user_id u) a) \<longrightarrow>
       \<not> success (fst (approveBAPP F u i n s)) \<and> snd (approveBAPP F u i n s) = s)"
proof -
  have once: "approved_once (bapb_approvals s)" "approved_once (bapp_approvals s)"
    using assms reachable_approved_once by blast+
  have b: "bapb_hasUserApproved F s i (user_id u) \<noteq> Inr False"
    if "a \<in> set (bapb_approvals s)" "approved_by i (user_id u) a" for a
    using hasUserApproved_True [OF once(1) that, of F] by (auto simp: bapb_hasUserApproved_def)
  have p: "bapp_hasUserApproved F s i (user_id u) \<noteq> Inr False"
    if "a \<in> set (bapp_approvals s)" "approved_by i (user_id u) a" for a
    using hasUserApproved_True [OF once(2) that, of F] by (auto simp: bapp_hasUserApproved_def)
  show ?thesis
    using once b p approveBAPB_already [of F s i u n] approveBAPP_already [of F s i u n]
      approveBAPB_main_unchanged [of F u i n s]
    by blast
qed

text \<open>
  The store after a BAPB approval whose status update was refused is reached by one
  request, holds the reviewer's record with the document still \<open>submitted\<close>, and
  refuses the reviewer's next approval without touching anything.
\<close>

theorem C1_single_approval_witness:
  "serially_reachable half_approved \<and>
   bapb_approvals half_approved = [approval_of ''b1''] \<and>
   map bapb_status (bapb half_approved) = [Submitted] \<and>
   approved_once (bapb_approvals half_approved) \<and>
   fst (approveBAPB no_faults reviewer_r ''b1'' None half_approved)
     = refuse 400 ''You have already approved this BAPB'' \<and>
   snd (approveBAPB no_faults reviewer_r ''b1'' None half_approved) = half_approved"
proof -
  have r: "serially_reachable half_approved"
    unfolding half_approved_def
    by (rule serially_reachable.step, rule serially_reachable.init) (simp_all add: store_with_def empty_store_def)
  have e: "bapb_approvals half_approved = [approval_of ''b1'']"
    by code_simp
  have st: "map bapb_status (bapb half_approved) = [Submitted]"
    by code_simp
  have m: "fst (approveBAPB no_faults reviewer_r ''b1'' None half_approved)
     = refuse 400 ''You have already approved this BAPB''"
    by code_simp
  have "\<exists>a \<in> set (bapb_approvals half_approved). approved_by ''b1'' (user_id reviewer_r) a"
    by (simp add: e approved_by_def approval_of_def reviewer_r_def)
  with C1_single_approval [OF r, of "''b1''" reviewer_r no_faults None]
  have "approved_once (bapb_approvals half_approved)"
    and "snd (approveBAPB no_faults reviewer_r ''b1'' None half_approved) = half_approved"
    by blast+
  with r e st m show ?thesis by blast
qed

text \<open>
  Two approvals of one document by the same reviewer that overlap: both calls make
  their checks before either writes, both find no earlier approval, and both insert
  an \<open>approved\<close> record; the table takes the second record as it took the first.
\<close>

theorem C1_overlapping_approvals_counterexample:
  "map (\<lambda>a. (doc_id a, approver_id a, action a))
       (bapb_approvals (snd (approveBAPB_overlapped no_faults reviewer_r ''b1'' None
                               reviewer_r ''b1'' None (store_with Submitted))))
     = [(''b1'', ''r1'', Act_approved), (''b1'', ''r1'', Act_approved)] \<and>
   \<not> approved_once (bapb_approvals (snd (approveBAPB_overlapped no_faults reviewer_r ''b1'' None
                               reviewer_r ''b1'' None (store_with Submitted)))) \<and>
   success (fst (fst (approveBAPB_overlapped no_faults reviewer_r ''b1'' None
                               reviewer_r ''b1'' None (store_with Submitted)))) \<and>
   success (snd (fst (approveBAPB_overlapped no_faults reviewer_r ''b1'' None
                               reviewer_r ''b1'' None (store_with Submitted))))"
  by code_simp

section \<open>Approval before status update\<close>

lemma writes_of_self [simp]: "writes_of s s = []"
  by (simp add: writes_of_def)

lemma createApproval_ok:
  "F InsertApproval = None \<Longrightarrow> bapb_createApproval F a s =
     (Inr a, s\<lparr>bapb_approvals := bapb_approvals s @ [a], journal := journal s @ [(InsertApproval, True)]\<rparr>)"
  "F InsertApproval = None \<Longrightarrow> bapp_createApproval F a s =
     (Inr a, s\<lparr>bapp_approvals := bapp_approvals s @ [a], journal := journal s @ [(InsertApproval, True)]\<rparr>)"
  by (simp_all add: bapb_createApproval_def bapp_createApproval_def issued_def)

lemma update_by_id_fails:
  "F UpdateDoc = Some m \<Longrightarrow> bapb_update_by_id F i p s =
     (Inl (StoreError UpdateDoc m), s\<lparr>journal := journal s @ [(UpdateDoc, False)]\<rparr>)"
  "F UpdateDoc = Some m \<Longrightarrow> bapp_update_by_id F i q s =
     (Inl (StoreError UpdateDoc m), s\<lparr>journal := journal s @ [(UpdateDoc, False)]\<rparr>)"
  by (simp_all add: bapb_update_by_id_def bapp_update_by_id_def update_rows_def issued_def)

text \<open>A handler leaves the store alone or runs its write phase.\<close>

lemma approveBAPB_cases:
  "snd (approveBAPB F u i n s) = s \<or>
   (\<exists>b. approveBAPB F u i n s = approveBAPB_commit F u i n b s)"
  by (auto simp add: approveBAPB_unfold split: sum.split option.split bool.split)

lemma approveBAPP_cases:
  "snd (approveBAPP F u i n s) = s \<or>
   (\<exists>b. approveBAPP F u i n s = approveBAPP_commit F u i n b s)"
  by (auto simp add: approveBAPP_unfold split: sum.split option.split bool.split)

lemma rejectBAPB_cases:
  "snd (rejectBAPB F u i n r s) = s \<or>
   (\<exists>b. rejectBAPB F u i n r s =
      review_bapb_commit Act_rejected Rejected notifyBAPBRejected
        ''Error rejecting BAPB'' ''BAPB rejected'' F u i n r b s)"
  by (auto simp add: rejectBAPB_def review_bapb_unfold split: sum.split option.split)

lemma requestRevisionBAPB_cases:
  "snd (requestRevisionBAPB F u i n r s) = s \<or>
   (\<exists>b. requestRevisionBAPB F u i n r s =
      review_bapb_commit Act_revision_required Revision_required notifyBAPBRevisionRequired
        ''Error requesting revision'' ''Revision requested for BAPB'' F u i n r b s)"
  by (auto simp add: requestRevisionBAPB_def review_bapb_unfold split: sum.split option.split)

lemma rejectBAPP_cases:
  "snd (rejectBAPP F u i n r s) = s \<or>
   (\<exists>b. rejectBAPP F u i n r s =
      review_bapp_commit Act_rejected Rejected notifyBAPPRejected
        ''Error rejecting BAPP'' ''BAPP rejected'' F u i n r b s)"
  by (auto simp add: rejectBAPP_def review_bapp_unfold split: sum.split option.split)

lemma requestRevisionBAPP_cases:
  "snd (requestRevisionBAPP F u i n r s) = s \<or>
   (\<exists>b. requestRevisionBAPP F u i n r s =
      review_bapp_commit Act_revision_required Revision_required notifyBAPPRevisionRequired
        ''Error requesting revision'' ''Revision requested for BAPP'' F u i n r b s)"
  by (auto simp add: requestRevisionBAPP_def review_bapp_unfold split: sum.split option.split)

text \<open>The write phases: journal order.\<close>

lemma in_order_self [simp]: "in_order s s"
  by (simp add: in_order_def)

lemma approveBAPB_commit_order: "in_order s (snd (approveBAPB_commit F u i n b s))"
  by (simp add: in_order_def approveBAPB_commit_def store_prims case_prod_beta Let_def writes_of_def
      split: sum.split option.split)

lemma approveBAPP_commit_order: "in_order s (snd (approveBAPP_commit F u i n b s))"
  by (simp add: in_order_def approveBAPP_commit_def store_prims case_prod_beta Let_def writes_of_def
      split: sum.split option.split)

lemma review_bapb_commit_order:
  "nf \<in> {notifyBAPBRejected, notifyBAPBRevisionRequired} \<Longrightarrow>
   in_order s (snd (review_bapb_commit act st nf me mo F u i n r b s))"
  by (auto simp add: in_order_def review_bapb_commit_def store_prims case_prod_beta Let_def writes_of_def
      split: sum.split option.split)

lemma review_bapp_commit_order:
  "nf \<in> {notifyBAPPRejected, notifyBAPPRevisionRequired} \<Longrightarrow>
   in_order s (snd (review_bapp_commit act st nf me mo F u i n r b s))"
  by (auto simp add: in_order_def review_bapp_commit_def store_prims case_prod_beta Let_def writes_of_def
      split: sum.split option.split)

lemma commit_update_fails:
  assumes "F InsertApproval = None" and "F UpdateDoc = Some m"
  shows "approveBAPB_commit F u i n b s =
      (server_error ''Error approving BAPB'' (StoreError UpdateDoc m),
       with_orphan_bapb s \<lparr>doc_id = i, approver_id = user_id u, action = Act_approved, approval_notes = n\<rparr>)"
    and "review_bapb_commit act st nf me mo F u i n r b s =
      (server_error me (StoreError UpdateDoc m),
       with_orphan_bapb s \<lparr>doc_id = i, approver_id = user_id u, action = act, approval_notes = n\<rparr>)"
    and "approveBAPP_commit F u i n p s =
      (server_error ''Error approving BAPP'' (StoreError UpdateDoc m),
       with_orphan_bapp s \<lparr>doc_id = i, approver_id = user_id u, action = Act_approved, approval_notes = n\<rparr>)"
    and "review_bapp_commit act st nf' me mo F u i n r p s =
      (server_error me (StoreError UpdateDoc m),
       with_orphan_bapp s \<lparr>doc_id = i, approver_id = user_id u, action = act, approval_notes = n\<rparr>)"
  using assms
  by (simp_all add: approveBAPB_commit_def review_bapb_commit_def approveBAPP_commit_def
      review_bapp_commit_def createApproval_ok update_by_id_fails Let_def
      with_orphan_bapb_def with_orphan_bapp_def)

section \<open>Updates and lookups on a table\<close>

lemma filter_map_patch:
  assumes "\<And>r. key (patch r) = key r"
  shows "filter (\<lambda>r. key r = i) (map (\<lambda>r. if key r = i then patch r else r) rows)
    = map patch (filter (\<lambda>r. key r = i) rows)"
  by (induction rows) (auto simp: assms)

lemma patch_keeps_id [simp]:
  "bapb_id (apply_bapb_patch p b) = bapb_id b"
  "bapp_id (apply_bapp_patch q c) = bapp_id c"
  by (simp_all add: apply_bapb_patch_def apply_bapp_patch_def)

lemma update_rows_ok:
  assumes "F UpdateDoc = None" and "filter (\<lambda>r. key r = i) rows = [b]"
    and "\<And>r. key (patch r) = key r"
  shows "update_rows F key patch rows i =
    (Inr (patch b), map (\<lambda>r. if key r = i then patch r else r) rows)"
  using assms(1,2) by (simp add: update_rows_def filter_map_patch [of key patch, OF assms(3)] single_def)

lemma bapb_update_by_id_ok:
  assumes "F UpdateDoc = None" and "filter (\<lambda>r. bapb_id r = i) (bapb s) = [b]"
  shows "bapb_update_by_id F i p s =
    (Inr (apply_bapb_patch p b),
     s\<lparr>bapb := map (\<lambda>r. if bapb_id r = i then apply_bapb_patch p r else r) (bapb s),
       journal := journal s @ [(UpdateDoc, True)]\<rparr>)"
  using update_rows_ok [of F bapb_id i "bapb s" b "apply_bapb_patch p"] assms
  by (simp add: bapb_update_by_id_def issued_def)

lemma bapp_update_by_id_ok:
  assumes "F UpdateDoc = None" and "filter (\<lambda>r. bapp_id r = i) (bapp s) = [b]"
  shows "bapp_update_by_id F i p s =
    (Inr (apply_bapp_patch p b),
     s\<lparr>bapp := map (\<lambda>r. if bapp_id r = i then apply_bapp_patch p r else r) (bapp s),
       journal := journal s @ [(UpdateDoc, True)]\<rparr>)"
  using update_rows_ok [of F bapp_id i "bapp s" b "apply_bapp_patch p"] assms
  by (simp add: bapp_update_by_id_def issued_def)

lemma findById_one:
  "F c = None \<Longrightarrow> filter (\<lambda>r. key r = i) rows = [b] \<Longrightarrow> findById c F key rows i = Inr (Some b)"
  by (simp add: findById_def single_def)

lemma refetch_ok:
  "F RefetchDoc = None \<Longrightarrow> \<exists>x. bapb_findByIdWithRelations RefetchDoc F s i = Inr x"
  "F RefetchDoc = None \<Longrightarrow> \<exists>y. bapp_findByIdWithRelations RefetchDoc F s i = Inr y"
  by (simp_all add: bapb_findByIdWithRelations_def bapp_findByIdWithRelations_def findById_def
      split: option.split single_result.split)

lemma refetch_case:
  "F RefetchDoc = None \<Longrightarrow>
   (case bapb_findByIdWithRelations RefetchDoc F s i of Inl e \<Rightarrow> A e | Inr x \<Rightarrow> B) = B"
  "F RefetchDoc = None \<Longrightarrow>
   (case bapp_findByIdWithRelations RefetchDoc F s i of Inl e \<Rightarrow> A' e | Inr y \<Rightarrow> B') = B'"
  by (simp_all add: bapb_findByIdWithRelations_def bapp_findByIdWithRelations_def findById_def
      split: option.split single_result.split)

lemma hasUserApproved_none:
  "F FindApproval = None \<Longrightarrow> filter (approved_by i u) tbl = [] \<Longrightarrow> hasUserApproved F tbl i u = Inr False"
  by (simp add: hasUserApproved_def single_def)

section \<open>The signature check of an approval\<close>

lemma findByIdWithRelations_one:
  "F c = None \<Longrightarrow> filter (\<lambda>r. bapb_id r = i) (bapb s) = [b] \<Longrightarrow>
   bapb_findByIdWithRelations c F s i = Inr (Some (b, filter (\<lambda>x. item_bapb_id x = i) (bapb_items s)))"
  "F c = None \<Longrightarrow> filter (\<lambda>r. bapp_id r = i) (bapp s) = [p] \<Longrightarrow>
   bapp_findByIdWithRelations c F s i = Inr (Some (p, filter (\<lambda>x. wi_bapp_id x = i) (bapp_work_items s)))"
  by (simp_all add: bapb_findByIdWithRelations_def bapp_findByIdWithRelations_def findById_one)

lemma approve_patch_status [simp]:
  "bapb_status (apply_bapb_patch (bapb_approve_patch b u) b') = Approved"
  "bapp_status (apply_bapp_patch (bapp_approve_patch p u) p') = Approved"
  by (simp_all add: apply_bapb_patch_def bapb_approve_patch_def empty_bapb_patch_def
      apply_bapp_patch_def bapp_approve_patch_def empty_bapp_patch_def)

lemma approveBAPB_commit_ok:
  assumes "F InsertApproval = None" and "F UpdateDoc = None" and "F RefetchDoc = None"
    and "filter (\<lambda>r. bapb_id r = i) (bapb s) = [b]"
  shows "fst (approveBAPB_commit F u i n b s)
      = ok 200 ''BAPB approved successfully'' (bapb_signatureWarning F s i (user_id u))"
    and "bapb_approvals (snd (approveBAPB_commit F u i n b s)) = bapb_approvals s
      @ [\<lparr>doc_id = i, approver_id = user_id u, action = Act_approved, approval_notes = n\<rparr>]"
    and "filter (\<lambda>r. bapb_id r = i) (bapb (snd (approveBAPB_commit F u i n b s)))
      = [apply_bapb_patch (bapb_approve_patch b u) b]"
proof -
  let ?a = "\<lparr>doc_id = i, approver_id = user_id u, action = Act_approved, approval_notes = n\<rparr>"
  let ?s1 = "s\<lparr>bapb_approvals := bapb_approvals s @ [?a], journal := journal s @ [(InsertApproval, True)]\<rparr>"
  have c: "bapb_createApproval F ?a s = (Inr ?a, ?s1)"
    using assms(1) by (simp add: bapb_createApproval_def issued_def)
  have u: "bapb_update_by_id F i (bapb_approve_patch b u) ?s1 =
    (Inr (apply_bapb_patch (bapb_approve_patch b u) b),
     ?s1\<lparr>bapb := map (\<lambda>r. if bapb_id r = i then apply_bapb_patch (bapb_approve_patch b u) r else r) (bapb ?s1),
       journal := journal ?s1 @ [(UpdateDoc, True)]\<rparr>)"
    by (rule bapb_update_by_id_ok) (simp_all add: assms)
  have fm: "filter (\<lambda>r. bapb_id r = i)
      (map (\<lambda>r. if bapb_id r = i then apply_bapb_patch (bapb_approve_patch b u) r else r) (bapb s))
     = [apply_bapb_patch (bapb_approve_patch b u) b]"
    using filter_map_patch [of bapb_id "apply_bapb_patch (bapb_approve_patch b u)" i "bapb s"] assms(4)
    by simp
  show "fst (approveBAPB_commit F u i n b s)
      = ok 200 ''BAPB approved successfully'' (bapb_signatureWarning F s i (user_id u))"
    by (simp add: approveBAPB_commit_def c u Let_def refetch_case assms(3))
  show "bapb_approvals (snd (approveBAPB_commit F u i n b s)) = bapb_approvals s @ [?a]"
    by (simp add: approveBAPB_commit_def c u Let_def notifyBAPBApproved_def notify_bapb_vendor_def
        createNotification_def split: sum.split option.split)
  show "filter (\<lambda>r. bapb_id r = i) (bapb (snd (approveBAPB_commit F u i n b s)))
      = [apply_bapb_patch (bapb_approve_patch b u) b]"
    by (simp add: approveBAPB_commit_def c u Let_def notifyBAPBApproved_def notify_bapb_vendor_def
        createNotification_def fm split: sum.split option.split)
qed

text \<open>
  Claim C2. A reviewer-eligible caller who has no signature attachment for the document
  approves a document that is submitted or in review. For a BAPP the call is refused
  with status 400 and the guidance message, and the store is unchanged. For a BAPB the
  call succeeds when the store accepts its calls: the response carries the warning
  field, one approval record of the caller is appended and the document row is
  approved. Both hold for a caller who has no approved record for the document yet:
  the check for an earlier approval comes before the signature check.
\<close>

theorem C2_signature_asymmetry:
  "(F FindDoc = None \<and> filter (\<lambda>r. bapp_id r = j) (bapp s) = [p] \<and>
    bapp_status p \<in> {Submitted, In_review} \<and> user_role u \<in> {R_approver, R_admin} \<and>
    F FindApproval = None \<and> filter (approved_by j (user_id u)) (bapp_approvals s) = [] \<and>
    filter (is_signature_of j (user_id u)) (bapp_attachments s) = []
    \<longrightarrow> approveBAPP F u j n s =
          (refuse 400 ''Please upload your signature first before approving. Use POST /api/bapp/:id/signature to upload.'', s)) \<and>
   (F FindDoc = None \<and> filter (\<lambda>r. bapb_id r = i) (bapb s) = [b] \<and>
    bapb_status b \<in> {Submitted, In_review} \<and> user_role u \<in> {R_pic_gudang, R_approver, R_admin} \<and>
    F FindApproval = None \<and> filter (approved_by i (user_id u)) (bapb_approvals s) = [] \<and>
    filter (is_signature_of i (user_id u)) (bapb_attachments s) = [] \<and>
    F FindSignature = None \<and> F InsertApproval = None \<and> F UpdateDoc = None \<and> F RefetchDoc = None
    \<longrightarrow> fst (approveBAPB F u i n s) =
          ok 200 ''BAPB approved successfully''
            (Some ''Approved without signature - please upload signature for complete documentation'') \<and>
        bapb_approvals (snd (approveBAPB F u i n s)) = bapb_approvals s
          @ [\<lparr>doc_id = i, approver_id = user_id u, action = Act_approved, approval_notes = n\<rparr>] \<and>
        map bapb_status (filter (\<lambda>r. bapb_id r = i) (bapb (snd (approveBAPB F u i n s)))) = [Approved])"
proof (intro conjI impI)
  assume a: "F FindDoc = None \<and> filter (\<lambda>r. bapp_id r = j) (bapp s) = [p] \<and>
    bapp_status p \<in> {Submitted, In_review} \<and> user_role u \<in> {R_approver, R_admin} \<and>
    F FindApproval = None \<and> filter (approved_by j (user_id u)) (bapp_approvals s) = [] \<and>
    filter (is_signature_of j (user_id u)) (bapp_attachments s) = []"
  then have sig: "bapp_existingSignature F s j (user_id u) = None"
    by (simp add: bapp_existingSignature_def single_def split: option.split)
  from a show "approveBAPP F u j n s =
      (refuse 400 ''Please upload your signature first before approving. Use POST /api/bapp/:id/signature to upload.'', s)"
    by (auto simp add: approveBAPP_unfold findByIdWithRelations_one bapp_hasUserApproved_def
        hasUserApproved_none sig)
next
  assume a: "F FindDoc = None \<and> filter (\<lambda>r. bapb_id r = i) (bapb s) = [b] \<and>
    bapb_status b \<in> {Submitted, In_review} \<and> user_role u \<in> {R_pic_gudang, R_approver, R_admin} \<and>
    F FindApproval = None \<and> filter (approved_by i (user_id u)) (bapb_approvals s) = [] \<and>
    filter (is_signature_of i (user_id u)) (bapb_attachments s) = [] \<and>
    F FindSignature = None \<and> F InsertApproval = None \<and> F UpdateDoc = None \<and> F RefetchDoc = None"
  then have w: "bapb_signatureWarning F s i (user_id u) =
      Some ''Approved without signature - please upload signature for complete documentation''"
    by (simp add: bapb_signatureWarning_def maybeSingle_def)
  from a have e: "approveBAPB F u i n s = approveBAPB_commit F u i n b s"
    by (auto simp add: approveBAPB_unfold findByIdWithRelations_one bapb_hasUserApproved_def
        hasUserApproved_none)
  from a have ok: "F InsertApproval = None" "F UpdateDoc = None" "F RefetchDoc = None"
    "filter (\<lambda>r. bapb_id r = i) (bapb s) = [b]"
    by simp_all
  show "fst (approveBAPB F u i n s) =
          ok 200 ''BAPB approved successfully''
            (Some ''Approved without signature - please upload signature for complete documentation'')"
    by (simp add: e approveBAPB_commit_ok(1) [of F, OF ok] w)
  show "bapb_approvals (snd (approveBAPB F u i n s)) = bapb_approvals s
          @ [\<lparr>doc_id = i, approver_id = user_id u, action = Act_approved, approval_notes = n\<rparr>]"
    by (simp add: e approveBAPB_commit_ok(2) [of F, OF ok])
  show "map bapb_status (filter (\<lambda>r. bapb_id r = i) (bapb (snd (approveBAPB F u i n s)))) = [Approved]"
    by (simp add: e approveBAPB_commit_ok(3) [of F, OF ok])
qed

theorem C2_signature_asymmetry_witness:
  "approveBAPP no_faults reviewer_r ''p1'' None (store_with Submitted) =
     (refuse 400 ''Please upload your signature first before approving. Use POST /api/bapp/:id/signature to upload.'',
      store_with Submitted) \<and>
   fst (approveBAPB no_faults reviewer_r ''b1'' None (store_with Submitted)) =
     ok 200 ''BAPB approved successfully''
       (Some ''Approved without signature - please upload signature for complete documentation'') \<and>
   bapb_approvals (snd (approveBAPB no_faults reviewer_r ''b1'' None (store_with Submitted)))
     = [approval_of ''b1''] \<and>
   map bapb_status (filter (\<lambda>r. bapb_id r = ''b1'')
     (bapb (snd (approveBAPB no_faults reviewer_r ''b1'' None (store_with Submitted))))) = [Approved]"
  using C2_signature_asymmetry [of no_faults "''p1''" "store_with Submitted" "bapp_doc Submitted"
      reviewer_r None "''b1''" "bapb_doc Submitted"]
  by (simp add: no_faults_def store_with_def empty_store_def bapp_doc_def bapb_doc_def reviewer_r_def
      approval_of_def)

text \<open>
  In the store that a refused status update leaves behind, the reviewer already has an
  approved record for the BAPB, which is still submitted: the next approval by the
  same reviewer, again without a signature, is refused as a repeated approval and
  changes nothing.
\<close>

theorem C2_already_approved_counterexample:
  "filter (\<lambda>r. bapb_id r = ''b1'') (bapb half_approved) = [bapb_doc Submitted] \<and>
   user_role reviewer_r = R_approver \<and>
   filter (is_signature_of ''b1'' (user_id reviewer_r)) (bapb_attachments half_approved) = [] \<and>
   approveBAPB no_faults reviewer_r ''b1'' None half_approved =
     (refuse 400 ''You have already approved this BAPB'', half_approved)"
  by code_simp

section \<open>The orphaned approval record\<close>

lemma approveBAPB_passes:
  assumes "F FindDoc = None" and "filter (\<lambda>r. bapb_id r = i) (bapb s) = [b]"
    and "bapb_status b \<in> {Submitted, In_review}"
    and "user_role u \<in> {R_pic_gudang, R_approver, R_admin}"
    and "F FindApproval = None" and "filter (approved_by i (user_id u)) (bapb_approvals s) = []"
  shows "approveBAPB F u i n s = approveBAPB_commit F u i n b s"
  using assms
  by (auto simp add: approveBAPB_unfold findByIdWithRelations_one bapb_hasUserApproved_def
      hasUserApproved_none)

lemma approveBAPP_passes:
  assumes "F FindDoc = None" and "filter (\<lambda>r. bapp_id r = j) (bapp s) = [p]"
    and "bapp_status p \<in> {Submitted, In_review}"
    and "user_role u \<in> {R_approver, R_admin}"
    and "F FindApproval = None" and "filter (approved_by j (user_id u)) (bapp_approvals s) = []"
    and "F FindSignature = None" and "filter (is_signature_of j (user_id u)) (bapp_attachments s) = [sig]"
  shows "approveBAPP F u j n s = approveBAPP_commit F u j n p s"
proof -
  have sg: "bapp_existingSignature F s j (user_id u) = Some sig"
    using assms(7,8) by (simp add: bapp_existingSignature_def single_def)
  show ?thesis
    using assms(1-6)
    by (auto simp add: approveBAPP_unfold findByIdWithRelations_one bapp_hasUserApproved_def
        hasUserApproved_none sg)
qed

lemma review_bapb_passes:
  assumes "\<not> reason_missing r" and "F FindDoc = None" and "filter (\<lambda>r. bapb_id r = i) (bapb s) = [b]"
    and "bapb_status b \<in> {Submitted, In_review}"
    and "user_role u \<in> {R_pic_gudang, R_approver, R_admin}"
  shows "review_bapb act st nf mr ms ml me mo F u i n r s
    = review_bapb_commit act st nf me mo F u i n r b s"
  using assms
  by (auto simp add: review_bapb_unfold bapb_findById_def findById_one)

lemma review_bapp_passes:
  assumes "\<not> reason_missing r" and "F FindDoc = None" and "filter (\<lambda>r. bapp_id r = j) (bapp s) = [p]"
    and "bapp_status p \<in> {Submitted, In_review}"
    and "user_role u \<in> {R_approver, R_admin}"
  shows "review_bapp act st nf mr ms ml me mo F u j n r s
    = review_bapp_commit act st nf me mo F u j n r p s"
  using assms
  by (auto simp add: review_bapp_unfold bapp_findById_def findById_one)

text \<open>
  Claim C10. Every approval-cycle handler (approve, reject, request revision, for BAPB
  and BAPP) extends the journal approval first: it issues no write, or only a refused
  approval insert, or an accepted approval insert followed by the status update. When
  a call passes its checks (the document is found and is submitted or in review, the
  caller holds a reviewer role; an approval comes from a caller who has not approved
  before and who, for BAPP, has one signature attachment; a rejection or a request for
  revision carries a reason that is not blank) and the store accepts the insert and
  refuses the update, the handler answers 500 with the error of the update and leaves
  the store with one more approval record and nothing else changed: the document rows
  are as before, and nothing removes the record.
\<close>

theorem C10_approval_before_status:
  "in_order s (snd (approveBAPB F u i n s)) \<and>
   in_order s (snd (approveBAPB_main F u i n s)) \<and>
   in_order s (snd (rejectBAPB F u i n r s)) \<and>
   in_order s (snd (requestRevisionBAPB F u i n r s)) \<and>
   in_order s (snd (approveBAPP F u j n s)) \<and>
   in_order s (snd (rejectBAPP F u j n r s)) \<and>
   in_order s (snd (requestRevisionBAPP F u j n r s)) \<and>
   (F FindDoc = None \<and> F InsertApproval = None \<and> F UpdateDoc = Some m \<and>
    filter (\<lambda>r. bapb_id r = i) (bapb s) = [b] \<and> bapb_status b \<in> {Submitted, In_review} \<and>
    user_role u \<in> {R_pic_gudang, R_approver, R_admin} \<longrightarrow>
      (F FindApproval = None \<and> filter (approved_by i (user_id u)) (bapb_approvals s) = [] \<longrightarrow>
         approveBAPB F u i n s =
           (server_error ''Error approving BAPB'' (StoreError UpdateDoc m),
            with_orphan_bapb s
              \<lparr>doc_id = i, approver_id = user_id u, action = Act_approved, approval_notes = n\<rparr>)) \<and>
      (\<not> reason_missing r \<longrightarrow>
         rejectBAPB F u i n r s =
           (server_error ''Error rejecting BAPB'' (StoreError UpdateDoc m),
            with_orphan_bapb s
              \<lparr>doc_id = i, approver_id = user_id u, action = Act_rejected, approval_notes = n\<rparr>) \<and>
         requestRevisionBAPB F u i n r s =
           (server_error ''Error requesting revision'' (StoreError UpdateDoc m),
            with_orphan_bapb s
              \<lparr>doc_id = i, approver_id = user_id u, action = Act_revision_required,
               approval_notes = n\<rparr>))) \<and>
   (F FindDoc = None \<and> F InsertApproval = None \<and> F UpdateDoc = Some m \<and>
    filter (\<lambda>r. bapp_id r = j) (bapp s) = [p] \<and> bapp_status p \<in> {Submitted, In_review} \<and>
    user_role u \<in> {R_approver, R_admin} \<longrightarrow>
      (F FindApproval = None \<and> filter (approved_by j (user_id u)) (bapp_approvals s) = [] \<and>
       F FindSignature = None \<and>
       filter (is_signature_of j (user_id u)) (bapp_attachments s) = [sig] \<longrightarrow>
         approveBAPP F u j n s =
           (server_error ''Error approving BAPP'' (StoreError UpdateDoc m),
            with_orphan_bapp s
              \<lparr>doc_id = j, approver_id = user_id u, action = Act_approved, approval_notes = n\<rparr>)) \<and>
      (\<not> reason_missing r \<longrightarrow>
         rejectBAPP F u j n r s =
           (server_error ''Error rejecting BAPP'' (StoreError UpdateDoc m),
            with_orphan_bapp s
              \<lparr>doc_id = j, approver_id = user_id u, action = Act_rejected, approval_notes = n\<rparr>) \<and>
         requestRevisionBAPP F u j n r s =
           (server_error ''Error requesting revision'' (StoreError UpdateDoc m),
            with_orphan_bapp s
              \<lparr>doc_id = j, approver_id = user_id u, action = Act_revision_required,
               approval_notes = n\<rparr>))) \<and>
   bapb (with_orphan_bapb s a) = bapb s \<and> bapb_approvals (with_orphan_bapb s a) = bapb_approvals s @ [a] \<and>
   bapp (with_orphan_bapp s a) = bapp s \<and> bapp_approvals (with_orphan_bapp s a) = bapp_approvals s @ [a]"
proof -
  have o1: "in_order s (snd (approveBAPB F u i n s))"
    using approveBAPB_cases [of F u i n s] approveBAPB_commit_order [of s F u i n] by auto
  have o2: "in_order s (snd (approveBAPB_main F u i n s))"
    by (simp add: approveBAPB_main_unchanged)
  have o3: "in_order s (snd (rejectBAPB F u i n r s))"
    using rejectBAPB_cases [of F u i n r s] review_bapb_commit_order [of notifyBAPBRejected s] by auto
  have o4: "in_order s (snd (requestRevisionBAPB F u i n r s))"
    using requestRevisionBAPB_cases [of F u i n r s]
      review_bapb_commit_order [of notifyBAPBRevisionRequired s] by auto
  have o5: "in_order s (snd (approveBAPP F u j n s))"
    using approveBAPP_cases [of F u j n s] approveBAPP_commit_order [of s F u j n] by auto
  have o6: "in_order s (snd (rejectBAPP F u j n r s))"
    using rejectBAPP_cases [of F u j n r s] review_bapp_commit_order [of notifyBAPPRejected s] by auto
  have o7: "in_order s (snd (requestRevisionBAPP F u j n r s))"
    using requestRevisionBAPP_cases [of F u j n r s]
      review_bapp_commit_order [of notifyBAPPRevisionRequired s] by auto
  have b1: "approveBAPB F u i n s =
           (server_error ''Error approving BAPB'' (StoreError UpdateDoc m),
            with_orphan_bapb s
              \<lparr>doc_id = i, approver_id = user_id u, action = Act_approved, approval_notes = n\<rparr>)"
    if "F FindDoc = None" "F InsertApproval = None" "F UpdateDoc = Some m"
      "filter (\<lambda>r. bapb_id r = i) (bapb s) = [b]" "bapb_status b \<in> {Submitted, In_review}"
      "user_role u \<in> {R_pic_gudang, R_approver, R_admin}"
      "F FindApproval = None" "filter (approved_by i (user_id u)) (bapb_approvals s) = []"
    using approveBAPB_passes [of F i s b u n, OF that(1,4,5,6,7,8)]
      commit_update_fails(1) [of F m u i n b s, OF that(2,3)]
    by simp
  have b2: "rejectBAPB F u i n r s =
           (server_error ''Error rejecting BAPB'' (StoreError UpdateDoc m),
            with_orphan_bapb s
              \<lparr>doc_id = i, approver_id = user_id u, action = Act_rejected, approval_notes = n\<rparr>) \<and>
         requestRevisionBAPB F u i n r s =
           (server_error ''Error requesting revision'' (StoreError UpdateDoc m),
            with_orphan_bapb s
              \<lparr>doc_id = i, approver_id = user_id u, action = Act_revision_required,
               approval_notes = n\<rparr>)"
    if "F FindDoc = None" "F InsertApproval = None" "F UpdateDoc = Some m"
      "filter (\<lambda>r. bapb_id r = i) (bapb s) = [b]" "bapb_status b \<in> {Submitted, In_review}"
      "user_role u \<in> {R_pic_gudang, R_approver, R_admin}" "\<not> reason_missing r"
    unfolding rejectBAPB_def requestRevisionBAPB_def
    by (simp add: review_bapb_passes [of r F i s b u, OF that(7,1,4,5,6)]
        commit_update_fails(2) [of F m, OF that(2,3)])
  have p1: "approveBAPP F u j n s =
           (server_error ''Error approving BAPP'' (StoreError UpdateDoc m),
            with_orphan_bapp s
              \<lparr>doc_id = j, approver_id = user_id u, action = Act_approved, approval_notes = n\<rparr>)"
    if "F FindDoc = None" "F InsertApproval = None" "F UpdateDoc = Some m"
      "filter (\<lambda>r. bapp_id r = j) (bapp s) = [p]" "bapp_status p \<in> {Submitted, In_review}"
      "user_role u \<in> {R_approver, R_admin}"
      "F FindApproval = None" "filter (approved_by j (user_id u)) (bapp_approvals s) = []"
      "F FindSignature = None" "filter (is_signature_of j (user_id u)) (bapp_attachments s) = [sig]"
    using approveBAPP_passes [of F j s p u sig n, OF that(1,4,5,6,7,8,9,10)]
      commit_update_fails(3) [of F m u j n p s, OF that(2,3)]
    by simp
  have p2: "rejectBAPP F u j n r s =
           (server_error ''Error rejecting BAPP'' (StoreError UpdateDoc m),
            with_orphan_bapp s
              \<lparr>doc_id = j, approver_id = user_id u, action = Act_rejected, approval_notes = n\<rparr>) \<and>
         requestRevisionBAPP F u j n r s =
           (server_error ''Error requesting revision'' (StoreError UpdateDoc m),
            with_orphan_bapp s
              \<lparr>doc_id = j, approver_id = user_id u, action = Act_revision_required,
               approval_notes = n\<rparr>)"
    if "F FindDoc = None" "F InsertApproval = None" "F UpdateDoc = Some m"
      "filter (\<lambda>r. bapp_id r = j) (bapp s) = [p]" "bapp_status p \<in> {Submitted, In_review}"
      "user_role u \<in> {R_approver, R_admin}" "\<not> reason_missing r"
    unfolding rejectBAPP_def requestRevisionBAPP_def
    by (simp add: review_bapp_passes [of r F j s p u, OF that(7,1,4,5,6)]
        commit_update_fails(4) [of F m, OF that(2,3)])
  have t: "bapb (with_orphan_bapb s a) = bapb s"
    "bapb_approvals (with_orphan_bapb s a) = bapb_approvals s @ [a]"
    "bapp (with_orphan_bapp s a) = bapp s"
    "bapp_approvals (with_orphan_bapp s a) = bapp_approvals s @ [a]"
    by (simp_all add: with_orphan_bapb_def with_orphan_bapp_def)
  from o1 o2 o3 o4 o5 o6 o7 b1 b2 p1 p2 t show ?thesis by blast
qed

theorem C10_approval_before_status_witness:
  "approveBAPB (failing UpdateDoc ''timeout'') reviewer_r ''b1'' None signed_store =
     (server_error ''Error approving BAPB'' (StoreError UpdateDoc ''timeout''),
      with_orphan_bapb signed_store (review_of ''b1'' Act_approved)) \<and>
   rejectBAPB (failing UpdateDoc ''timeout'') reviewer_r ''b1'' None (Some ''Wrong quantity'') signed_store =
     (server_error ''Error rejecting BAPB'' (StoreError UpdateDoc ''timeout''),
      with_orphan_bapb signed_store (review_of ''b1'' Act_rejected)) \<and>
   requestRevisionBAPB (failing UpdateDoc ''timeout'') reviewer_r ''b1'' None (Some ''Wrong quantity'')
       signed_store =
     (server_error ''Error requesting revision'' (StoreError UpdateDoc ''timeout''),
      with_orphan_bapb signed_store (review_of ''b1'' Act_revision_required)) \<and>
   approveBAPP (failing UpdateDoc ''timeout'') reviewer_r ''p1'' None signed_store =
     (server_error ''Error approving BAPP'' (StoreError UpdateDoc ''timeout''),
      with_orphan_bapp signed_store (review_of ''p1'' Act_approved)) \<and>
   rejectBAPP (failing UpdateDoc ''timeout'') reviewer_r ''p1'' None (Some ''Wrong quantity'') signed_store =
     (server_error ''Error rejecting BAPP'' (StoreError UpdateDoc ''timeout''),
      with_orphan_bapp signed_store (review_of ''p1'' Act_rejected)) \<and>
   requestRevisionBAPP (failing UpdateDoc ''timeout'') reviewer_r ''p1'' None (Some ''Wrong quantity'')
       signed_store =
     (server_error ''Error requesting revision'' (StoreError UpdateDoc ''timeout''),
      with_orphan_bapp signed_store (review_of ''p1'' Act_revision_required)) \<and>
   map bapb_status (bapb (with_orphan_bapb signed_store (review_of ''b1'' Act_rejected))) = [Submitted] \<and>
   bapb_approvals (with_orphan_bapb signed_store (review_of ''b1'' Act_rejected))
     = [review_of ''b1'' Act_rejected] \<and>
   in_order signed_store
     (snd (rejectBAPB (failing UpdateDoc ''timeout'') reviewer_r ''b1'' None (Some ''Wrong quantity'')
        signed_store))"
proof -
  let ?F = "failing UpdateDoc ''timeout''"
  have f: "?F FindDoc = None" "?F InsertApproval = None" "?F UpdateDoc = Some ''timeout''"
    "?F FindApproval = None" "?F FindSignature = None"
    by (simp_all add: failing_def)
  have rows: "filter (\<lambda>r. bapb_id r = ''b1'') (bapb signed_store) = [bapb_doc Submitted]"
    "filter (\<lambda>r. bapp_id r = ''p1'') (bapp signed_store) = [bapp_doc Submitted]"
    "filter (approved_by ''b1'' (user_id reviewer_r)) (bapb_approvals signed_store) = []"
    "filter (approved_by ''p1'' (user_id reviewer_r)) (bapp_approvals signed_store) = []"
    "filter (is_signature_of ''p1'' (user_id reviewer_r)) (bapp_attachments signed_store) = [signature_r]"
    by (simp_all add: signed_store_def store_with_def empty_store_def bapb_doc_def bapp_doc_def
        is_signature_of_def signature_r_def reviewer_r_def)
  have st: "bapb_status (bapb_doc Submitted) \<in> {Submitted, In_review}"
    "bapp_status (bapp_doc Submitted) \<in> {Submitted, In_review}"
    "user_role reviewer_r \<in> {R_pic_gudang, R_approver, R_admin}"
    "user_role reviewer_r \<in> {R_approver, R_admin}"
    by (simp_all add: bapb_doc_def bapp_doc_def reviewer_r_def)
  have rs: "\<not> reason_missing (Some ''Wrong quantity'')"
    by (simp add: reason_missing_def trim_def is_space_def)
  have rec: "\<lparr>doc_id = i, approver_id = user_id reviewer_r, action = act, approval_notes = None\<rparr>
      = review_of i act" for i act
    by (simp add: review_of_def reviewer_r_def)
  note T = C10_approval_before_status [of signed_store ?F reviewer_r "''b1''" None
      "Some ''Wrong quantity''" "''p1''" "''timeout''" "bapb_doc Submitted" "bapp_doc Submitted"
      signature_r "review_of ''b1'' Act_rejected", unfolded rec]
  have tb: "map bapb_status (bapb signed_store) = [Submitted]" "bapb_approvals signed_store = []"
    by (simp_all add: signed_store_def store_with_def empty_store_def bapb_doc_def)
  from T f rows st rs have six:
    "approveBAPB ?F reviewer_r ''b1'' None signed_store =
       (server_error ''Error approving BAPB'' (StoreError UpdateDoc ''timeout''),
        with_orphan_bapb signed_store (review_of ''b1'' Act_approved))"
    "rejectBAPB ?F reviewer_r ''b1'' None (Some ''Wrong quantity'') signed_store =
       (server_error ''Error rejecting BAPB'' (StoreError UpdateDoc ''timeout''),
        with_orphan_bapb signed_store (review_of ''b1'' Act_rejected))"
    "requestRevisionBAPB ?F reviewer_r ''b1'' None (Some ''Wrong quantity'') signed_store =
       (server_error ''Error requesting revision'' (StoreError UpdateDoc ''timeout''),
        with_orphan_bapb signed_store (review_of ''b1'' Act_revision_required))"
    "approveBAPP ?F reviewer_r ''p1'' None signed_store =
       (server_error ''Error approving BAPP'' (StoreError UpdateDoc ''timeout''),
        with_orphan_bapp signed_store (review_of ''p1'' Act_approved))"
    "rejectBAPP ?F reviewer_r ''p1'' None (Some ''Wrong quantity'') signed_store =
       (server_error ''Error rejecting BAPP'' (StoreError UpdateDoc ''timeout''),
        with_orphan_bapp signed_store (review_of ''p1'' Act_rejected))"
    "requestRevisionBAPP ?F reviewer_r ''p1'' None (Some ''Wrong quantity'') signed_store =
       (server_error ''Error requesting revision'' (StoreError UpdateDoc ''timeout''),
        with_orphan_bapp signed_store (review_of ''p1'' Act_revision_required))"
    by blast+
  from T have o: "in_order signed_store
     (snd (rejectBAPB ?F reviewer_r ''b1'' None (Some ''Wrong quantity'') signed_store))"
    by blast
  from T tb have tbl:
    "map bapb_status (bapb (with_orphan_bapb signed_store (review_of ''b1'' Act_rejected))) = [Submitted]"
    "bapb_approvals (with_orphan_bapb signed_store (review_of ''b1'' Act_rejected))
       = [review_of ''b1'' Act_rejected]"
    by simp_all
  from six o tbl show ?thesis by blast
qed

section \<open>Editing a document\<close>

lemma updateWithItems_row:
  assumes "F UpdateDoc = None" and "filter (\<lambda>r. bapb_id r = i) (bapb s) = [b]"
  shows "filter (\<lambda>r. bapb_id r = i) (bapb (snd (updateWithItems F i p items s)))
    = [apply_bapb_patch p b]"
proof -
  have fm: "filter (\<lambda>r. bapb_id r = i)
      (map (\<lambda>r. if bapb_id r = i then apply_bapb_patch p r else r) (bapb s)) = [apply_bapb_patch p b]"
    using filter_map_patch [of bapb_id "apply_bapb_patch p" i "bapb s"] assms(2) by simp
  show ?thesis
    by (simp add: updateWithItems_def bapb_update_by_id_ok [of F, OF assms] bapb_delete_items_def
        bapb_insert_items_def case_prod_beta fm split: option.split sum.split)
qed

lemma updateWithItems_Inr:
  "F UpdateDoc = Some m \<Longrightarrow> fst (updateWithItems F i p items s) = Inl (StoreError UpdateDoc m)"
  by (simp add: updateWithItems_def update_by_id_fails)

lemma updateWithItems_ok:
  assumes "\<forall>c. F c = None" and "filter (\<lambda>r. bapb_id r = i) (bapb s) = [b]"
  shows "\<exists>x. fst (updateWithItems F i p items s) = Inr x"
proof -
  have u: "F UpdateDoc = None" and r: "F RefetchDoc = None" and d: "F DeleteItems = None"
    and n: "F InsertItems = None"
    using assms(1) by simp_all
  show ?thesis
    by (simp add: updateWithItems_def bapb_update_by_id_ok [of F, OF u assms(2)] bapb_delete_items_def
        bapb_insert_items_def bapb_findByIdWithRelations_def findById_def r d n
        split: option.split sum.split single_result.split)
qed

lemma items_fail:
  "F DeleteItems = Some m \<Longrightarrow> fst (bapp_delete_items F i s) = Inl (StoreError DeleteItems m)"
  "F InsertItems = Some m \<Longrightarrow> fst (bapp_insert_items F rows s) = Inl (StoreError InsertItems m)"
  "F DeleteItems = Some m \<Longrightarrow> fst (bapb_delete_items F i s) = Inl (StoreError DeleteItems m)"
  "F InsertItems = Some m \<Longrightarrow> fst (bapb_insert_items F rows' s) = Inl (StoreError InsertItems m)"
  by (simp_all add: bapp_delete_items_def bapp_insert_items_def bapb_delete_items_def bapb_insert_items_def)

lemma items_ok:
  "F DeleteItems = None \<Longrightarrow> bapp_delete_items F i s =
     (Inr (), issued DeleteItems True (s\<lparr>bapp_work_items := filter (\<lambda>x. wi_bapp_id x \<noteq> i) (bapp_work_items s)\<rparr>))"
  "F InsertItems = None \<Longrightarrow> bapp_insert_items F rows s =
     (Inr rows, issued InsertItems True (s\<lparr>bapp_work_items := bapp_work_items s @ rows\<rparr>))"
  "F DeleteItems = None \<Longrightarrow> bapb_delete_items F i s =
     (Inr (), issued DeleteItems True (s\<lparr>bapb_items := filter (\<lambda>x. item_bapb_id x \<noteq> i) (bapb_items s)\<rparr>))"
  "F InsertItems = None \<Longrightarrow> bapb_insert_items F rows' s =
     (Inr rows', issued InsertItems True (s\<lparr>bapb_items := bapb_items s @ rows'\<rparr>))"
  by (simp_all add: bapp_delete_items_def bapp_insert_items_def bapb_delete_items_def bapb_insert_items_def)

lemma updateWithWorkItems_Inr:
  assumes "fst (updateWithWorkItems F i p ws s) = Inr x"
  shows "F UpdateDoc = None"
    and "ws = Some xs \<Longrightarrow> F DeleteItems = None"
    and "ws = Some xs \<Longrightarrow> xs \<noteq> [] \<Longrightarrow> F InsertItems = None"
proof -
  show "F UpdateDoc = None"
  proof (cases "F UpdateDoc")
    case (Some m)
    have "\<exists>e. fst (updateWithWorkItems F i p ws s) = Inl e"
      by (simp add: updateWithWorkItems_def update_by_id_fails [of F, OF Some] case_prod_beta Let_def
          split: option.split sum.split)
    with assms show ?thesis by simp
  qed simp
  show "F DeleteItems = None" if "ws = Some xs"
  proof (cases "F DeleteItems")
    case (Some m)
    have "\<exists>e. fst (updateWithWorkItems F i p ws s) = Inl e"
      by (simp add: updateWithWorkItems_def that items_fail(1) [of F, OF Some] case_prod_beta Let_def)
    with assms show ?thesis by simp
  qed simp
  show "F InsertItems = None" if "ws = Some xs" "xs \<noteq> []"
  proof (cases "F InsertItems")
    case (Some m)
    have "\<exists>e. fst (updateWithWorkItems F i p ws s) = Inl e"
      by (simp add: updateWithWorkItems_def that items_fail(2) [of F, OF Some] case_prod_beta Let_def
          split: sum.split)
    with assms show ?thesis by simp
  qed simp
qed

lemma updateWithWorkItems_row:
  assumes "fst (updateWithWorkItems F i p ws s) = Inr x"
    and "filter (\<lambda>r. bapp_id r = i) (bapp s) = [b]"
  shows "filter (\<lambda>r. bapp_id r = i) (bapp (snd (updateWithWorkItems F i p ws s)))
    = [apply_bapp_patch (bapp_updateData_with p ws) b]"
proof -
  note ok = updateWithWorkItems_Inr [OF assms(1)]
  have ur: "update_rows F bapp_id (apply_bapp_patch q) (bapp s) i =
      (Inr (apply_bapp_patch q b), map (\<lambda>r. if bapp_id r = i then apply_bapp_patch q r else r) (bapp s))" for q
    using update_rows_ok [of F bapp_id i "bapp s" b "apply_bapp_patch q"] ok(1) assms(2) by simp
  have fm: "filter (\<lambda>r. bapp_id r = i)
      (map (\<lambda>r. if bapp_id r = i then apply_bapp_patch q r else r) (bapp s)) = [apply_bapp_patch q b]" for q
    using filter_map_patch [of bapp_id "apply_bapp_patch q" i "bapp s"] assms(2) by simp
  show ?thesis
  proof (cases ws)
    case None
    then show ?thesis
      by (simp add: updateWithWorkItems_def bapp_update_by_id_def ur fm bapp_updateData_with_def)
  next
    case (Some xs)
    show ?thesis
    proof (cases "xs = []")
      case True
      then show ?thesis
        using ok(2) [OF Some]
        by (simp add: Some updateWithWorkItems_def bapp_update_by_id_def ur fm items_ok
            bapp_updateData_with_def Let_def)
    next
      case False
      then show ?thesis
        using ok(2) [OF Some] ok(3) [OF Some False]
        by (simp add: Some updateWithWorkItems_def bapp_update_by_id_def ur fm items_ok
            bapp_updateData_with_def Let_def)
    qed
  qed
qed

lemma updateWithWorkItems_ok:
  assumes "\<forall>c. F c = None" and "filter (\<lambda>r. bapp_id r = i) (bapp s) = [b]"
  shows "\<exists>x. fst (updateWithWorkItems F i p ws s) = Inr x"
proof -
  have u: "F UpdateDoc = None" and r: "F RefetchDoc = None" and d: "F DeleteItems = None"
    and n: "F InsertItems = None"
    using assms(1) by simp_all
  have ur: "update_rows F bapp_id (apply_bapp_patch q) (bapp s) i =
      (Inr (apply_bapp_patch q b), map (\<lambda>r. if bapp_id r = i then apply_bapp_patch q r else r) (bapp s))" for q
    using update_rows_ok [of F bapp_id i "bapp s" b "apply_bapp_patch q"] u assms(2) by simp
  show ?thesis
    by (simp add: updateWithWorkItems_def bapp_update_by_id_def ur items_ok d n
        bapp_findByIdWithRelations_def findById_def r Let_def
        split: option.split single_result.split)
qed

lemma bapb_patched_fields:
  "bapb_status (apply_bapb_patch (bapb_updateData b body) b)
     = (if bapb_status b = Revision_required then Draft else bapb_status b)"
  "bapb_rejection_reason (apply_bapb_patch (bapb_updateData b body) b)
     = (if bapb_status b = Revision_required then None else bapb_rejection_reason b)"
  "order_number (apply_bapb_patch (bapb_updateData b body) b)
     = (if truthy_str (orderNumber body) then the (orderNumber body) else order_number b)"
  "delivery_date (apply_bapb_patch (bapb_updateData b body) b)
     = (if truthy_str (deliveryDate body) then the (deliveryDate body) else delivery_date b)"
  "bapb_notes (apply_bapb_patch (bapb_updateData b body) b)
     = (case body_notes body of Some v \<Rightarrow> v | None \<Rightarrow> bapb_notes b)"
  by (auto simp add: apply_bapb_patch_def bapb_updateData_def truthy_str_def split: option.split)

lemma bapp_patched_fields:
  "bapp_status (apply_bapp_patch (bapp_updateData_with (bapp_updateData b body) ws) b)
     = (if bapp_status b = Revision_required then Draft else bapp_status b)"
  "bapp_rejection_reason (apply_bapp_patch (bapp_updateData_with (bapp_updateData b body) ws) b)
     = (if bapp_status b = Revision_required then None else bapp_rejection_reason b)"
  "contract_number (apply_bapp_patch (bapp_updateData_with (bapp_updateData b body) ws) b)
     = (if truthy_str (contractNumber body) then the (contractNumber body) else contract_number b)"
  "project_name (apply_bapp_patch (bapp_updateData_with (bapp_updateData b body) ws) b)
     = (if truthy_str (projectName body) then the (projectName body) else project_name b)"
  "project_location (apply_bapp_patch (bapp_updateData_with (bapp_updateData b body) ws) b)
     = (if truthy_str (projectLocation body) then the (projectLocation body) else project_location b)"
  "start_date (apply_bapp_patch (bapp_updateData_with (bapp_updateData b body) ws) b)
     = (if truthy_str (startDate body) then the (startDate body) else start_date b)"
  "end_date (apply_bapp_patch (bapp_updateData_with (bapp_updateData b body) ws) b)
     = (if truthy_str (endDate body) then the (endDate body) else end_date b)"
  "completion_date (apply_bapp_patch (bapp_updateData_with (bapp_updateData b body) ws) b)
     = (case completionDate body of Some v \<Rightarrow> v | None \<Rightarrow> completion_date b)"
  "bapp_notes (apply_bapp_patch (bapp_updateData_with (bapp_updateData b body) ws) b)
     = (case bapp_body_notes body of Some v \<Rightarrow> v | None \<Rightarrow> bapp_notes b)"
  "total_progress (apply_bapp_patch (bapp_updateData_with (bapp_updateData b body) ws) b)
     = (case ws of Some xs \<Rightarrow> to_numeric (calculateTotalProgress (Some xs)) | None \<Rightarrow> total_progress b)"
  by (auto simp add: apply_bapp_patch_def bapp_updateData_def bapp_updateData_with_def truthy_str_def
      split: option.split)

lemma updateBAPB_owner:
  assumes "F FindDoc = None" and "filter (\<lambda>r. bapb_id r = i) (bapb s) = [b]"
    and "canManageBAPB (user_role u)" and "isVendorBarang (user_role u) \<longrightarrow> bapb_vendor_id b = user_id u"
    and "bapb_status b \<in> {Draft, Revision_required}"
  shows "updateBAPB F u i body s =
    (case updateWithItems F i (bapb_updateData b body) (body_items body) s of
       (Inl e, s1) \<Rightarrow> (server_error ''Error updating BAPB'' e, s1)
     | (Inr _, s1) \<Rightarrow> (ok 200 ''BAPB updated successfully'' None, s1))"
  using assms
  by (auto simp add: updateBAPB_def bapb_findById_def findById_one isVendorBarang_def canManageBAPB_def)

lemma updateBAPP_owner:
  assumes "F FindDoc = None" and "filter (\<lambda>r. bapp_id r = i) (bapp s) = [b]"
    and "canManageBAPP (user_role u)" and "isVendorJasa (user_role u) \<longrightarrow> bapp_vendor_id b = user_id u"
    and "bapp_status b \<in> {Draft, Revision_required}"
  shows "updateBAPP F u i body s =
    (case updateWithWorkItems F i (bapp_updateData b body) (workItems body) s of
       (Inl e, s1) \<Rightarrow> (server_error ''Error updating BAPP'' e, s1)
     | (Inr _, s1) \<Rightarrow> (ok 200 ''BAPP updated successfully'' None, s1))"
  using assms
  by (auto simp add: updateBAPP_def bapp_findById_def findById_one isVendorJasa_def canManageBAPP_def)

lemma success_case:
  "success (fst (case p of (Inl e, s1) \<Rightarrow> (server_error m e, s1) | (Inr x, s1) \<Rightarrow> (ok c m' w, s1)))
     = (\<exists>x. fst p = Inr x)"
  "snd (case p of (Inl e, s1) \<Rightarrow> (server_error m e, s1) | (Inr x, s1) \<Rightarrow> (ok c m' w, s1)) = snd p"
  by (cases p; cases "fst p"; simp)+

lemma revision_store_rows:
  "filter (\<lambda>r. bapb_id r = ''b1'') (bapb revision_store)
     = [(bapb_doc Revision_required)\<lparr>bapb_rejection_reason := Some ''Quantities differ''\<rparr>]"
  "filter (\<lambda>r. bapp_id r = ''p1'') (bapp revision_store)
     = [(bapp_doc Revision_required)\<lparr>bapp_rejection_reason := Some ''Progress unclear''\<rparr>]"
  by (simp_all add: revision_store_def store_with_def empty_store_def bapb_doc_def bapp_doc_def)

text \<open>
  Claim C6. The vendor who owns a document, or an administrator, updates a document
  that is in draft or needs revision. When no store call fails the update succeeds;
  whenever it succeeds, the one row of the document afterwards is in draft, its
  rejection reason is cleared if the document needed revision and is as before if it
  was in draft, and the supplied fields are applied: a non-empty string replaces the
  old value, the notes and the completion date are replaced whenever they are supplied.
\<close>

theorem C6_edit_resets_revision:
  "(F FindDoc = None \<and> filter (\<lambda>r. bapb_id r = i) (bapb s) = [b] \<and>
    canManageBAPB (user_role u) \<and> (isVendorBarang (user_role u) \<longrightarrow> bapb_vendor_id b = user_id u) \<and>
    bapb_status b \<in> {Draft, Revision_required} \<longrightarrow>
      ((\<forall>c. F c = None) \<longrightarrow> success (fst (updateBAPB F u i body s))) \<and>
      (success (fst (updateBAPB F u i body s)) \<longrightarrow>
        (\<exists>b'. filter (\<lambda>r. bapb_id r = i) (bapb (snd (updateBAPB F u i body s))) = [b'] \<and>
           bapb_status b' = Draft \<and>
           bapb_rejection_reason b'
             = (if bapb_status b = Revision_required then None else bapb_rejection_reason b) \<and>
           order_number b'
             = (if truthy_str (orderNumber body) then the (orderNumber body) else order_number b) \<and>
           delivery_date b'
             = (if truthy_str (deliveryDate body) then the (deliveryDate body) else delivery_date b) \<and>
           bapb_notes b' = (case body_notes body of Some v \<Rightarrow> v | None \<Rightarrow> bapb_notes b)))) \<and>
   (F FindDoc = None \<and> filter (\<lambda>r. bapp_id r = j) (bapp s) = [p] \<and>
    canManageBAPP (user_role u) \<and> (isVendorJasa (user_role u) \<longrightarrow> bapp_vendor_id p = user_id u) \<and>
    bapp_status p \<in> {Draft, Revision_required} \<longrightarrow>
      ((\<forall>c. F c = None) \<longrightarrow> success (fst (updateBAPP F u j pbody s))) \<and>
      (success (fst (updateBAPP F u j pbody s)) \<longrightarrow>
        (\<exists>p'. filter (\<lambda>r. bapp_id r = j) (bapp (snd (updateBAPP F u j pbody s))) = [p'] \<and>
           bapp_status p' = Draft \<and>
           bapp_rejection_reason p'
             = (if bapp_status p = Revision_required then None else bapp_rejection_reason p) \<and>
           contract_number p'
             = (if truthy_str (contractNumber pbody) then the (contractNumber pbody) else contract_number p) \<and>
           project_name p'
             = (if truthy_str (projectName pbody) then the (projectName pbody) else project_name p) \<and>
           project_location p'
             = (if truthy_str (projectLocation pbody) then the (projectLocation pbody)
                else project_location p) \<and>
           start_date p' = (if truthy_str (startDate pbody) then the (startDate pbody) else start_date p) \<and>
           end_date p' = (if truthy_str (endDate pbody) then the (endDate pbody) else end_date p) \<and>
           completion_date p'
             = (case completionDate pbody of Some v \<Rightarrow> v | None \<Rightarrow> completion_date p) \<and>
           bapp_notes p' = (case bapp_body_notes pbody of Some v \<Rightarrow> v | None \<Rightarrow> bapp_notes p))))"
proof (intro conjI impI)
  assume a: "F FindDoc = None \<and> filter (\<lambda>r. bapb_id r = i) (bapb s) = [b] \<and>
    canManageBAPB (user_role u) \<and> (isVendorBarang (user_role u) \<longrightarrow> bapb_vendor_id b = user_id u) \<and>
    bapb_status b \<in> {Draft, Revision_required}"
  then have e: "updateBAPB F u i body s =
    (case updateWithItems F i (bapb_updateData b body) (body_items body) s of
       (Inl e, s1) \<Rightarrow> (server_error ''Error updating BAPB'' e, s1)
     | (Inr _, s1) \<Rightarrow> (ok 200 ''BAPB updated successfully'' None, s1))"
    using updateBAPB_owner [of F i s b u body] by simp
  from a have one: "filter (\<lambda>r. bapb_id r = i) (bapb s) = [b]" by simp
  show "success (fst (updateBAPB F u i body s))" if "\<forall>c. F c = None"
    using updateWithItems_ok [OF that one] by (simp add: e success_case)
  show "\<exists>b'. filter (\<lambda>r. bapb_id r = i) (bapb (snd (updateBAPB F u i body s))) = [b'] \<and>
           bapb_status b' = Draft \<and>
           bapb_rejection_reason b'
             = (if bapb_status b = Revision_required then None else bapb_rejection_reason b) \<and>
           order_number b'
             = (if truthy_str (orderNumber body) then the (orderNumber body) else order_number b) \<and>
           delivery_date b'
             = (if truthy_str (deliveryDate body) then the (deliveryDate body) else delivery_date b) \<and>
           bapb_notes b' = (case body_notes body of Some v \<Rightarrow> v | None \<Rightarrow> bapb_notes b)"
    if s: "success (fst (updateBAPB F u i body s))"
  proof -
    from s obtain x where x: "fst (updateWithItems F i (bapb_updateData b body) (body_items body) s) = Inr x"
      by (auto simp add: e success_case)
    have u: "F UpdateDoc = None"
    proof (cases "F UpdateDoc")
      case (Some m)
      show ?thesis using updateWithItems_Inr [of F, OF Some] x by simp
    qed simp
    have row: "filter (\<lambda>r. bapb_id r = i) (bapb (snd (updateBAPB F u i body s)))
        = [apply_bapb_patch (bapb_updateData b body) b]"
      using updateWithItems_row [of F, OF u one] by (simp add: e success_case)
    show ?thesis
      using a by (auto simp add: row bapb_patched_fields)
  qed
next
  assume a: "F FindDoc = None \<and> filter (\<lambda>r. bapp_id r = j) (bapp s) = [p] \<and>
    canManageBAPP (user_role u) \<and> (isVendorJasa (user_role u) \<longrightarrow> bapp_vendor_id p = user_id u) \<and>
    bapp_status p \<in> {Draft, Revision_required}"
  then have e: "updateBAPP F u j pbody s =
    (case updateWithWorkItems F j (bapp_updateData p pbody) (workItems pbody) s of
       (Inl e, s1) \<Rightarrow> (server_error ''Error updating BAPP'' e, s1)
     | (Inr _, s1) \<Rightarrow> (ok 200 ''BAPP updated successfully'' None, s1))"
    using updateBAPP_owner [of F j s p u pbody] by simp
  from a have one: "filter (\<lambda>r. bapp_id r = j) (bapp s) = [p]" by simp
  show "success (fst (updateBAPP F u j pbody s))" if "\<forall>c. F c = None"
    using updateWithWorkItems_ok [OF that one] by (simp add: e success_case)
  show "\<exists>p'. filter (\<lambda>r. bapp_id r = j) (bapp (snd (updateBAPP F u j pbody s))) = [p'] \<and>
           bapp_status p' = Draft \<and>
           bapp_rejection_reason p'
             = (if bapp_status p = Revision_required then None else bapp_rejection_reason p) \<and>
           contract_number p'
             = (if truthy_str (contractNumber pbody) then the (contractNumber pbody) else contract_number p) \<and>
           project_name p'
             = (if truthy_str (projectName pbody) then the (projectName pbody) else project_name p) \<and>
           project_location p'
             = (if truthy_str (projectLocation pbody) then the (projectLocation pbody)
                else project_location p) \<and>
           start_date p' = (if truthy_str (startDate pbody) then the (startDate pbody) else start_date p) \<and>
           end_date p' = (if truthy_str (endDate pbody) then the (endDate pbody) else end_date p) \<and>
           completion_date p'
             = (case completionDate pbody of Some v \<Rightarrow> v | None \<Rightarrow> completion_date p) \<and>
           bapp_notes p' = (case bapp_body_notes pbody of Some v \<Rightarrow> v | None \<Rightarrow> bapp_notes p)"
    if s: "success (fst (updateBAPP F u j pbody s))"
  proof -
    from s obtain x where x: "fst (updateWithWorkItems F j (bapp_updateData p pbody) (workItems pbody) s) = Inr x"
      by (auto simp add: e success_case)
    have row: "filter (\<lambda>r. bapp_id r = j) (bapp (snd (updateBAPP F u j pbody s)))
        = [apply_bapp_patch (bapp_updateData_with (bapp_updateData p pbody) (workItems pbody)) p]"
      using updateWithWorkItems_row [OF x one] by (simp add: e success_case)
    show ?thesis
      using a by (auto simp add: row bapp_patched_fields)
  qed
qed

theorem C6_edit_resets_revision_witness:
  "success (fst (updateBAPB no_faults vendor_a ''b1'' bapb_edit revision_store)) \<and>
   map (\<lambda>r. (bapb_status r, bapb_rejection_reason r, order_number r))
     (filter (\<lambda>r. bapb_id r = ''b1'')
        (bapb (snd (updateBAPB no_faults vendor_a ''b1'' bapb_edit revision_store))))
     = [(Draft, None, ''PO-2'')] \<and>
   success (fst (updateBAPP no_faults vendor_a ''p1'' bapp_edit revision_store)) \<and>
   map (\<lambda>r. (bapp_status r, bapp_rejection_reason r, contract_number r))
     (filter (\<lambda>r. bapp_id r = ''p1'')
        (bapp (snd (updateBAPP no_faults vendor_a ''p1'' bapp_edit revision_store))))
     = [(Draft, None, ''C-2'')]"
proof -
  let ?b = "(bapb_doc Revision_required)\<lparr>bapb_rejection_reason := Some ''Quantities differ''\<rparr>"
  let ?p = "(bapp_doc Revision_required)\<lparr>bapp_rejection_reason := Some ''Progress unclear''\<rparr>"
  have h: "no_faults FindDoc = None" "\<forall>c. no_faults c = None"
    "canManageBAPB (user_role vendor_a)" "canManageBAPP (user_role vendor_a)"
    "bapb_vendor_id ?b = user_id vendor_a" "bapp_vendor_id ?p = user_id vendor_a"
    "bapb_status ?b = Revision_required" "bapp_status ?p = Revision_required"
    by (simp_all add: no_faults_def canManageBAPB_def canManageBAPP_def vendor_a_def bapb_doc_def
        bapp_doc_def)
  have body: "truthy_str (orderNumber bapb_edit)" "orderNumber bapb_edit = Some ''PO-2''"
    "truthy_str (contractNumber bapp_edit)" "contractNumber bapp_edit = Some ''C-2''"
    by (simp_all add: bapb_edit_def bapp_edit_def truthy_str_def)
  note T = C6_edit_resets_revision [of no_faults "''b1''" revision_store ?b vendor_a bapb_edit
      "''p1''" ?p bapp_edit]
  from T h revision_store_rows
  have sb: "success (fst (updateBAPB no_faults vendor_a ''b1'' bapb_edit revision_store))"
    and sp: "success (fst (updateBAPP no_faults vendor_a ''p1'' bapp_edit revision_store))"
    by simp_all
  from T h revision_store_rows sb obtain b' where
    b': "filter (\<lambda>r. bapb_id r = ''b1'')
          (bapb (snd (updateBAPB no_faults vendor_a ''b1'' bapb_edit revision_store))) = [b']"
      "bapb_status b' = Draft" "bapb_rejection_reason b' = None"
      "order_number b' = the (orderNumber bapb_edit)"
    using body(1) by auto
  from T h revision_store_rows sp obtain p' where
    p': "filter (\<lambda>r. bapp_id r = ''p1'')
          (bapp (snd (updateBAPP no_faults vendor_a ''p1'' bapp_edit revision_store))) = [p']"
      "bapp_status p' = Draft" "bapp_rejection_reason p' = None"
      "contract_number p' = the (contractNumber bapp_edit)"
    using body(3) by auto
  from sb sp b' p' body show ?thesis by simp
qed

section \<open>Submitting a document\<close>

lemma single_Row: "single xs = Row r \<Longrightarrow> xs = [r]"
  by (auto simp: single_def split: list.splits)

lemma findById_Some: "findById c F key rows i = Inr (Some b) \<Longrightarrow> filter (\<lambda>r. key r = i) rows = [b]"
  by (auto simp: findById_def split: option.splits single_result.splits dest: single_Row)

lemma findByIdWithRelations_Some:
  "bapb_findByIdWithRelations c F s i = Inr (Some (b, items)) \<Longrightarrow>
     filter (\<lambda>r. bapb_id r = i) (bapb s) = [b] \<and> items = filter (\<lambda>x. item_bapb_id x = i) (bapb_items s)"
  "bapp_findByIdWithRelations c F s i = Inr (Some (p, ws)) \<Longrightarrow>
     filter (\<lambda>r. bapp_id r = i) (bapp s) = [p] \<and> ws = filter (\<lambda>x. wi_bapp_id x = i) (bapp_work_items s)"
  by (auto simp: bapb_findByIdWithRelations_def bapp_findByIdWithRelations_def
      split: sum.splits option.splits dest: findById_Some)

lemma submitBAPB_cases:
  "(snd (submitBAPB F u i s) = s \<and> \<not> success (fst (submitBAPB F u i s))) \<or>
   (\<exists>b items. bapb_findByIdWithRelations FindDoc F s i = Inr (Some (b, items)) \<and>
      bapb_vendor_id b = user_id u \<and> canManageBAPB (user_role u) \<and>
      bapb_status b \<in> {Draft, Revision_required} \<and> items \<noteq> [] \<and>
      submitBAPB F u i s = submitBAPB_commit F i b s)"
  by (auto simp add: submitBAPB_unfold split: sum.split option.split)

lemma submitBAPP_cases:
  "(snd (submitBAPP F u i s) = s \<and> \<not> success (fst (submitBAPP F u i s))) \<or>
   (\<exists>b items. bapp_findByIdWithRelations FindDoc F s i = Inr (Some (b, items)) \<and>
      bapp_vendor_id b = user_id u \<and> canManageBAPP (user_role u) \<and>
      bapp_status b \<in> {Draft, Revision_required} \<and> items \<noteq> [] \<and>
      submitBAPP F u i s = submitBAPP_commit F i b s)"
  by (auto simp add: submitBAPP_unfold split: sum.split option.split)

lemma notifySubmitted_docs [simp]:
  "bapb (notifyBAPBSubmitted F b s) = bapb s"
  "bapp (notifyBAPPSubmitted F p s) = bapp s"
  by (simp_all add: notifyBAPBSubmitted_def notifyBAPPSubmitted_def createBulkNotifications_def
      split: option.split)

lemma status_patch [simp]:
  "bapb_status (apply_bapb_patch (empty_bapb_patch\<lparr>set_bapb_status := Some st\<rparr>) b) = st"
  "bapp_status (apply_bapp_patch (empty_bapp_patch\<lparr>set_bapp_status := Some st\<rparr>) p) = st"
  by (simp_all add: apply_bapb_patch_def empty_bapb_patch_def apply_bapp_patch_def empty_bapp_patch_def)

lemma submitBAPB_commit_ok:
  assumes "F UpdateDoc = None" and "F RefetchDoc = None"
    and "filter (\<lambda>r. bapb_id r = i) (bapb s) = [b]"
  shows "success (fst (submitBAPB_commit F i b s)) \<and>
   map bapb_status (filter (\<lambda>r. bapb_id r = i) (bapb (snd (submitBAPB_commit F i b s)))) = [Submitted]"
proof -
  let ?pb = "empty_bapb_patch\<lparr>set_bapb_status := Some Submitted\<rparr>"
  have fm: "filter (\<lambda>r. bapb_id r = i)
      (map (\<lambda>r. if bapb_id r = i then apply_bapb_patch ?pb r else r) (bapb s)) = [apply_bapb_patch ?pb b]"
    using filter_map_patch [of bapb_id "apply_bapb_patch ?pb" i "bapb s"] assms(3) by simp
  show ?thesis
    by (simp add: submitBAPB_commit_def bapb_updateStatus_def
        bapb_update_by_id_ok [of F, OF assms(1) assms(3)] Let_def refetch_case assms(2) fm)
qed

lemma submitBAPP_commit_ok:
  assumes "F UpdateDoc = None" and "F RefetchDoc = None"
    and "filter (\<lambda>r. bapp_id r = i) (bapp s) = [p]"
  shows "success (fst (submitBAPP_commit F i p s)) \<and>
   map bapp_status (filter (\<lambda>r. bapp_id r = i) (bapp (snd (submitBAPP_commit F i p s)))) = [Submitted]"
proof -
  let ?pp = "empty_bapp_patch\<lparr>set_bapp_status := Some Submitted\<rparr>"
  have fm: "filter (\<lambda>r. bapp_id r = i)
      (map (\<lambda>r. if bapp_id r = i then apply_bapp_patch ?pp r else r) (bapp s)) = [apply_bapp_patch ?pp p]"
    using filter_map_patch [of bapp_id "apply_bapp_patch ?pp" i "bapp s"] assms(3) by simp
  show ?thesis
    by (simp add: submitBAPP_commit_def bapp_updateStatus_def
        bapp_update_by_id_ok [of F, OF assms(1) assms(3)] Let_def refetch_case assms(2) fm)
qed

text \<open>
  Claim C5. A submit call that succeeds, or that changes the store at all, was made on
  a document in draft or needing revision, by the vendor who owns it, with at least one
  line item. A submit of a document with no line items never succeeds and leaves the
  whole store as it was. Conversely, when these preconditions hold, the caller's role
  may manage the document type and the store answers the lookup, the update and the
  second fetch, the submit succeeds and the document row is submitted.
\<close>

theorem C5_submit_preconditions:
  "((success (fst (submitBAPB F u i s)) \<or> snd (submitBAPB F u i s) \<noteq> s) \<longrightarrow>
      (\<exists>b. filter (\<lambda>r. bapb_id r = i) (bapb s) = [b] \<and>
         bapb_status b \<in> {Draft, Revision_required} \<and> bapb_vendor_id b = user_id u \<and>
         filter (\<lambda>x. item_bapb_id x = i) (bapb_items s) \<noteq> [])) \<and>
   (filter (\<lambda>x. item_bapb_id x = i) (bapb_items s) = [] \<longrightarrow>
      \<not> success (fst (submitBAPB F u i s)) \<and> snd (submitBAPB F u i s) = s) \<and>
   (F FindDoc = None \<and> F UpdateDoc = None \<and> F RefetchDoc = None \<and>
    filter (\<lambda>r. bapb_id r = i) (bapb s) = [b] \<and> bapb_status b \<in> {Draft, Revision_required} \<and>
    bapb_vendor_id b = user_id u \<and> canManageBAPB (user_role u) \<and>
    filter (\<lambda>x. item_bapb_id x = i) (bapb_items s) \<noteq> [] \<longrightarrow>
      success (fst (submitBAPB F u i s)) \<and>
      map bapb_status (filter (\<lambda>r. bapb_id r = i) (bapb (snd (submitBAPB F u i s)))) = [Submitted]) \<and>
   ((success (fst (submitBAPP F u j s)) \<or> snd (submitBAPP F u j s) \<noteq> s) \<longrightarrow>
      (\<exists>p. filter (\<lambda>r. bapp_id r = j) (bapp s) = [p] \<and>
         bapp_status p \<in> {Draft, Revision_required} \<and> bapp_vendor_id p = user_id u \<and>
         filter (\<lambda>x. wi_bapp_id x = j) (bapp_work_items s) \<noteq> [])) \<and>
   (filter (\<lambda>x. wi_bapp_id x = j) (bapp_work_items s) = [] \<longrightarrow>
      \<not> success (fst (submitBAPP F u j s)) \<and> snd (submitBAPP F u j s) = s) \<and>
   (F FindDoc = None \<and> F UpdateDoc = None \<and> F RefetchDoc = None \<and>
    filter (\<lambda>r. bapp_id r = j) (bapp s) = [p] \<and> bapp_status p \<in> {Draft, Revision_required} \<and>
    bapp_vendor_id p = user_id u \<and> canManageBAPP (user_role u) \<and>
    filter (\<lambda>x. wi_bapp_id x = j) (bapp_work_items s) \<noteq> [] \<longrightarrow>
      success (fst (submitBAPP F u j s)) \<and>
      map bapp_status (filter (\<lambda>r. bapp_id r = j) (bapp (snd (submitBAPP F u j s)))) = [Submitted])"
proof -
  have b1: "\<exists>b. filter (\<lambda>r. bapb_id r = i) (bapb s) = [b] \<and>
         bapb_status b \<in> {Draft, Revision_required} \<and> bapb_vendor_id b = user_id u \<and>
         filter (\<lambda>x. item_bapb_id x = i) (bapb_items s) \<noteq> []"
    if "success (fst (submitBAPB F u i s)) \<or> snd (submitBAPB F u i s) \<noteq> s"
    using that submitBAPB_cases [of F u i s] findByIdWithRelations_Some(1) [of FindDoc F s i]
    by blast
  have p1: "\<exists>p. filter (\<lambda>r. bapp_id r = j) (bapp s) = [p] \<and>
         bapp_status p \<in> {Draft, Revision_required} \<and> bapp_vendor_id p = user_id u \<and>
         filter (\<lambda>x. wi_bapp_id x = j) (bapp_work_items s) \<noteq> []"
    if "success (fst (submitBAPP F u j s)) \<or> snd (submitBAPP F u j s) \<noteq> s"
    using that submitBAPP_cases [of F u j s] findByIdWithRelations_Some(2) [of FindDoc F s j]
    by blast
  have b3: "success (fst (submitBAPB F u i s)) \<and>
      map bapb_status (filter (\<lambda>r. bapb_id r = i) (bapb (snd (submitBAPB F u i s)))) = [Submitted]"
    if a: "F FindDoc = None \<and> F UpdateDoc = None \<and> F RefetchDoc = None \<and>
      filter (\<lambda>r. bapb_id r = i) (bapb s) = [b] \<and> bapb_status b \<in> {Draft, Revision_required} \<and>
      bapb_vendor_id b = user_id u \<and> canManageBAPB (user_role u) \<and>
      filter (\<lambda>x. item_bapb_id x = i) (bapb_items s) \<noteq> []"
  proof -
    from a have "submitBAPB F u i s = submitBAPB_commit F i b s"
      by (auto simp add: submitBAPB_unfold findByIdWithRelations_one)
    with a submitBAPB_commit_ok [of F i s b] show ?thesis by simp
  qed
  have p3: "success (fst (submitBAPP F u j s)) \<and>
      map bapp_status (filter (\<lambda>r. bapp_id r = j) (bapp (snd (submitBAPP F u j s)))) = [Submitted]"
    if a: "F FindDoc = None \<and> F UpdateDoc = None \<and> F RefetchDoc = None \<and>
      filter (\<lambda>r. bapp_id r = j) (bapp s) = [p] \<and> bapp_status p \<in> {Draft, Revision_required} \<and>
      bapp_vendor_id p = user_id u \<and> canManageBAPP (user_role u) \<and>
      filter (\<lambda>x. wi_bapp_id x = j) (bapp_work_items s) \<noteq> []"
  proof -
    from a have "submitBAPP F u j s = submitBAPP_commit F j p s"
      by (auto simp add: submitBAPP_unfold findByIdWithRelations_one)
    with a submitBAPP_commit_ok [of F j s p] show ?thesis by simp
  qed
  show ?thesis
    using b1 p1 b3 p3 by blast
qed

theorem C5_submit_preconditions_witness:
  "success (fst (submitBAPB no_faults vendor_a ''b1'' (store_with Draft))) \<and>
   map bapb_status (filter (\<lambda>r. bapb_id r = ''b1'')
       (bapb (snd (submitBAPB no_faults vendor_a ''b1'' (store_with Draft))))) = [Submitted] \<and>
   success (fst (submitBAPP no_faults vendor_a ''p1'' (store_with Draft))) \<and>
   map bapp_status (filter (\<lambda>r. bapp_id r = ''p1'')
       (bapp (snd (submitBAPP no_faults vendor_a ''p1'' (store_with Draft))))) = [Submitted] \<and>
   \<not> success (fst (submitBAPB no_faults vendor_a ''b1'' no_items)) \<and>
   snd (submitBAPB no_faults vendor_a ''b1'' no_items) = no_items \<and>
   \<not> success (fst (submitBAPP no_faults vendor_a ''p1'' no_items)) \<and>
   snd (submitBAPP no_faults vendor_a ''p1'' no_items) = no_items"
proof -
  have h: "no_faults FindDoc = None" "no_faults UpdateDoc = None" "no_faults RefetchDoc = None"
    "canManageBAPB (user_role vendor_a)" "canManageBAPP (user_role vendor_a)"
    "bapb_vendor_id (bapb_doc Draft) = user_id vendor_a"
    "bapp_vendor_id (bapp_doc Draft) = user_id vendor_a"
    "bapb_status (bapb_doc Draft) = Draft" "bapp_status (bapp_doc Draft) = Draft"
    by (simp_all add: no_faults_def canManageBAPB_def canManageBAPP_def vendor_a_def bapb_doc_def
        bapp_doc_def)
  have rows: "filter (\<lambda>r. bapb_id r = ''b1'') (bapb (store_with Draft)) = [bapb_doc Draft]"
    "filter (\<lambda>r. bapp_id r = ''p1'') (bapp (store_with Draft)) = [bapp_doc Draft]"
    "filter (\<lambda>x. item_bapb_id x = ''b1'') (bapb_items (store_with Draft)) = [bapb_item]"
    "filter (\<lambda>x. wi_bapp_id x = ''p1'') (bapp_work_items (store_with Draft)) = [bapp_item]"
    "filter (\<lambda>x. item_bapb_id x = ''b1'') (bapb_items no_items) = []"
    "filter (\<lambda>x. wi_bapp_id x = ''p1'') (bapp_work_items no_items) = []"
    by (simp_all add: store_with_def empty_store_def bapb_doc_def bapp_doc_def bapb_item_def
        bapp_item_def no_items_def)
  note T = C5_submit_preconditions [of no_faults vendor_a "''b1''" "store_with Draft"
      "bapb_doc Draft" "''p1''" "bapp_doc Draft"]
  note U = C5_submit_preconditions [of no_faults vendor_a "''b1''" no_items
      "bapb_doc Draft" "''p1''" "bapp_doc Draft"]
  from T h rows have 1: "success (fst (submitBAPB no_faults vendor_a ''b1'' (store_with Draft))) \<and>
      map bapb_status (filter (\<lambda>r. bapb_id r = ''b1'')
       (bapb (snd (submitBAPB no_faults vendor_a ''b1'' (store_with Draft))))) = [Submitted]"
    by simp
  from T h rows have 2: "success (fst (submitBAPP no_faults vendor_a ''p1'' (store_with Draft))) \<and>
      map bapp_status (filter (\<lambda>r. bapp_id r = ''p1'')
       (bapp (snd (submitBAPP no_faults vendor_a ''p1'' (store_with Draft))))) = [Submitted]"
    by simp
  from U rows(5) have 3: "\<not> success (fst (submitBAPB no_faults vendor_a ''b1'' no_items)) \<and>
      snd (submitBAPB no_faults vendor_a ''b1'' no_items) = no_items"
    by blast
  from U rows(6) have 4: "\<not> success (fst (submitBAPP no_faults vendor_a ''p1'' no_items)) \<and>
      snd (submitBAPP no_faults vendor_a ''p1'' no_items) = no_items"
    by blast
  from 1 2 3 4 show ?thesis by blast
qed

section \<open>Creating a document with its items\<close>

lemma filter_fresh:
  "k \<notin> key ` set rows \<Longrightarrow> filter (\<lambda>r. key r \<noteq> k) rows = rows"
  by (induction rows) auto

lemma create_fresh:
  "F InsertDoc = None \<Longrightarrow> bapb_id row \<notin> bapb_id ` set (bapb s) \<Longrightarrow>
   bapb_create F row s = (Inr row, s\<lparr>bapb := bapb s @ [row], journal := journal s @ [(InsertDoc, True)]\<rparr>)"
  "F InsertDoc = None \<Longrightarrow> bapp_id prow \<notin> bapp_id ` set (bapp s) \<Longrightarrow>
   bapp_create F prow s = (Inr prow, s\<lparr>bapp := bapp s @ [prow], journal := journal s @ [(InsertDoc, True)]\<rparr>)"
  by (simp_all add: bapb_create_def bapp_create_def issued_def)

lemma createWithItems_compensates:
  assumes "F InsertDoc = None" and "bapb_id row \<notin> bapb_id ` set (bapb s)"
    and "F InsertItems = Some m" and "F DeleteDoc = None"
  shows "createWithItems F row (Some (x # xs)) s =
     (Inl (JsError (''Failed to create BAPB items: '' @ m)),
      s\<lparr>journal := journal s @ [(InsertDoc, True), (InsertItems, False), (DeleteDoc, True)]\<rparr>)"
  using assms
  by (simp add: createWithItems_def create_fresh(1) [of F] bapb_insert_items_def bapb_delete_def
      issued_def filter_fresh [of "bapb_id row" bapb_id])

lemma createWithWorkItems_compensates:
  assumes "F InsertDoc = None" and "bapp_id prow \<notin> bapp_id ` set (bapp s)"
    and "F InsertItems = Some m" and "F DeleteDoc = None"
  shows "createWithWorkItems F prow (Some (w # ws)) s =
     (Inl (JsError (''Failed to create BAPP work items: '' @ m)),
      s\<lparr>journal := journal s @ [(InsertDoc, True), (InsertItems, False), (DeleteDoc, True)]\<rparr>)"
proof -
  let ?r = "prow\<lparr>total_progress := to_numeric (calculateTotalProgress (Some (w # ws)))\<rparr>"
  have fresh: "bapp_id ?r \<notin> bapp_id ` set (bapp s)"
    using assms(2) by simp
  show ?thesis
    using assms(3,4)
    by (simp add: createWithWorkItems_def Let_def create_fresh(2) [of F, OF assms(1) fresh]
        bapp_insert_items_def bapp_delete_def issued_def filter_fresh [of "bapp_id prow" bapp_id] assms(2))
qed

text \<open>When the compensating delete is refused as well, its error is the one thrown and the row stays.\<close>

lemma createWithItems_delete_refused:
  assumes "F InsertDoc = None" and "bapb_id row \<notin> bapb_id ` set (bapb s)"
    and "F InsertItems = Some m" and "F DeleteDoc = Some m'"
  shows "createWithItems F row (Some (x # xs)) s =
     (Inl (StoreError DeleteDoc m'),
      s\<lparr>bapb := bapb s @ [row],
        journal := journal s @ [(InsertDoc, True), (InsertItems, False), (DeleteDoc, False)]\<rparr>)"
  using assms
  by (simp add: createWithItems_def create_fresh(1) [of F] bapb_insert_items_def bapb_delete_def
      issued_def)

lemma createWithWorkItems_delete_refused:
  assumes "F InsertDoc = None" and "bapp_id prow \<notin> bapp_id ` set (bapp s)"
    and "F InsertItems = Some m" and "F DeleteDoc = Some m'"
  shows "createWithWorkItems F prow (Some (w # ws)) s =
     (Inl (StoreError DeleteDoc m'),
      s\<lparr>bapp := bapp s @ [prow\<lparr>total_progress := to_numeric (calculateTotalProgress (Some (w # ws)))\<rparr>],
        journal := journal s @ [(InsertDoc, True), (InsertItems, False), (DeleteDoc, False)]\<rparr>)"
proof -
  let ?r = "prow\<lparr>total_progress := to_numeric (calculateTotalProgress (Some (w # ws)))\<rparr>"
  have fresh: "bapp_id ?r \<notin> bapp_id ` set (bapp s)"
    using assms(2) by simp
  show ?thesis
    using assms(3,4)
    by (simp add: createWithWorkItems_def Let_def create_fresh(2) [of F, OF assms(1) fresh]
        bapp_insert_items_def bapp_delete_def issued_def)
qed

text \<open>
  Claim C4. \<open>createWithItems\<close> and \<open>createWithWorkItems\<close> are called with at least one
  item; the store accepts the document row and refuses the bulk insert of the items
  with message \<open>m\<close>. The call then issues the compensating delete. When the store
  accepts it, the call throws the one error \<open>Failed to create ... items: m\<close> and the
  tables are those before the call: only the journal tells of the accepted insert, the
  refused insert and the accepted delete. When the store refuses the delete as well,
  that refusal is the error thrown, and the document row stays in its table without
  items.
\<close>

theorem C4_create_compensates:
  "(F InsertDoc = None \<and> bapb_id row \<notin> bapb_id ` set (bapb s) \<and> F InsertItems = Some m \<longrightarrow>
      (F DeleteDoc = None \<longrightarrow>
         createWithItems F row (Some (x # xs)) s =
           (Inl (JsError (''Failed to create BAPB items: '' @ m)),
            s\<lparr>journal := journal s @ [(InsertDoc, True), (InsertItems, False), (DeleteDoc, True)]\<rparr>)) \<and>
      (F DeleteDoc = Some m' \<longrightarrow>
         createWithItems F row (Some (x # xs)) s =
           (Inl (StoreError DeleteDoc m'),
            s\<lparr>bapb := bapb s @ [row],
              journal := journal s @ [(InsertDoc, True), (InsertItems, False), (DeleteDoc, False)]\<rparr>))) \<and>
   (F InsertDoc = None \<and> bapp_id prow \<notin> bapp_id ` set (bapp s) \<and> F InsertItems = Some m \<longrightarrow>
      (F DeleteDoc = None \<longrightarrow>
         createWithWorkItems F prow (Some (w # ws)) s =
           (Inl (JsError (''Failed to create BAPP work items: '' @ m)),
            s\<lparr>journal := journal s @ [(InsertDoc, True), (InsertItems, False), (DeleteDoc, True)]\<rparr>)) \<and>
      (F DeleteDoc = Some m' \<longrightarrow>
         createWithWorkItems F prow (Some (w # ws)) s =
           (Inl (StoreError DeleteDoc m'),
            s\<lparr>bapp := bapp s @
                 [prow\<lparr>total_progress := to_numeric (calculateTotalProgress (Some (w # ws)))\<rparr>],
              journal := journal s @ [(InsertDoc, True), (InsertItems, False), (DeleteDoc, False)]\<rparr>)))"
  using createWithItems_compensates [of F row s m x xs]
    createWithWorkItems_compensates [of F prow s m w ws]
    createWithItems_delete_refused [of F row s m m' x xs]
    createWithWorkItems_delete_refused [of F prow s m m' w ws]
  by blast

theorem C4_create_compensates_witness:
  "createWithItems (failing InsertItems ''violates check constraint'') ((bapb_doc Draft)\<lparr>bapb_id := ''b2''\<rparr>)
      (Some [item_input]) (store_with Draft) =
     (Inl (JsError ''Failed to create BAPB items: violates check constraint''),
      (store_with Draft)\<lparr>journal := [(InsertDoc, True), (InsertItems, False), (DeleteDoc, True)]\<rparr>) \<and>
   createWithWorkItems (failing InsertItems ''violates check constraint'') ((bapp_doc Draft)\<lparr>bapp_id := ''p2''\<rparr>)
      (Some [work_item 40, work_item 60]) (store_with Draft) =
     (Inl (JsError ''Failed to create BAPP work items: violates check constraint''),
      (store_with Draft)\<lparr>journal := [(InsertDoc, True), (InsertItems, False), (DeleteDoc, True)]\<rparr>) \<and>
   fst (createWithItems items_and_delete_fail ((bapb_doc Draft)\<lparr>bapb_id := ''b2''\<rparr>)
      (Some [item_input]) (store_with Draft)) = Inl (StoreError DeleteDoc ''connection reset'') \<and>
   fst (createWithWorkItems items_and_delete_fail ((bapp_doc Draft)\<lparr>bapp_id := ''p2''\<rparr>)
      (Some [work_item 40, work_item 60]) (store_with Draft)) = Inl (StoreError DeleteDoc ''connection reset'')"
proof -
  let ?b = "(bapb_doc Draft)\<lparr>bapb_id := ''b2''\<rparr>"
  let ?p = "(bapp_doc Draft)\<lparr>bapp_id := ''p2''\<rparr>"
  have fresh: "bapb_id ?b \<notin> bapb_id ` set (bapb (store_with Draft))"
    "bapp_id ?p \<notin> bapp_id ` set (bapp (store_with Draft))"
    "journal (store_with Draft) = []"
    by (simp_all add: store_with_def empty_store_def bapb_doc_def bapp_doc_def)
  have f: "failing InsertItems ''violates check constraint'' InsertDoc = None"
    "failing InsertItems ''violates check constraint'' InsertItems = Some ''violates check constraint''"
    "failing InsertItems ''violates check constraint'' DeleteDoc = None"
    "items_and_delete_fail InsertDoc = None"
    "items_and_delete_fail InsertItems = Some ''violates check constraint''"
    "items_and_delete_fail DeleteDoc = Some ''connection reset''"
    by (simp_all add: failing_def items_and_delete_fail_def)
  note T = C4_create_compensates [of "failing InsertItems ''violates check constraint''" ?b
      "store_with Draft" "''violates check constraint''" item_input "[]" "''connection reset''" ?p
      "work_item 40" "[work_item 60]"]
  note U = C4_create_compensates [of items_and_delete_fail ?b
      "store_with Draft" "''violates check constraint''" item_input "[]" "''connection reset''" ?p
      "work_item 40" "[work_item 60]"]
  from T f(1,2,3) fresh have 1:
    "createWithItems (failing InsertItems ''violates check constraint'') ?b (Some [item_input])
       (store_with Draft) =
     (Inl (JsError ''Failed to create BAPB items: violates check constraint''),
      (store_with Draft)\<lparr>journal := [(InsertDoc, True), (InsertItems, False), (DeleteDoc, True)]\<rparr>)"
    "createWithWorkItems (failing InsertItems ''violates check constraint'') ?p
       (Some [work_item 40, work_item 60]) (store_with Draft) =
     (Inl (JsError ''Failed to create BAPP work items: violates check constraint''),
      (store_with Draft)\<lparr>journal := [(InsertDoc, True), (InsertItems, False), (DeleteDoc, True)]\<rparr>)"
    by simp_all
  from U f(4,5,6) fresh have 2:
    "fst (createWithItems items_and_delete_fail ?b (Some [item_input]) (store_with Draft))
       = Inl (StoreError DeleteDoc ''connection reset'')"
    "fst (createWithWorkItems items_and_delete_fail ?p (Some [work_item 40, work_item 60])
       (store_with Draft)) = Inl (StoreError DeleteDoc ''connection reset'')"
    by simp_all
  from 1 2 show ?thesis by blast
qed

text \<open>
  The insert of the items and the compensating delete are both refused: the create
  fails with the error of the delete, and the new document row is in the table with
  no item.
\<close>

theorem C4_delete_refused_counterexample:
  "fst (createWithItems items_and_delete_fail ((bapb_doc Draft)\<lparr>bapb_id := ''b2''\<rparr>)
      (Some [item_input]) (store_with Draft)) = Inl (StoreError DeleteDoc ''connection reset'') \<and>
   map bapb_id (bapb (snd (createWithItems items_and_delete_fail ((bapb_doc Draft)\<lparr>bapb_id := ''b2''\<rparr>)
      (Some [item_input]) (store_with Draft)))) = [''b1'', ''b2''] \<and>
   filter (\<lambda>x. item_bapb_id x = ''b2'')
     (bapb_items (snd (createWithItems items_and_delete_fail ((bapb_doc Draft)\<lparr>bapb_id := ''b2''\<rparr>)
      (Some [item_input]) (store_with Draft)))) = []"
proof -
  have fresh: "bapb_id ((bapb_doc Draft)\<lparr>bapb_id := ''b2''\<rparr>) \<notin> bapb_id ` set (bapb (store_with Draft))"
    by (simp add: store_with_def empty_store_def bapb_doc_def)
  have f: "items_and_delete_fail InsertDoc = None"
    "items_and_delete_fail InsertItems = Some ''violates check constraint''"
    "items_and_delete_fail DeleteDoc = Some ''connection reset''"
    by (simp_all add: items_and_delete_fail_def failing_def)
  show ?thesis
    by (simp add: createWithItems_delete_refused [OF f(1) fresh f(2,3)])
       (simp add: store_with_def empty_store_def bapb_doc_def bapb_item_def)
qed

section \<open>Total progress\<close>

lemma digit_cases:
  "d < 10 \<Longrightarrow> digit d \<in> set ''0123456789'' \<and> digit_value (digit d) = d"
proof -
  assume "d < 10"
  then have "d \<in> {0, 1, 2, 3, 4, 5, 6, 7, 8, 9}" by auto
  then show ?thesis
    unfolding digit_def digit_value_def by (elim insertE emptyE) simp_all
qed

lemma string_of_nat_digits:
  "set (string_of_nat n) \<subseteq> set ''0123456789''"
proof (induction n rule: string_of_nat.induct)
  case (1 n)
  show ?case
  proof (cases "n < 10")
    case True
    then show ?thesis using digit_cases [of n] by (subst string_of_nat.simps) simp
  next
    case False
    have "n mod 10 < 10" by simp
    then have "digit (n mod 10) \<in> set ''0123456789''" using digit_cases by blast
    with 1 False show ?thesis by (subst string_of_nat.simps) simp
  qed
qed

lemma string_of_nat_nonempty: "string_of_nat n \<noteq> []"
  by (subst string_of_nat.simps) simp

lemma parse_nat_snoc: "parse_nat (cs @ [c]) = 10 * parse_nat cs + digit_value c"
  by (simp add: parse_nat_def)

lemma parse_string_of_nat: "parse_nat (string_of_nat n) = n"
proof (induction n rule: string_of_nat.induct)
  case (1 n)
  show ?case
  proof (cases "n < 10")
    case True
    then show ?thesis using digit_cases [of n]
      by (subst string_of_nat.simps) (simp add: parse_nat_def)
  next
    case False
    have "digit_value (digit (n mod 10)) = n mod 10" using digit_cases [of "n mod 10"] by simp
    with 1 False show ?thesis
      by (subst string_of_nat.simps) (simp add: parse_nat_snoc)
  qed
qed

lemma parse_nat_zeros: "parse_nat (replicate k (CHR ''0'') @ cs) = parse_nat cs"
proof -
  have "foldl (\<lambda>acc c. 10 * acc + digit_value c) 0 (replicate k (CHR ''0'')) = 0"
    by (induction k) (simp_all add: digit_value_def)
  then show ?thesis by (simp add: parse_nat_def)
qed

lemma string_of_nat_length: "m < 100 \<Longrightarrow> length (string_of_nat m) \<le> 2"
proof -
  assume m: "m < 100"
  show ?thesis
  proof (cases "m < 10")
    case True
    then show ?thesis by (subst string_of_nat.simps) simp
  next
    case False
    from m have "m div 10 < 10" by simp
    then have "string_of_nat (m div 10) = [digit (m div 10)]"
      by (subst string_of_nat.simps) simp
    with False show ?thesis by (subst string_of_nat.simps) simp
  qed
qed

lemma padStart2:
  assumes "m < 100"
  shows "length (padStart 2 (CHR ''0'') (string_of_nat m)) = 2"
    and "parse_nat (padStart 2 (CHR ''0'') (string_of_nat m)) = m"
  using string_of_nat_length [OF assms]
  by (simp_all add: padStart_def parse_nat_zeros parse_string_of_nat)

lemma parse_decimal_parts:
  assumes "\<And>c. c \<in> set ip \<Longrightarrow> c \<noteq> CHR ''.''" and "ip \<noteq> []" and "hd ip \<noteq> CHR ''-''"
  shows "parse_decimal (ip @ CHR ''.'' # fp) = of_nat (parse_nat ip) + of_nat (parse_nat fp) / 10 ^ length fp"
    and "parse_decimal (CHR ''-'' # ip @ CHR ''.'' # fp) = - (of_nat (parse_nat ip) + of_nat (parse_nat fp) / 10 ^ length fp)"
proof -
  have tw: "takeWhile (\<lambda>c. c \<noteq> CHR ''.'') (ip @ CHR ''.'' # fp) = ip"
    using assms(1) by (induction ip) auto
  show "parse_decimal (ip @ CHR ''.'' # fp) = of_nat (parse_nat ip) + of_nat (parse_nat fp) / 10 ^ length fp"
    unfolding parse_decimal_def Let_def using assms(2,3) by (simp add: tw)
  show "parse_decimal (CHR ''-'' # ip @ CHR ''.'' # fp) = - (of_nat (parse_nat ip) + of_nat (parse_nat fp) / 10 ^ length fp)"
    unfolding parse_decimal_def Let_def by (simp add: tw)
qed

lemma parse_fixed2:
  "parse_decimal (fixed2 neg n) = (if neg then - (of_nat n / 100) else of_nat n / 100)"
proof -
  let ?ip = "string_of_nat (n div 100)"
  let ?fp = "padStart 2 (CHR ''0'') (string_of_nat (n mod 100))"
  have dot: "\<And>c. c \<in> set ?ip \<Longrightarrow> c \<noteq> CHR ''.''"
    using string_of_nat_digits [of "n div 100"] by auto
  have minus: "hd ?ip \<noteq> CHR ''-''"
    using string_of_nat_digits [of "n div 100"] string_of_nat_nonempty [of "n div 100"]
    by (cases ?ip) auto
  have lt: "n mod 100 < 100" by simp
  have val: "(of_nat (parse_nat ?ip) + of_nat (parse_nat ?fp) / 10 ^ length ?fp :: rat) = of_nat n / 100"
  proof -
    have "(of_nat n :: rat) = of_nat (100 * (n div 100) + n mod 100)" by simp
    also have "\<dots> = 100 * of_nat (n div 100) + of_nat (n mod 100)"
      by (simp only: of_nat_add of_nat_mult of_nat_numeral)
    finally show ?thesis
      by (simp add: parse_string_of_nat padStart2 [OF lt] field_simps)
  qed
  note parts = parse_decimal_parts [of ?ip ?fp, OF dot string_of_nat_nonempty minus, unfolded val]
  show ?thesis
    by (cases neg) (simp_all add: fixed2_def parts)
qed

lemma nearest_hundredth:
  fixes a y :: rat
  shows "a \<le> y * 100 + 1 / 2 \<Longrightarrow> y * 100 + 1 / 2 < a + 1 \<Longrightarrow> \<bar>a / 100 - y\<bar> \<le> 1 / 200"
  by linarith

lemma round2_near: "\<bar>of_nat (round2 x) / 100 - \<bar>x\<bar>\<bar> \<le> (1 / 200 :: rat)"
proof -
  let ?y = "\<bar>x\<bar> * 100 + 1 / 2"
  have nonneg: "0 \<le> \<lfloor>?y\<rfloor>" by simp
  then have r: "(of_nat (round2 x) :: rat) = of_int \<lfloor>?y\<rfloor>"
    unfolding round2_def by simp
  have "of_int \<lfloor>?y\<rfloor> \<le> ?y" and "?y < of_int \<lfloor>?y\<rfloor> + 1" by linarith+
  then show ?thesis unfolding r by (rule nearest_hundredth)
qed

lemma foldl_sum:
  "foldl (\<lambda>acc item. acc + f item) a xs = a + sum_list (map f xs)"
  by (induction xs arbitrary: a) (simp_all add: add.assoc)

lemma stored_progress:
  "to_numeric (Inr (toFixed2 x)) = (if x < 0 then - (of_nat (round2 x) / 100) else of_nat (round2 x) / 100)"
  by (simp add: to_numeric_def toFixed2_def parse_fixed2)

lemma filter_absent:
  "k \<notin> key ` set rows \<Longrightarrow> filter (\<lambda>r. key r = k) rows = []"
  by (induction rows) auto

lemma createWithWorkItems_row:
  assumes "fst (createWithWorkItems F prow ws s) = Inr res"
  shows "filter (\<lambda>r. bapp_id r = bapp_id prow) (bapp (snd (createWithWorkItems F prow ws s)))
    = [prow\<lparr>total_progress := to_numeric (calculateTotalProgress ws)\<rparr>]"
proof -
  let ?r = "prow\<lparr>total_progress := to_numeric (calculateTotalProgress ws)\<rparr>"
  have ins: "F InsertDoc = None"
  proof (cases "F InsertDoc")
    case (Some m)
    then have "fst (createWithWorkItems F prow ws s) = Inl (StoreError InsertDoc m)"
      by (simp add: createWithWorkItems_def bapp_create_def Let_def)
    with assms show ?thesis by simp
  qed simp
  have fresh: "bapp_id prow \<notin> bapp_id ` set (bapp s)"
  proof (rule ccontr)
    assume "\<not> bapp_id prow \<notin> bapp_id ` set (bapp s)"
    then have "fst (createWithWorkItems F prow ws s) = Inl (StoreError InsertDoc ''duplicate key'')"
      using ins by (simp add: createWithWorkItems_def bapp_create_def Let_def)
    with assms show False by simp
  qed
  have c: "bapp_create F (prow\<lparr>total_progress := v\<rparr>) s =
      (Inr (prow\<lparr>total_progress := v\<rparr>),
       s\<lparr>bapp := bapp s @ [prow\<lparr>total_progress := v\<rparr>], journal := journal s @ [(InsertDoc, True)]\<rparr>)" for v
    using ins fresh by (simp add: bapp_create_def issued_def)
  consider "ws = None \<or> ws = Some []" | x xs where "ws = Some (x # xs)"
    by (cases ws; cases "the ws") auto
  then have "bapp (snd (createWithWorkItems F prow ws s)) = bapp s @ [?r]"
  proof cases
    case 1
    then show ?thesis
      by (auto simp: createWithWorkItems_def Let_def c)
  next
    case 2
    show ?thesis
    proof (cases "F InsertItems")
      case None
      then show ?thesis
        by (simp add: 2 createWithWorkItems_def Let_def c bapp_insert_items_def issued_def)
    next
      case (Some m)
      then have "\<exists>e. fst (createWithWorkItems F prow ws s) = Inl e"
        by (simp add: 2 createWithWorkItems_def Let_def c bapp_insert_items_def bapp_delete_def
            issued_def split: option.split)
      with assms show ?thesis by simp
    qed
  qed
  then show ?thesis
    using fresh by (simp add: filter_absent [of "bapp_id prow" bapp_id])
qed

lemma stored_progress_near:
  "\<bar>to_numeric (Inr (toFixed2 x)) - x\<bar> \<le> 1 / 200"
  "\<exists>n::int. to_numeric (Inr (toFixed2 x)) = of_int n / 100"
proof -
  show "\<bar>to_numeric (Inr (toFixed2 x)) - x\<bar> \<le> 1 / 200"
    using round2_near [of x] by (simp add: stored_progress abs_if split: if_splits)
  show "\<exists>n::int. to_numeric (Inr (toFixed2 x)) = of_int n / 100"
  proof (cases "x < 0")
    case True
    then have "to_numeric (Inr (toFixed2 x)) = of_int (- int (round2 x)) / 100"
      by (simp add: stored_progress)
    then show ?thesis by blast
  next
    case False
    then have "to_numeric (Inr (toFixed2 x)) = of_int (int (round2 x)) / 100"
      by (simp add: stored_progress)
    then show ?thesis by blast
  qed
qed

lemma round2_of_nat: "round2 (of_nat k) = 100 * k"
proof -
  have "\<lfloor>\<bar>of_nat k :: rat\<bar> * 100 + 1 / 2\<rfloor> = int (100 * k)"
    by (rule floor_unique) simp_all
  then show ?thesis by (simp add: round2_def)
qed

lemma fixed2_5000: "fixed2 False 5000 = ''50.00''"
  by (simp add: fixed2_def string_of_nat.simps digit_def padStart_def)

lemma stored_of_nat: "to_numeric (Inr (toFixed2 (of_nat k))) = of_nat k"
  by (simp add: stored_progress round2_of_nat)

lemma bitlen_rat_bounds:
  assumes "0 < a"
  shows "2 powi (bitlen a - 1) \<le> (of_int a :: rat)" and "(of_int a :: rat) < 2 powi bitlen a"
proof -
  from bitlen_bounds [OF assms]
  have 1: "2 ^ nat (bitlen a - 1) \<le> a" and 2: "a < 2 ^ nat (bitlen a)" by simp_all
  have p: "1 \<le> bitlen a" using assms by (auto simp: bitlen_alt_def)
  from 1 have "(of_int (2 ^ nat (bitlen a - 1)) :: rat) \<le> of_int a" by (simp only: of_int_le_iff)
  then show "2 powi (bitlen a - 1) \<le> (of_int a :: rat)" using p by (simp add: power_int_def)
  from 2 have "(of_int a :: rat) < of_int (2 ^ nat (bitlen a))" by (simp only: of_int_less_iff)
  then show "(of_int a :: rat) < 2 powi bitlen a" using p by (simp add: power_int_def)
qed

lemma floor_log2_bounds:
  assumes "0 < x"
  shows "2 powi floor_log2 x \<le> x" and "x < 2 powi (floor_log2 x + 1)"
proof -
  obtain a b where q: "quotient_of x = (a, b)" by (cases "quotient_of x")
  then have b: "0 < b" and x: "x = of_int a / of_int b"
    by (simp_all add: quotient_of_denom_pos quotient_of_div)
  with assms have a: "0 < a" by (simp add: zero_less_divide_iff)
  define k where "k = bitlen a - bitlen b"
  note A = bitlen_rat_bounds [OF a] and B = bitlen_rat_bounds [OF b]
  have pb: "(0 :: rat) < of_int b" using b by simp
  have up: "x < 2 powi (k + 1)"
  proof -
    have "(of_int a :: rat) < 2 powi bitlen a" by (rule A)
    also have "\<dots> = 2 powi (k + 1) * 2 powi (bitlen b - 1)"
      by (simp add: k_def power_int_add [symmetric])
    also have "\<dots> \<le> 2 powi (k + 1) * of_int b"
      using B(1) by (simp add: mult_left_mono)
    finally show ?thesis using pb by (simp add: x pos_divide_less_eq)
  qed
  have lo: "2 powi (k - 1) < x"
  proof -
    have "(2 :: rat) powi (k - 1) * of_int b < 2 powi (k - 1) * 2 powi bitlen b"
      using B(2) by (simp add: mult_strict_left_mono)
    also have "\<dots> = 2 powi (bitlen a - 1)"
      by (simp add: k_def power_int_add [symmetric])
    also have "\<dots> \<le> of_int a" by (rule A)
    finally show ?thesis using pb by (simp add: x pos_less_divide_eq)
  qed
  have f: "floor_log2 x = (if 2 powi k \<le> x then k else k - 1)"
    by (simp add: floor_log2_def q k_def Let_def)
  show "2 powi floor_log2 x \<le> x" using lo by (simp add: f)
  show "x < 2 powi (floor_log2 x + 1)" using up by (simp add: f)
qed

lemma round_half_even_near: "\<bar>of_int (round_half_even y) - y\<bar> \<le> 1 / 2"
proof -
  define n where "n = \<lfloor>y\<rfloor>"
  have f: "of_int n \<le> y" "y < of_int n + 1" unfolding n_def by linarith+
  consider "y - of_int n < 1 / 2" | "1 / 2 < y - of_int n" | "y - of_int n = 1 / 2" by linarith
  then show ?thesis
  proof cases
    case 1
    then have "round_half_even y = n" by (simp add: round_half_even_def Let_def n_def)
    with f 1 show ?thesis by simp
  next
    case 2
    then have "round_half_even y = n + 1" by (simp add: round_half_even_def Let_def n_def)
    with f 2 show ?thesis by simp
  next
    case 3
    then have "round_half_even y = n \<or> round_half_even y = n + 1"
      by (simp add: round_half_even_def Let_def n_def)
    with f 3 show ?thesis by auto
  qed
qed

lemma round_half_even_unique:
  assumes "\<bar>of_int m - y\<bar> < 1 / 2"
  shows "round_half_even y = m"
proof (cases "of_int m \<le> y")
  case True
  with assms have "\<lfloor>y\<rfloor> = m" by (intro floor_unique) (simp_all add: abs_less_iff)
  moreover from True assms have "y - of_int m < 1 / 2" by (simp add: abs_less_iff)
  ultimately show ?thesis by (simp add: round_half_even_def Let_def)
next
  case False
  with assms have "\<lfloor>y\<rfloor> = m - 1" by (intro floor_unique) (simp_all add: abs_less_iff)
  moreover from False assms have "1 / 2 < y - of_int (m - 1)" by (simp add: abs_less_iff)
  ultimately show ?thesis by (simp add: round_half_even_def Let_def)
qed

lemma round_half_even_int [simp]: "round_half_even (of_int m) = m"
  by (rule round_half_even_unique) simp

lemma powi2_pos [simp]: "(0 :: rat) < 2 powi n"
  by simp

lemma powi2_le_imp_le:
  assumes "(2 :: rat) powi m \<le> x" and "x < 2 powi n"
  shows "m < n"
proof (rule ccontr)
  assume "\<not> m < n"
  then have "(2 :: rat) powi n \<le> 2 powi m" by (intro power_int_increasing) simp_all
  with assms show False by simp
qed

lemma fl_0 [simp]: "fl 0 = 0"
  by (simp add: fl_def)

lemma fl_minus: "fl (- x) = - fl x"
  by (simp add: fl_def Let_def)

lemma fl_pos:
  assumes "0 < x"
  shows "fl x = of_int (round_half_even (x / 2 powi max (floor_log2 x - 52) (- 1074)))
                * 2 powi max (floor_log2 x - 52) (- 1074)"
  using assms by (simp add: fl_def Let_def)

lemma fl_error_pos:
  assumes "0 < x"
  shows "\<bar>fl x - x\<bar> \<le> 2 powi (- 53) * x + 2 powi (- 1075)"
proof -
  define q where "q = max (floor_log2 x - 52) (- 1074)"
  define m where "m = round_half_even (x / 2 powi q)"
  have f: "fl x = of_int m * 2 powi q" using fl_pos [OF assms] by (simp add: q_def m_def)
  have "\<bar>of_int m - x / 2 powi q\<bar> \<le> 1 / 2" unfolding m_def by (rule round_half_even_near)
  then have "\<bar>of_int m - x / 2 powi q\<bar> * 2 powi q \<le> 1 / 2 * 2 powi q"
    by (intro mult_right_mono) simp_all
  also have "\<bar>of_int m - x / 2 powi q\<bar> * 2 powi q = \<bar>of_int m * 2 powi q - x\<bar>"
  proof -
    have "\<bar>of_int m - x / 2 powi q\<bar> * 2 powi q = \<bar>(of_int m - x / 2 powi q) * 2 powi q\<bar>"
      by (simp add: abs_mult)
    also have "(of_int m - x / 2 powi q) * 2 powi q = of_int m * 2 powi q - x"
      by (simp add: algebra_simps)
    finally show ?thesis .
  qed
  also have "1 / 2 * (2 :: rat) powi q = 2 powi (q - 1)"
    by (simp add: power_int_diff)
  finally have e: "\<bar>fl x - x\<bar> \<le> 2 powi (q - 1)" by (simp add: f)
  have "(2 :: rat) powi (q - 1) \<le> 2 powi (- 53) * x + 2 powi (- 1075)"
  proof (cases "floor_log2 x - 52 \<le> - 1074")
    case True
    then have "q - 1 = - 1075" by (simp add: q_def)
    then have "(2 :: rat) powi (q - 1) = 2 powi (- 1075)" by (simp only:)
    moreover have "0 \<le> 2 powi (- 53) * x" using assms by (intro mult_nonneg_nonneg) simp_all
    ultimately show ?thesis by (simp only: add_increasing order_refl)
  next
    case False
    then have "q - 1 = - 53 + floor_log2 x" by (simp add: q_def)
    then have "(2 :: rat) powi (q - 1) = 2 powi (- 53 + floor_log2 x)" by (simp only:)
    also have "\<dots> = 2 powi (- 53) * 2 powi floor_log2 x"
      by (rule power_int_add) simp
    also have "\<dots> \<le> 2 powi (- 53) * x"
      using floor_log2_bounds(1) [OF assms] by (intro mult_left_mono) simp_all
    finally show ?thesis by (rule add_increasing2 [rotated]) simp
  qed
  with e show ?thesis by linarith
qed

lemma fl_error: "\<bar>fl x - x\<bar> \<le> 2 powi (- 53) * \<bar>x\<bar> + 2 powi (- 1075)"
proof -
  consider "x = 0" | "0 < x" | "x < 0" by linarith
  then show ?thesis
  proof cases
    case 1
    then show ?thesis by simp
  next
    case 2
    then show ?thesis using fl_error_pos [of x] by simp
  next
    case 3
    then have "0 < - x" by simp
    from fl_error_pos [OF this] have "\<bar>- fl x + x\<bar> \<le> 2 powi (- 53) * (- x) + 2 powi (- 1075)"
      by (simp add: fl_minus)
    moreover have "\<bar>- fl x + x\<bar> = \<bar>fl x - x\<bar>" by (simp add: abs_minus_commute)
    ultimately show ?thesis using 3 by simp
  qed
qed

lemma fl_eqI:
  assumes "2 ^ 52 * 2 powi q \<le> x" and "x < 2 ^ 53 * 2 powi q" and "- 1074 \<le> q"
    and "\<bar>of_int m - x / 2 powi q\<bar> < 1 / 2"
  shows "fl x = of_int m * 2 powi q"
proof -
  have pos: "0 < x"
  proof -
    have "(0 :: rat) < 2 ^ 52 * 2 powi q" by simp
    with assms(1) show ?thesis by linarith
  qed
  have lo: "2 powi (q + 52) \<le> x" using assms(1) by (simp add: power_int_add mult.commute)
  have hi: "x < 2 powi (q + 53)" using assms(2) by (simp add: power_int_add mult.commute)
  have "q + 52 < floor_log2 x + 1"
    using powi2_le_imp_le [OF lo floor_log2_bounds(2) [OF pos]] .
  moreover have "floor_log2 x < q + 53"
    using powi2_le_imp_le [OF floor_log2_bounds(1) [OF pos] hi] .
  ultimately have "floor_log2 x - 52 = q" by simp
  with assms(3) have "max (floor_log2 x - 52) (- 1074) = q" by simp
  then show ?thesis
    using fl_pos [OF pos] round_half_even_unique [OF assms(4)] by simp
qed

lemma fl_int:
  assumes "\<bar>k\<bar> \<le> 2 ^ 53"
  shows "fl (of_int k) = of_int k"
proof -
  have nat_case: "fl (of_int j) = of_int j" if j: "0 < j" "j \<le> 2 ^ 53" for j :: int
  proof -
    define x :: rat where "x = of_int j"
    have pos: "0 < x" using j by (simp add: x_def)
    define e where "e = floor_log2 x"
    have "(2 :: rat) powi 0 \<le> x" using j by (simp add: x_def)
    from powi2_le_imp_le [OF this floor_log2_bounds(2) [OF pos]] have e0: "0 \<le> e" by (simp add: e_def)
    have x53: "x \<le> 2 ^ 53"
    proof -
      from j have "(of_int j :: rat) \<le> of_int (2 ^ 53)" by (simp only: of_int_le_iff)
      then show ?thesis by (simp add: x_def)
    qed
    have e53: "e \<le> 53"
    proof -
      have "x < 2 powi 54" using x53 by simp
      from powi2_le_imp_le [OF floor_log2_bounds(1) [OF pos] this] show ?thesis by (simp add: e_def)
    qed
    have q: "max (e - 52) (- 1074) = e - 52" using e0 by simp
    have "\<exists>n. x / 2 powi (e - 52) = of_int n"
    proof (cases "e \<le> 52")
      case True
      then have "(2 :: rat) powi (e - 52) = inverse (2 ^ nat (52 - e))"
        by (simp add: power_int_def inverse_eq_divide power_one_over)
      then have "x / 2 powi (e - 52) = of_int (j * 2 ^ nat (52 - e))"
        by (simp add: x_def divide_inverse)
      then show ?thesis by blast
    next
      case False
      with e53 have e: "e = 53" by simp
      have "(2 :: rat) ^ 53 \<le> x" using floor_log2_bounds(1) [OF pos] by (simp add: e_def [symmetric] e)
      with x53 have "x = 2 ^ 53" by simp
      then have "x / 2 powi (e - 52) = of_int (2 ^ 52)" by (simp add: e)
      then show ?thesis by blast
    qed
    then obtain n where n: "x / 2 powi (e - 52) = of_int n" by blast
    then have "of_int n * 2 powi (e - 52) = x" by (simp add: field_simps)
    then show ?thesis
      using fl_pos [OF pos] by (simp add: e_def [symmetric] q n x_def [symmetric])
  qed
  consider "k = 0" | "0 < k" | "k < 0" by linarith
  then show ?thesis
  proof cases
    case 1
    then show ?thesis by simp
  next
    case 2
    with assms show ?thesis by (intro nat_case) simp_all
  next
    case 3
    with assms have "fl (of_int (- k)) = of_int (- k)" by (intro nat_case) simp_all
    then show ?thesis by (simp add: fl_minus)
  qed
qed

lemma roundoff_nonneg: "0 \<le> unit_roundoff" "0 \<le> underflow_unit"
  by (simp_all add: unit_roundoff_def underflow_unit_def)

lemma fl_error_within:
  assumes "\<bar>y\<bar> \<le> M"
  shows "\<bar>fl y - y\<bar> \<le> unit_roundoff * M + underflow_unit"
proof -
  have "\<bar>fl y - y\<bar> \<le> unit_roundoff * \<bar>y\<bar> + underflow_unit"
    unfolding unit_roundoff_def underflow_unit_def by (rule fl_error)
  moreover have "unit_roundoff * \<bar>y\<bar> \<le> unit_roundoff * M"
    using assms roundoff_nonneg(1) by (rule mult_left_mono)
  ultimately show ?thesis by linarith
qed

lemma totals_error:
  "totals_within M s as \<Longrightarrow>
   \<bar>foldl (\<lambda>t a. fl (t + a)) s as - (s + sum_list as)\<bar>
     \<le> of_nat (length as) * (unit_roundoff * M + underflow_unit)"
proof (induction as arbitrary: s)
  case Nil
  then show ?case by simp
next
  case (Cons a as)
  let ?e = "unit_roundoff * M + underflow_unit"
  from Cons.prems have b: "\<bar>s + a\<bar> \<le> M" and w: "totals_within M (fl (s + a)) as" by simp_all
  have 1: "\<bar>foldl (\<lambda>t a. fl (t + a)) (fl (s + a)) as - (fl (s + a) + sum_list as)\<bar>
      \<le> of_nat (length as) * ?e"
    using Cons.IH [OF w] .
  have 2: "\<bar>fl (s + a) - (s + a)\<bar> \<le> ?e" using fl_error_within [OF b] .
  have "\<bar>foldl (\<lambda>t a. fl (t + a)) (fl (s + a)) as - (s + a + sum_list as)\<bar>
      \<le> of_nat (length as) * ?e + ?e"
    using 1 2 by linarith
  then show ?case by (simp add: algebra_simps)
qed

lemma totalActualProgress_foldl:
  "totalActualProgress xs = foldl (\<lambda>t a. fl (t + a)) 0 (map actualProgressOf xs)"
  by (simp add: totalActualProgress_def foldl_map)

lemma actualProgressOf_unambiguous:
  assumes "unambiguous x"
  shows "actualProgressOf x = fl (item_progress x)"
  using assms
  by (auto simp add: unambiguous_def actualProgressOf_def item_progress_def num_or_zero_def
      js_or_num_def split: option.splits)

lemma reading_error:
  assumes "\<forall>x \<in> set xs. unambiguous x" and "\<forall>x \<in> set xs. \<bar>item_progress x\<bar> \<le> M"
  shows "\<bar>sum_list (map actualProgressOf xs) - sum_list (map item_progress xs)\<bar>
     \<le> of_nat (length xs) * (unit_roundoff * M + underflow_unit)"
  using assms
proof (induction xs)
  case Nil
  then show ?case by simp
next
  case (Cons x xs)
  let ?e = "unit_roundoff * M + underflow_unit"
  from Cons.prems have u: "unambiguous x" and b: "\<bar>item_progress x\<bar> \<le> M" by simp_all
  have 1: "\<bar>actualProgressOf x - item_progress x\<bar> \<le> ?e"
    using fl_error_within [OF b] by (simp add: actualProgressOf_unambiguous [OF u])
  have 2: "\<bar>sum_list (map actualProgressOf xs) - sum_list (map item_progress xs)\<bar>
      \<le> of_nat (length xs) * ?e"
    using Cons by simp
  have "\<bar>(actualProgressOf x + sum_list (map actualProgressOf xs))
          - (item_progress x + sum_list (map item_progress xs))\<bar> \<le> ?e + of_nat (length xs) * ?e"
    using 1 2 by linarith
  then show ?case by (simp add: algebra_simps)
qed

lemma computed_mean_error:
  assumes "xs \<noteq> []" and "\<forall>x \<in> set xs. unambiguous x"
    and bounded: "\<forall>x \<in> set xs. \<bar>item_progress x\<bar> \<le> M"
    and tot: "totals_within M 0 (map actualProgressOf xs)"
    and "\<bar>totalActualProgress xs / of_nat (length xs)\<bar> \<le> M"
  shows "\<bar>fl (totalActualProgress xs / of_nat (length xs)) - mean_progress xs\<bar>
     \<le> 3 * (unit_roundoff * M + underflow_unit)"
proof -
  define e where "e = unit_roundoff * M + underflow_unit"
  define n :: rat where "n = of_nat (length xs)"
  define S where "S = totalActualProgress xs"
  define A where "A = sum_list (map actualProgressOf xs)"
  define V where "V = sum_list (map item_progress xs)"
  have n: "0 < n" using assms(1) by (simp add: n_def)
  from assms(5) have quo: "\<bar>S / n\<bar> \<le> M" by (simp add: S_def n_def)
  have 1: "\<bar>fl (S / n) - S / n\<bar> \<le> e" using fl_error_within [OF quo] by (simp add: e_def)
  have 2: "\<bar>S - A\<bar> \<le> n * e"
    using totals_error [OF tot] by (simp add: totalActualProgress_foldl S_def A_def n_def e_def)
  have 3: "\<bar>A - V\<bar> \<le> n * e"
    using reading_error [OF assms(2) bounded] by (simp add: A_def V_def n_def e_def)
  have "\<bar>S - V\<bar> \<le> n * e + n * e" using 2 3 by linarith
  then have "\<bar>S - V\<bar> \<le> (2 * e) * n" by (simp add: algebra_simps)
  then have "\<bar>S - V\<bar> / n \<le> 2 * e" using n by (simp add: pos_divide_le_eq)
  moreover have "\<bar>S / n - V / n\<bar> = \<bar>S - V\<bar> / n"
    using n by (simp add: diff_divide_distrib [symmetric])
  ultimately have 4: "\<bar>S / n - V / n\<bar> \<le> 2 * e" by simp
  from 1 4 have "\<bar>fl (S / n) - V / n\<bar> \<le> 3 * e" by linarith
  then show ?thesis by (simp add: mean_progress_def S_def V_def n_def e_def)
qed

lemma sent_magnitude_nonneg: "0 \<le> sent_magnitude x"
  by (simp add: sent_magnitude_def le_max_iff_disj split: option.split)

lemma sum_sent_magnitude_nonneg: "0 \<le> sum_list (map sent_magnitude xs)"
  by (induction xs) (simp_all add: sent_magnitude_nonneg)

lemma sent_magnitude_le_sum: "x \<in> set xs \<Longrightarrow> sent_magnitude x \<le> sum_list (map sent_magnitude xs)"
proof (induction xs)
  case Nil
  then show ?case by simp
next
  case (Cons y ys)
  then show ?case
    using sent_magnitude_nonneg [of y] sum_sent_magnitude_nonneg [of ys] by auto
qed

lemma fl_abs_within:
  assumes "\<bar>y\<bar> \<le> M"
  shows "\<bar>fl y\<bar> \<le> \<bar>y\<bar> + (unit_roundoff * M + underflow_unit)"
  using fl_error_within [OF assms] by linarith

lemma reading_within:
  assumes "sent_magnitude x \<le> M" and "0 \<le> unit_roundoff * M + underflow_unit"
  shows "\<bar>actualProgressOf x\<bar> \<le> sent_magnitude x + (unit_roundoff * M + underflow_unit)"
proof -
  define e where "e = unit_roundoff * M + underflow_unit"
  have r: "\<bar>fl v\<bar> \<le> sent_magnitude x + e" if "\<bar>v\<bar> \<le> sent_magnitude x" for v
  proof -
    from that assms(1) have "\<bar>v\<bar> \<le> M" by linarith
    from fl_abs_within [OF this] that show ?thesis by (simp add: e_def)
  qed
  have z: "0 \<le> sent_magnitude x + e"
    using sent_magnitude_nonneg [of x] assms(2) by (simp add: e_def)
  have a: "\<bar>v\<bar> \<le> sent_magnitude x" if "in_actual_progress x = Some v" for v
    using that by (simp add: sent_magnitude_def)
  have b: "\<bar>v\<bar> \<le> sent_magnitude x" if "in_actualProgress x = Some v" for v
    using that by (simp add: sent_magnitude_def)
  have "\<bar>actualProgressOf x\<bar> \<le> sent_magnitude x + e"
    using z r [OF a] r [OF b]
    by (auto simp add: actualProgressOf_def num_or_zero_def js_or_num_def split: option.splits)
  then show ?thesis by (simp add: e_def)
qed

lemma totals_within_sufficient:
  assumes "0 \<le> e" and "e = unit_roundoff * M + underflow_unit"
  shows "\<bar>s\<bar> + sum_list (map abs as) + of_nat (length as) * e \<le> M \<Longrightarrow>
    totals_within M s as \<and>
    \<bar>foldl (\<lambda>t a. fl (t + a)) s as\<bar> \<le> \<bar>s\<bar> + sum_list (map abs as) + of_nat (length as) * e"
proof (induction as arbitrary: s)
  case Nil
  then show ?case by simp
next
  case (Cons a as)
  have "0 \<le> sum_list (map abs as)" by (rule sum_list_nonneg) auto
  moreover have "0 \<le> of_nat (length as) * e" using assms(1) by simp
  ultimately have rest: "0 \<le> sum_list (map abs as) + of_nat (length as) * e" by simp
  from Cons.prems have room: "\<bar>s\<bar> + \<bar>a\<bar> + sum_list (map abs as) + of_nat (length as) * e + e \<le> M"
    by (simp add: algebra_simps)
  with rest assms(1) have b: "\<bar>s + a\<bar> \<le> M" by linarith
  have f: "\<bar>fl (s + a)\<bar> \<le> \<bar>s\<bar> + \<bar>a\<bar> + e"
  proof -
    have "\<bar>fl (s + a)\<bar> \<le> \<bar>s + a\<bar> + e" using fl_abs_within [OF b] by (simp add: assms(2))
    then show ?thesis by linarith
  qed
  then have "\<bar>fl (s + a)\<bar> + sum_list (map abs as) + of_nat (length as) * e \<le> M"
    using room by linarith
  from Cons.IH [OF this] have w: "totals_within M (fl (s + a)) as"
    and t: "\<bar>foldl (\<lambda>t a. fl (t + a)) (fl (s + a)) as\<bar>
       \<le> \<bar>fl (s + a)\<bar> + sum_list (map abs as) + of_nat (length as) * e"
    by simp_all
  from t f have "\<bar>foldl (\<lambda>t a. fl (t + a)) (fl (s + a)) as\<bar>
      \<le> \<bar>s\<bar> + \<bar>a\<bar> + sum_list (map abs as) + of_nat (length as) * e + e"
    by linarith
  with b w show ?case by (simp add: algebra_simps)
qed

lemma item_progress_magnitude: "\<bar>item_progress x\<bar> \<le> sent_magnitude x"
  by (simp add: item_progress_def sent_magnitude_def le_max_iff_disj split: option.split)

lemma progress_bounded_totals:
  assumes "progress_bounded M xs"
  shows "\<forall>x \<in> set xs. \<bar>item_progress x\<bar> \<le> M"
    and "totals_within M 0 (map actualProgressOf xs)"
    and "\<bar>totalActualProgress xs / of_nat (length xs)\<bar> \<le> M"
proof -
  define e where "e = unit_roundoff * M + underflow_unit"
  define n :: rat where "n = of_nat (length xs)"
  from assms have M: "0 \<le> M" and room: "sum_list (map sent_magnitude xs) + 2 * n * e \<le> M"
    by (simp_all add: progress_bounded_def e_def n_def)
  have e: "0 \<le> e" using M roundoff_nonneg by (simp add: e_def)
  have n0: "0 \<le> n" by (simp add: n_def)
  have ne: "0 \<le> n * e" using e n0 by simp
  have each: "sent_magnitude x \<le> M" if "x \<in> set xs" for x
    using sent_magnitude_le_sum [OF that] room ne by linarith
  show "\<forall>x \<in> set xs. \<bar>item_progress x\<bar> \<le> M"
  proof
    fix x assume "x \<in> set xs"
    from each [OF this] item_progress_magnitude [of x] show "\<bar>item_progress x\<bar> \<le> M" by linarith
  qed
  have reads: "sum_list (map abs (map actualProgressOf ys)) \<le> sum_list (map sent_magnitude ys)
      + of_nat (length ys) * e" if "set ys \<subseteq> set xs" for ys
    using that
  proof (induction ys)
    case Nil
    then show ?case by simp
  next
    case (Cons y ys)
    then have "y \<in> set xs" by simp
    from reading_within [OF each [OF this]] e
    have "\<bar>actualProgressOf y\<bar> \<le> sent_magnitude y + e" by (simp add: e_def)
    moreover from Cons have "sum_list (map abs (map actualProgressOf ys))
        \<le> sum_list (map sent_magnitude ys) + of_nat (length ys) * e"
      by simp
    ultimately show ?case by (simp add: algebra_simps)
  qed
  have r: "sum_list (map abs (map actualProgressOf xs)) \<le> sum_list (map sent_magnitude xs) + n * e"
    using reads [of xs] by (simp add: n_def)
  with room have "\<bar>0\<bar> + sum_list (map abs (map actualProgressOf xs))
      + of_nat (length (map actualProgressOf xs)) * e \<le> M"
    by (simp add: n_def algebra_simps)
  from totals_within_sufficient [OF e e_def this]
  have tot: "totals_within M 0 (map actualProgressOf xs)"
    and S: "\<bar>totalActualProgress xs\<bar> \<le> sum_list (map abs (map actualProgressOf xs)) + n * e"
    by (simp_all add: totalActualProgress_foldl n_def)
  from tot show "totals_within M 0 (map actualProgressOf xs)" .
  from S r room have SM: "\<bar>totalActualProgress xs\<bar> \<le> M" by (simp add: algebra_simps)
  have "\<bar>totalActualProgress xs / n\<bar> \<le> M"
  proof (cases "xs = []")
    case True
    then show ?thesis using M by (simp add: n_def)
  next
    case False
    then have "1 \<le> n" by (cases xs) (simp_all add: n_def)
    then have "\<bar>totalActualProgress xs\<bar> / n \<le> \<bar>totalActualProgress xs\<bar>"
      by (simp add: divide_le_eq mult_left_mono [of 1 n "\<bar>totalActualProgress xs\<bar>", simplified])
    moreover have "\<bar>totalActualProgress xs / n\<bar> = \<bar>totalActualProgress xs\<bar> / n"
      using n0 by simp
    ultimately show ?thesis using SM by linarith
  qed
  then show "\<bar>totalActualProgress xs / of_nat (length xs)\<bar> \<le> M" by (simp add: n_def)
qed

lemma fl_small_int [simp]:
  "fl 2 = 2" "fl 20 = 20" "fl 35 = 35" "fl 40 = 40" "fl 50 = 50" "fl 60 = 60" "fl 70 = 70" "fl 100 = 100"
  using fl_int [of 2] fl_int [of 20] fl_int [of 35] fl_int [of 40] fl_int [of 50] fl_int [of 60]
    fl_int [of 70] fl_int [of 100]
  by simp_all

lemma actualProgressOf_work_item:
  "actualProgressOf (work_item p) = fl p"
  by (simp add: actualProgressOf_def work_item_def num_or_zero_def js_or_num_def)

lemma totalActualProgress_two:
  "totalActualProgress [x, y] = fl (fl (actualProgressOf x) + actualProgressOf y)"
  by (simp add: totalActualProgress_def)

lemma fl_one_hundredth: "fl (1 / 100) = 5764607523034235 / 576460752303423488"
  using fl_eqI [of "- 59" "1 / 100" 5764607523034235] by simp

lemma fl_one_hundredth_again:
  "fl (5764607523034235 / 576460752303423488) = 5764607523034235 / 576460752303423488"
  using fl_eqI [of "- 59" "5764607523034235 / 576460752303423488" 5764607523034235] by simp

lemma fl_two_and_one_hundredth:
  "fl (5764607523034235 / 576460752303423488 + 2) = 1131529406376837 / 562949953421312"
  using fl_eqI [of "- 51" "5764607523034235 / 576460752303423488 + 2" 4526117625507348] by simp

lemma fl_half_of_that:
  "fl (1131529406376837 / 562949953421312 / 2) = 1131529406376837 / 1125899906842624"
  using fl_eqI [of "- 52" "1131529406376837 / 562949953421312 / 2" 4526117625507348] by simp

lemma fl_quarter: "fl (1 / 4) = 1 / 4" "fl (1 / 8) = 1 / 8"
  using fl_eqI [of "- 54" "1 / 4" "2 ^ 52"] fl_eqI [of "- 55" "1 / 8" "2 ^ 52"] by simp_all

lemma tie_down:
  "calculateTotalProgress (Some [work_item (1 / 100), work_item 2]) = Inr ''1.00''"
proof -
  have "totalActualProgress [work_item (1 / 100), work_item 2] = 1131529406376837 / 562949953421312"
    by (simp only: totalActualProgress_two actualProgressOf_work_item fl_one_hundredth
        fl_one_hundredth_again fl_small_int fl_two_and_one_hundredth)
  then have "fl (totalActualProgress [work_item (1 / 100), work_item 2] / 2)
      = 1131529406376837 / 1125899906842624"
    by (simp only: fl_half_of_that)
  moreover have "calculateTotalProgress (Some [work_item (1 / 100), work_item 2])
      = Inr (toFixed2 (fl (totalActualProgress [work_item (1 / 100), work_item 2] / 2)))"
    by (simp add: calculateTotalProgress_def)
  ultimately have "calculateTotalProgress (Some [work_item (1 / 100), work_item 2])
      = Inr (toFixed2 (1131529406376837 / 1125899906842624))"
    by (simp only:)
  moreover have "round2 (1131529406376837 / 1125899906842624) = 100"
  proof -
    have "\<lfloor>\<bar>1131529406376837 / 1125899906842624 :: rat\<bar> * 100 + 1 / 2\<rfloor> = 100"
      by (rule floor_unique) simp_all
    then show ?thesis by (simp add: round2_def)
  qed
  moreover have "fixed2 False 100 = ''1.00''"
    by (simp add: fixed2_def string_of_nat.simps digit_def padStart_def)
  ultimately show ?thesis by (simp add: toFixed2_def)
qed

lemma tie_up:
  "calculateTotalProgress (Some [work_item (1 / 4), work_item 0]) = Inr ''0.13''"
proof -
  have "totalActualProgress [work_item (1 / 4), work_item 0] = 1 / 4"
    by (simp add: totalActualProgress_two actualProgressOf_work_item fl_quarter)
  moreover have "fl (1 / 4 / 2) = 1 / 8"
    using fl_quarter(2) by simp
  ultimately have "fl (totalActualProgress [work_item (1 / 4), work_item 0] / 2) = 1 / 8"
    by (simp only:)
  moreover have "calculateTotalProgress (Some [work_item (1 / 4), work_item 0])
      = Inr (toFixed2 (fl (totalActualProgress [work_item (1 / 4), work_item 0] / 2)))"
    by (simp add: calculateTotalProgress_def)
  ultimately have "calculateTotalProgress (Some [work_item (1 / 4), work_item 0])
      = Inr (toFixed2 (1 / 8))"
    by (simp only:)
  moreover have "round2 (1 / 8) = 13"
  proof -
    have "\<lfloor>\<bar>1 / 8 :: rat\<bar> * 100 + 1 / 2\<rfloor> = 13"
      by (rule floor_unique) simp_all
    then show ?thesis by (simp add: round2_def)
  qed
  moreover have "fixed2 False 13 = ''0.13''"
    by (simp add: fixed2_def string_of_nat.simps digit_def padStart_def)
  ultimately show ?thesis by (simp add: toFixed2_def)
qed

lemma mean_of_two:
  "mean_progress [work_item x, work_item y] = (x + y) / 2"
  by (simp add: mean_progress_def item_progress_def work_item_def)

lemma exact_mean_up: "toFixed2 (201 / 200) = ''1.01''"
proof -
  have "\<lfloor>\<bar>201 / 200 :: rat\<bar> * 100 + 1 / 2\<rfloor> = 101"
    by (rule floor_unique) simp_all
  then have "round2 (201 / 200) = 101" by (simp add: round2_def)
  moreover have "fixed2 False 101 = ''1.01''"
    by (simp add: fixed2_def string_of_nat.simps digit_def padStart_def)
  ultimately show ?thesis by (simp add: toFixed2_def)
qed

lemma whole_progress:
  assumes "fl x = x" and "fl y = y" and "fl (x + y) = x + y" and "fl ((x + y) / 2) = of_nat k"
  shows "calculateTotalProgress (Some [work_item x, work_item y]) = Inr (toFixed2 (of_nat k))"
  using assms
  by (simp add: calculateTotalProgress_def totalActualProgress_two actualProgressOf_work_item)

lemma calculateTotalProgress_nonempty:
  "xs \<noteq> [] \<Longrightarrow> calculateTotalProgress (Some xs)
     = Inr (toFixed2 (fl (totalActualProgress xs / of_nat (length xs))))"
  by (cases xs) (simp_all add: calculateTotalProgress_def)

text \<open>
  Claim C3. \<open>_calculateTotalProgress\<close> is the number 0 for a missing and for an empty
  list. For a non-empty list of unambiguous items whose numbers are bounded by \<open>M\<close>,
  the value stored from its result is a whole number of hundredths that differs from
  the arithmetic mean of the numbers sent by at most 0.005 and three roundings to a
  double (of the reading, of the additions and of the division): up to these it is
  the mean rounded to two decimals. Actual progress 40 and 60 give the string 50.00. A
  \<open>createWithWorkItems\<close> call that returns has stored the document row with the total
  progress computed from the work items passed, and an \<open>updateWithWorkItems\<close> call
  that returns after being passed a list of work items has stored the total progress
  computed from that list.
\<close>

theorem C3_total_progress:
  "calculateTotalProgress None = Inl 0 \<and> calculateTotalProgress (Some []) = Inl 0 \<and>
   (xs \<noteq> [] \<and> (\<forall>x \<in> set xs. unambiguous x) \<and> progress_bounded M xs \<longrightarrow>
      \<bar>to_numeric (calculateTotalProgress (Some xs)) - mean_progress xs\<bar>
        \<le> 1 / 200 + 3 * (unit_roundoff * M + underflow_unit) \<and>
      (\<exists>n::int. to_numeric (calculateTotalProgress (Some xs)) = of_int n / 100)) \<and>
   calculateTotalProgress (Some [work_item 40, work_item 60]) = Inr ''50.00'' \<and>
   (fst (createWithWorkItems F prow ws s) = Inr res \<and>
    (case ws of Some zs \<Rightarrow> progress_bounded M zs | None \<Rightarrow> True) \<longrightarrow>
      map total_progress (filter (\<lambda>r. bapp_id r = bapp_id prow)
          (bapp (snd (createWithWorkItems F prow ws s))))
        = [to_numeric (calculateTotalProgress ws)]) \<and>
   (fst (updateWithWorkItems F i p (Some ys) s) = Inr res' \<and>
    filter (\<lambda>r. bapp_id r = i) (bapp s) = [b] \<and> progress_bounded M ys \<longrightarrow>
      map total_progress (filter (\<lambda>r. bapp_id r = i)
          (bapp (snd (updateWithWorkItems F i p (Some ys) s))))
        = [to_numeric (calculateTotalProgress (Some ys))])"
proof -
  have none: "calculateTotalProgress None = Inl 0" "calculateTotalProgress (Some []) = Inl 0"
    by (simp_all add: calculateTotalProgress_def)
  have mean: "\<bar>to_numeric (calculateTotalProgress (Some xs)) - mean_progress xs\<bar>
        \<le> 1 / 200 + 3 * (unit_roundoff * M + underflow_unit) \<and>
      (\<exists>n::int. to_numeric (calculateTotalProgress (Some xs)) = of_int n / 100)"
    if a: "xs \<noteq> []" "\<forall>x \<in> set xs. unambiguous x" "progress_bounded M xs"
  proof -
    define d where "d = fl (totalActualProgress xs / of_nat (length xs))"
    define e where "e = unit_roundoff * M + underflow_unit"
    have c: "calculateTotalProgress (Some xs) = Inr (toFixed2 d)"
      using calculateTotalProgress_nonempty [OF a(1)] by (simp add: d_def)
    have 1: "\<bar>d - mean_progress xs\<bar> \<le> 3 * e"
      using computed_mean_error [OF a(1,2) progress_bounded_totals [OF a(3)]]
      by (simp add: d_def e_def)
    have 2: "\<bar>to_numeric (Inr (toFixed2 d)) - d\<bar> \<le> 1 / 200"
      by (rule stored_progress_near)
    from 1 2 have "\<bar>to_numeric (Inr (toFixed2 d)) - mean_progress xs\<bar> \<le> 1 / 200 + 3 * e"
      by linarith
    then show ?thesis
      using stored_progress_near(2) [of d] by (simp add: c e_def)
  qed
  have ex: "calculateTotalProgress (Some [work_item 40, work_item 60]) = Inr ''50.00''"
    using whole_progress [of 40 60 50]
    by (simp add: toFixed2_def round2_of_nat fixed2_5000 del: of_nat_numeral)
  have cr: "map total_progress (filter (\<lambda>r. bapp_id r = bapp_id prow)
          (bapp (snd (createWithWorkItems F prow ws s))))
        = [to_numeric (calculateTotalProgress ws)]"
    if "fst (createWithWorkItems F prow ws s) = Inr res"
    by (simp add: createWithWorkItems_row [OF that])
  have up: "map total_progress (filter (\<lambda>r. bapp_id r = i)
          (bapp (snd (updateWithWorkItems F i p (Some ys) s))))
        = [to_numeric (calculateTotalProgress (Some ys))]"
    if "fst (updateWithWorkItems F i p (Some ys) s) = Inr res'"
      and "filter (\<lambda>r. bapp_id r = i) (bapp s) = [b]"
    by (simp add: updateWithWorkItems_row [OF that] apply_bapp_patch_def bapp_updateData_with_def)
  from none mean ex cr up show ?thesis by blast
qed

theorem C3_total_progress_witness:
  "progress_bounded 1000 [work_item 20, work_item 50] \<and>
   mean_progress [work_item 20, work_item 50] = 35 \<and>
   \<bar>to_numeric (calculateTotalProgress (Some [work_item 20, work_item 50])) - 35\<bar>
     \<le> 1 / 200 + 3 * (unit_roundoff * 1000 + underflow_unit) \<and>
   calculateTotalProgress (Some [work_item 20, work_item 50]) = Inr ''35.00'' \<and>
   map total_progress (filter (\<lambda>r. bapp_id r = ''p2'')
     (bapp (snd (createWithWorkItems no_faults ((bapp_doc Draft)\<lparr>bapp_id := ''p2''\<rparr>)
        (Some [work_item 20, work_item 50]) (store_with Draft))))) = [35] \<and>
   map total_progress (filter (\<lambda>r. bapp_id r = ''p1'')
     (bapp (snd (updateWithWorkItems no_faults ''p1'' empty_bapp_patch
        (Some [work_item 20, work_item 50]) (store_with Draft))))) = [35]"
proof -
  let ?xs = "[work_item 20, work_item 50]"
  let ?row = "(bapp_doc Draft)\<lparr>bapp_id := ''p2''\<rparr>"
  let ?c = "createWithWorkItems no_faults ?row (Some ?xs) (store_with Draft)"
  let ?u = "updateWithWorkItems no_faults ''p1'' empty_bapp_patch (Some ?xs) (store_with Draft)"
  have m: "mean_progress ?xs = 35"
    by (simp add: mean_of_two)
  have g: "progress_bounded 1000 ?xs"
    by (simp add: progress_bounded_def sent_magnitude_def work_item_def unit_roundoff_def
        underflow_unit_def)
  have un: "\<forall>x \<in> set ?xs. unambiguous x"
    by (simp add: unambiguous_def work_item_def)
  have one: "filter (\<lambda>r. bapp_id r = ''p1'') (bapp (store_with Draft)) = [bapp_doc Draft]"
    by (simp add: store_with_def empty_store_def bapp_doc_def)
  have "\<exists>x. fst ?c = Inr x"
    by (simp add: createWithWorkItems_def Let_def bapp_create_def no_faults_def store_with_def
        empty_store_def bapp_doc_def bapp_insert_items_def issued_def
        bapp_findByIdWithRelations_def findById_def single_def)
  then obtain x where c: "fst ?c = Inr x" by blast
  obtain y where u: "fst ?u = Inr y"
    using updateWithWorkItems_ok [of no_faults "''p1''" "store_with Draft" "bapp_doc Draft"
        empty_bapp_patch "Some ?xs"] one
    by (auto simp: no_faults_def)
  have f: "toFixed2 (of_nat 35) = ''35.00''"
    by (simp add: toFixed2_def round2_of_nat fixed2_def string_of_nat.simps digit_def padStart_def
        del: of_nat_numeral)
  have e: "calculateTotalProgress (Some ?xs) = Inr ''35.00''"
    using whole_progress [of 20 50 35] f by simp
  have v: "to_numeric (Inr ''35.00'') = 35"
    using stored_of_nat [of 35] f by simp
  note T = C3_total_progress [of ?xs 1000 no_faults ?row "Some ?xs" "store_with Draft" x "''p1''"
      empty_bapp_patch ?xs y "bapp_doc Draft", unfolded m]
  from T g un have b: "\<bar>to_numeric (calculateTotalProgress (Some ?xs)) - 35\<bar>
     \<le> 1 / 200 + 3 * (unit_roundoff * 1000 + underflow_unit)"
    by blast
  from T c g have cr: "map total_progress (filter (\<lambda>r. bapp_id r = bapp_id ?row) (bapp (snd ?c)))
      = [to_numeric (calculateTotalProgress (Some ?xs))]"
    by simp
  from T u one g have up: "map total_progress (filter (\<lambda>r. bapp_id r = ''p1'') (bapp (snd ?u)))
      = [to_numeric (calculateTotalProgress (Some ?xs))]"
    by blast
  from g m b e cr up v show ?thesis
    by (simp add: bapp_doc_def)
qed

text \<open>
  At a mean with a 5 in the third decimal the roundings to a double decide the result.
  Actual progress 0.01 and 2 have the mean 1.005; the double computed lies just below
  it and the result is 1.00, where \<open>toFixed(2)\<close> of the exact mean prints 1.01. Actual
  progress 0.25 and 0 have the mean 0.125, which is a double, and the result is 0.13:
  no rule for ties gives both.
\<close>

theorem C3_tie_counterexample:
  "calculateTotalProgress (Some [work_item (1 / 100), work_item 2]) = Inr ''1.00'' \<and>
   mean_progress [work_item (1 / 100), work_item 2] = 201 / 200 \<and>
   toFixed2 (201 / 200) = ''1.01'' \<and>
   calculateTotalProgress (Some [work_item (1 / 4), work_item 0]) = Inr ''0.13'' \<and>
   mean_progress [work_item (1 / 4), work_item 0] = 1 / 8"
  by (simp add: tie_down tie_up mean_of_two exact_mean_up)

section \<open>Document numbers\<close>

lemma endOfMonth_gap: "endOfMonth year month0 = startOfMonth year (month0 + 1) - 1000"
  by (simp add: endOfMonth_def startOfMonth_def makeDate_def makeDay_def Let_def add.commute)

lemma generateBAPBNumber_counts:
  "F CountDocs = None \<Longrightarrow>
   generateBAPBNumber F year month0 s =
     Inr (format_number ''BAPB'' year month0
       (length (filter (\<lambda>r. startOfMonth year month0 \<le> bapb_created_at r \<and>
                            bapb_created_at r \<le> startOfMonth year (month0 + 1) - 1000) (bapb s))))"
  by (simp add: generateBAPBNumber_def count_created_between_def endOfMonth_gap filter_map comp_def)

lemma generateBAPPNumber_counts:
  "F CountDocs = None \<Longrightarrow>
   generateBAPPNumber F year month0 s =
     Inr (format_number ''BAPP'' year month0
       (length (filter (\<lambda>r. startOfMonth year month0 \<le> bapp_created_at r \<and>
                            bapp_created_at r \<le> startOfMonth year (month0 + 1) - 1000) (bapp s))))"
  by (simp add: generateBAPPNumber_def count_created_between_def endOfMonth_gap filter_map comp_def)

lemma march_2024:
  "startOfMonth 2024 2 = 1709251200000" "startOfMonth 2024 3 = 1711929600000"
  by (simp_all add: startOfMonth_def makeDate_def makeDay_def Let_def dayFromYear_def inLeapYear_def
      daysBeforeMonth_def)

lemma padStart_short:
  "padStart 2 c [a] = [c, a]" "padStart 4 c [a] = [c, c, c, a]"
  by (simp_all add: padStart_def numeral_eq_Suc)

lemma format_examples:
  "format_number ''BAPB'' 2024 2 0 = ''BAPB/2024/03/0001''"
  "format_number ''BAPP'' 2024 2 0 = ''BAPP/2024/03/0001''"
  "format_number ''BAPB'' 2024 2 6 = ''BAPB/2024/03/0007''"
  by (simp_all add: format_number_def string_of_nat.simps digit_def padStart_short)

text \<open>
  Claim C7. The count query of \<open>generateBAPBNumber\<close> and \<open>generateBAPPNumber\<close> ends at
  23:59:59.000 of the last day of the month. A document created half a second later,
  at 23:59:59.500 on 31 March 2024, lies in March 2024 and is not counted: with this one
  document in the table, the number generated in March 2024 has sequence 0001, the
  sequence of a month without documents, where the count of the month's documents
  plus one is 0002.
\<close>

theorem C7_last_second_not_counted:
  "in_month 2024 2 late_march \<and>
   generateBAPBNumber no_faults 2024 2 (bapb_created_at_times [late_march]) = Inr ''BAPB/2024/03/0001'' \<and>
   generateBAPPNumber no_faults 2024 2 (bapp_created_at_times [late_march]) = Inr ''BAPP/2024/03/0001''"
  by (simp add: generateBAPBNumber_counts generateBAPPNumber_counts no_faults_def in_month_def
      march_2024 late_march_def bapb_created_at_times_def bapp_created_at_times_def empty_store_def
      format_examples)

text \<open>Six documents created up to 23:59:59.000 of the last day are counted: sequence 0007.\<close>

lemma six_this_month:
  "generateBAPBNumber no_faults 2024 2
     (bapb_created_at_times [1709251200000, 1709600000000, 1709600000001, 1710000000000,
        1711000000000, 1711929599000]) = Inr ''BAPB/2024/03/0007''"
proof -
  have six: "Suc (Suc (Suc (Suc (Suc (Suc 0))))) = 6" by simp
  show ?thesis
    by (simp add: generateBAPBNumber_counts no_faults_def march_2024 bapb_created_at_times_def
        empty_store_def) (simp only: six format_examples)
qed

section \<open>Payment readiness\<close>

lemma checkPaymentReadiness_blockers:
  assumes "find_document F s documentType documentId = Inr (Some (d_id, d_number, d_status, d_vendor))"
    and "findById FindUser F user_id (users s) d_vendor = Inr vendor"
  shows "checkPaymentReadiness F s documentType documentId =
    Inr \<lparr>ready = (d_status = Approved \<and>
                  (F QueryPaymentLogs = None \<longrightarrow> success_logs s documentType documentId = []) \<and>
                  vendor_active vendor),
         reason = (if d_status = Approved \<and>
                      (F QueryPaymentLogs = None \<longrightarrow> success_logs s documentType documentId = []) \<and>
                      vendor_active vendor
                   then ''Document ready for payment'' else ''Document not ready for payment''),
         blockers =
           (if d_status \<noteq> Approved then [''Document is not approved''] else []) @
           (if F QueryPaymentLogs = None \<and> success_logs s documentType documentId \<noteq> []
            then [''Payment already processed for this document''] else []) @
           (if \<not> vendor_active vendor then [''Vendor account is inactive or not found''] else []),
         document = Some (d_id, d_number, d_status, d_vendor)\<rparr>"
  using assms
  by (cases "F QueryPaymentLogs"; cases "success_logs s documentType documentId"; cases vendor)
     (simp_all add: checkPaymentReadiness_def existingPayments_def Let_def vendor_active_def
      success_logs_def)

lemma paid_store_lookup:
  "find_document F paid_store ''BAPB'' ''b1'' =
     (case F FindDoc of Some m \<Rightarrow> Inl (StoreError FindDoc m)
      | None \<Rightarrow> Inr (Some (''b1'', ''BAPB/2024/03/0001'', Approved, ''v1'')))"
  "findById FindUser F user_id (users paid_store) ''v1'' =
     (case F FindUser of Some m \<Rightarrow> Inl (StoreError FindUser m) | None \<Rightarrow> Inr (Some vendor_a))"
  "success_logs paid_store ''BAPB'' ''b1'' = [paid_log]"
  by (simp_all add: find_document_def bapb_findById_def findById_def single_def paid_store_def
      store_with_def empty_store_def bapb_doc_def vendor_a_def reviewer_r_def success_logs_def
      paid_log_def split: option.split)

text \<open>
  Claim C8. \<open>checkPaymentReadiness\<close> reads only the data of its payment-log query. For
  an approved document of an active vendor with a success row in the payment log, a
  query that fails leaves that data null: the duplicate-payment check is skipped and
  the document is reported ready, with no blocker, where the claim requires
  \<open>ready = false\<close> with the duplicate-payment blocker.
\<close>

theorem C8_query_failure_counterexample:
  "success_logs paid_store ''BAPB'' ''b1'' = [paid_log] \<and>
   checkPaymentReadiness (failing QueryPaymentLogs ''timeout'') paid_store ''BAPB'' ''b1'' =
     Inr \<lparr>ready = True, reason = ''Document ready for payment'', blockers = [],
          document = Some (''b1'', ''BAPB/2024/03/0001'', Approved, ''v1'')\<rparr>"
  using checkPaymentReadiness_blockers [of "failing QueryPaymentLogs ''timeout''" paid_store
      "''BAPB''" "''b1''" "''b1''" "''BAPB/2024/03/0001''" Approved "''v1''" "Some vendor_a"]
  by (simp add: paid_store_lookup failing_def vendor_active_def vendor_a_def)

text \<open>When the query answers, the same document is not ready and the blocker is named.\<close>

lemma paid_document_not_ready:
  "checkPaymentReadiness no_faults paid_store ''BAPB'' ''b1'' =
     Inr \<lparr>ready = False, reason = ''Document not ready for payment'',
          blockers = [''Payment already processed for this document''],
          document = Some (''b1'', ''BAPB/2024/03/0001'', Approved, ''v1'')\<rparr>"
  using checkPaymentReadiness_blockers [of no_faults paid_store "''BAPB''" "''b1''" "''b1''"
      "''BAPB/2024/03/0001''" Approved "''v1''" "Some vendor_a"]
  by (simp add: paid_store_lookup no_faults_def vendor_active_def vendor_a_def)

section \<open>Payment processing\<close>

lemma processBAPBPayment_effect:
  assumes "bapb_findByIdWithRelations FindDoc F s i = Inr (Some (b, items))"
    and "bapb_status b = Approved"
  shows "journal (snd (processBAPBPayment F isSuccess txn i d s))
       = journal s @ payment_writes F isSuccess (pay_amount d)"
    and "map pl_status (payment_logs (snd (processBAPBPayment F isSuccess txn i d s)))
       = map pl_status (payment_logs s) @
         (if F InsertPaymentLog = None then [if isSuccess then ''success'' else ''failed''] else [])"
    and "map n_type (notifications (snd (processBAPBPayment F isSuccess txn i d s)))
       = map n_type (notifications s) @
         (if isSuccess \<and> pay_amount d \<noteq> None \<and> F InsertNotification = None
          then [''payment_processed''] else [])"
  using assms
  by (simp_all add: processBAPBPayment_def Let_def simulatePaymentGateway_def logPaymentAttempt_def
      notifyPaymentProcessed_def createNotification_def issued_def payment_writes_def
      split: option.split)

lemma processBAPPPayment_effect:
  assumes "bapp_findByIdWithRelations FindDoc F s j = Inr (Some (p, witems))"
    and "bapp_status p = Approved"
  shows "journal (snd (processBAPPPayment F isSuccess txn j d s))
       = journal s @ payment_writes F isSuccess (pay_amount d)"
    and "map pl_status (payment_logs (snd (processBAPPPayment F isSuccess txn j d s)))
       = map pl_status (payment_logs s) @
         (if F InsertPaymentLog = None then [if isSuccess then ''success'' else ''failed''] else [])"
    and "map n_type (notifications (snd (processBAPPPayment F isSuccess txn j d s)))
       = map n_type (notifications s) @
         (if isSuccess \<and> pay_amount d \<noteq> None \<and> F InsertNotification = None
          then [''payment_processed''] else [])"
  using assms
  by (simp_all add: processBAPPPayment_def Let_def simulatePaymentGateway_def logPaymentAttempt_def
      notifyPaymentProcessed_def createNotification_def issued_def payment_writes_def
      split: option.split)

lemma payment_refused:
  "\<not> (\<exists>b items. bapb_findByIdWithRelations FindDoc F s i = Inr (Some (b, items)) \<and> bapb_status b = Approved)
    \<Longrightarrow> snd (processBAPBPayment F isSuccess txn i d s) = s"
  "\<not> (\<exists>p witems. bapp_findByIdWithRelations FindDoc F s j = Inr (Some (p, witems)) \<and> bapp_status p = Approved)
    \<Longrightarrow> snd (processBAPPPayment F isSuccess txn j d s) = s"
  by (auto simp: processBAPBPayment_def processBAPPPayment_def split: sum.splits option.splits)

lemma approved_lookup:
  "bapb_findByIdWithRelations FindDoc F (store_with Approved) ''b1'' =
     (case F FindDoc of Some m \<Rightarrow> Inl (StoreError FindDoc m)
      | None \<Rightarrow> Inr (Some (bapb_doc Approved, [bapb_item])))"
  "bapp_findByIdWithRelations FindDoc F (store_with Approved) ''p1'' =
     (case F FindDoc of Some m \<Rightarrow> Inl (StoreError FindDoc m)
      | None \<Rightarrow> Inr (Some (bapp_doc Approved, [bapp_item])))"
  by (simp_all add: bapb_findByIdWithRelations_def bapp_findByIdWithRelations_def findById_def
      single_def store_with_def empty_store_def bapb_doc_def bapp_doc_def bapb_item_def
      bapp_item_def split: option.split)

text \<open>
  Claim C9. A payment run on an approved document first issues the insert of the
  payment-log row, which carries the gateway status, and after it the insert of the
  notification, which it issues only when the gateway status is success (and the
  payment data has an amount to format). The log row is in the table exactly when the
  store accepted the insert: a refusal is caught inside \<open>logPaymentAttempt\<close> and the run
  goes on. A failed settlement issues no notification.
\<close>

theorem C9_log_attempt_before_notification:
  "(bapb_findByIdWithRelations FindDoc F s i = Inr (Some (b, items)) \<and> bapb_status b = Approved \<longrightarrow>
      journal (snd (processBAPBPayment F isSuccess txn i d s))
        = journal s @ payment_writes F isSuccess (pay_amount d) \<and>
      map pl_status (payment_logs (snd (processBAPBPayment F isSuccess txn i d s)))
        = map pl_status (payment_logs s) @
          (if F InsertPaymentLog = None then [if isSuccess then ''success'' else ''failed''] else []) \<and>
      map n_type (notifications (snd (processBAPBPayment F isSuccess txn i d s)))
        = map n_type (notifications s) @
          (if isSuccess \<and> pay_amount d \<noteq> None \<and> F InsertNotification = None
           then [''payment_processed''] else [])) \<and>
   (bapp_findByIdWithRelations FindDoc F s j = Inr (Some (p, witems)) \<and> bapp_status p = Approved \<longrightarrow>
      journal (snd (processBAPPPayment F isSuccess txn j d s))
        = journal s @ payment_writes F isSuccess (pay_amount d) \<and>
      map pl_status (payment_logs (snd (processBAPPPayment F isSuccess txn j d s)))
        = map pl_status (payment_logs s) @
          (if F InsertPaymentLog = None then [if isSuccess then ''success'' else ''failed''] else []) \<and>
      map n_type (notifications (snd (processBAPPPayment F isSuccess txn j d s)))
        = map n_type (notifications s) @
          (if isSuccess \<and> pay_amount d \<noteq> None \<and> F InsertNotification = None
           then [''payment_processed''] else []))"
  using processBAPBPayment_effect [of F s i b items isSuccess txn d]
    processBAPPPayment_effect [of F s j p witems isSuccess txn d]
  by blast

theorem C9_log_attempt_before_notification_witness:
  "journal (snd (processBAPBPayment no_faults False ''TXN-1'' ''b1'' pay_1000 (store_with Approved)))
     = [(InsertPaymentLog, True)] \<and>
   map pl_status (payment_logs (snd (processBAPBPayment no_faults False ''TXN-1'' ''b1'' pay_1000
       (store_with Approved)))) = [''failed''] \<and>
   notifications (snd (processBAPBPayment no_faults False ''TXN-1'' ''b1'' pay_1000
       (store_with Approved))) = [] \<and>
   journal (snd (processBAPPPayment no_faults False ''TXN-1'' ''p1'' pay_1000 (store_with Approved)))
     = [(InsertPaymentLog, True)] \<and>
   map pl_status (payment_logs (snd (processBAPPPayment no_faults False ''TXN-1'' ''p1'' pay_1000
       (store_with Approved)))) = [''failed''] \<and>
   notifications (snd (processBAPPPayment no_faults False ''TXN-1'' ''p1'' pay_1000
       (store_with Approved))) = []"
proof -
  have l: "bapb_findByIdWithRelations FindDoc no_faults (store_with Approved) ''b1''
      = Inr (Some (bapb_doc Approved, [bapb_item]))"
    "bapp_findByIdWithRelations FindDoc no_faults (store_with Approved) ''p1''
      = Inr (Some (bapp_doc Approved, [bapp_item]))"
    by (simp_all add: approved_lookup no_faults_def)
  have e: "payment_logs (store_with Approved) = []" "notifications (store_with Approved) = []"
    "journal (store_with Approved) = []" "bapb_status (bapb_doc Approved) = Approved"
    "bapp_status (bapp_doc Approved) = Approved"
    by (simp_all add: store_with_def empty_store_def bapb_doc_def bapp_doc_def)
  have w: "payment_writes no_faults False (pay_amount pay_1000) = [(InsertPaymentLog, True)]"
    by (simp add: payment_writes_def no_faults_def)
  from l e w show ?thesis
    using C9_log_attempt_before_notification [of no_faults "store_with Approved" "''b1''"
      "bapb_doc Approved" "[bapb_item]" False "''TXN-1''" pay_1000 "''p1''" "bapp_doc Approved"
      "[bapp_item]"]
    by (simp add: no_faults_def)
qed

text \<open>
  The store refuses the payment-log insert and the gateway reports success: the run
  returns success, the payment log is still empty and the vendor has been notified.
\<close>

theorem C9_unlogged_payment_counterexample:
  "fst (processBAPBPayment (failing InsertPaymentLog ''timeout'') True ''TXN-1'' ''b1'' pay_1000
       (store_with Approved))
     = Inr \<lparr>paid_amount = Some 1000, paid_transactionId = ''TXN-1'', paid_status = ''success''\<rparr> \<and>
   payment_logs (snd (processBAPBPayment (failing InsertPaymentLog ''timeout'') True ''TXN-1'' ''b1''
       pay_1000 (store_with Approved))) = [] \<and>
   map n_type (notifications (snd (processBAPBPayment (failing InsertPaymentLog ''timeout'') True
       ''TXN-1'' ''b1'' pay_1000 (store_with Approved)))) = [''payment_processed'']"
proof -
  have l: "bapb_findByIdWithRelations FindDoc (failing InsertPaymentLog ''timeout'')
      (store_with Approved) ''b1'' = Inr (Some (bapb_doc Approved, [bapb_item]))"
    by (simp add: approved_lookup failing_def)
  have e: "payment_logs (store_with Approved) = []" "notifications (store_with Approved) = []"
    by (simp_all add: store_with_def empty_store_def)
  have f: "failing InsertPaymentLog ''timeout'' InsertPaymentLog = Some ''timeout''"
    "failing InsertPaymentLog ''timeout'' InsertNotification = None"
    by (simp_all add: failing_def)
  show ?thesis
    by (simp add: processBAPBPayment_def l e f Let_def simulatePaymentGateway_def
        logPaymentAttempt_def notifyPaymentProcessed_def createNotification_def issued_def
        pay_1000_def bapb_doc_def)
qed

end
